theory Spec2Isabelle
  imports Complex_Main "HOL-Library.Log_Nat"
begin

section \<open>JavaScript values\<close>

text \<open>
  JavaScript numbers are modelled as HOL reals (doubles idealised: no rounding); the
  numbers kept in typed arrays are rounded to single precision, see below. The one
  place where the IEEE special values matter is the quotient of two element dimensions,
  which gets a result type of its own. A property that is absent from an object reads as
  \<open>undefined\<close> in JavaScript; an optional value \<open>None\<close> stands for it.
\<close>

type_synonym vec3 = "real \<times> real \<times> real"

datatype jsnum = Finite real | Infinity | NaN

text \<open>\<open>offsetWidth / offsetHeight\<close>: both operands are non-negative integers.\<close>

definition js_div :: "nat \<Rightarrow> nat \<Rightarrow> jsnum" where
  "js_div w h =
     (if h = 0 then (if w = 0 then NaN else Infinity) else Finite (real w / real h))"

fun is_finite :: "jsnum \<Rightarrow> bool" where
  "is_finite (Finite r) = True"
| "is_finite Infinity = False"
| "is_finite NaN = False"

datatype js_error = TypeError

text \<open>
  The elements of a \<open>Float32Array\<close> are single-precision numbers: a store converts the
  number to the nearest one that has a significand of 24 bits, a tie going to the even
  significand, and the last bit of a significand never weighs less than \<open>2\<^sup>-\<^sup>1\<^sup>4\<^sup>9\<close>
  (the subnormal numbers). In \<open>fround\<close>, \<open>y\<close> is the magnitude in units of \<open>2\<^sup>-\<^sup>1\<^sup>4\<^sup>9\<close> and
  \<open>k\<close> the number of bits of \<open>y\<close> beyond the 24 that are kept. As for the doubles,
  magnitudes are not bounded above: the conversion of a number that rounds to a magnitude
  of \<open>2\<^sup>1\<^sup>2\<^sup>8\<close> or more, which gives an infinity, is not modelled.
\<close>

definition round_half_even :: "real \<Rightarrow> int" where
  "round_half_even y =
     (let f = \<lfloor>y\<rfloor>
      in if y - of_int f < 1 / 2 then f
         else if 1 / 2 < y - of_int f then f + 1
         else if even f then f else f + 1)"

definition fround :: "real \<Rightarrow> real" where
  "fround x =
     (let y = \<bar>x\<bar> * 2 ^ 149;
          k = nat (bitlen \<lfloor>y\<rfloor> - 24)
      in sgn x * (of_int (round_half_even (y / 2 ^ k)) * 2 ^ k / 2 ^ 149))"

text \<open>
  \<open>Math.random()\<close>: the source of randomness is an explicit stream of samples, each in
  the interval from 0 (included) to 1 (excluded). A piece of code that draws \<open>k\<close> samples
  reads \<open>g 0\<close>, ..., \<open>g (k - 1)\<close> in the order of its calls and leaves \<open>skip k g\<close>.
\<close>

type_synonym rng = "nat \<Rightarrow> real"

definition skip :: "nat \<Rightarrow> rng \<Rightarrow> rng" where
  "skip k g = (\<lambda>n. g (n + k))"

section \<open>Theme colour management\<close>

record palette =
  primary :: "nat option"
  secondary :: "nat option"
  highlight :: "nat option"
  depth1 :: "nat option"
  depth2 :: "nat option"
  depth3 :: "nat option"
  depth4 :: "nat option"
  depth5 :: "nat option"
  background :: "nat option"
  particleOpacity :: "real option"
  lineOpacity :: "real option"
  glowOpacity :: "real option"
  wireframeOpacity :: "real option"
  solidOpacity :: "real option"
  emissiveIntensity :: "real option"

definition ThemeColors_dark :: palette where
  "ThemeColors_dark = \<lparr>
     primary = Some 0x0EA5E9, secondary = Some 0x06B6D4, highlight = Some 0x14B8A6,
     depth1 = None, depth2 = None, depth3 = None, depth4 = None, depth5 = None,
     background = Some 0x1a1a25,
     particleOpacity = Some 0.8, lineOpacity = Some 0.3, glowOpacity = Some 0.9,
     wireframeOpacity = None, solidOpacity = None, emissiveIntensity = None \<rparr>"

definition ThemeColors_light :: palette where
  "ThemeColors_light = \<lparr>
     primary = Some 0x1e40af, secondary = Some 0x3b82f6, highlight = Some 0x60a5fa,
     depth1 = Some 0x1e3a8a, depth2 = Some 0x2563eb, depth3 = Some 0x3b82f6,
     depth4 = Some 0x60a5fa, depth5 = Some 0x93c5fd,
     background = Some 0xfafbfd,
     particleOpacity = Some 0.75, lineOpacity = Some 0.35, glowOpacity = Some 0.5,
     wireframeOpacity = Some 0.6, solidOpacity = Some 0.85, emissiveIntensity = Some 0.15 \<rparr>"

text \<open>An object that has none of the palette's properties: every read is \<open>undefined\<close>.\<close>

definition no_palette_fields :: palette where
  "no_palette_fields = \<lparr>
     primary = None, secondary = None, highlight = None,
     depth1 = None, depth2 = None, depth3 = None, depth4 = None, depth5 = None,
     background = None,
     particleOpacity = None, lineOpacity = None, glowOpacity = None,
     wireframeOpacity = None, solidOpacity = None, emissiveIntensity = None \<rparr>"

text \<open>
  \<open>ThemeColors\<close> is an object literal, so \<open>ThemeColors[key]\<close> finds its own two
  properties, then the properties every object inherits from \<open>Object.prototype\<close>, and is
  \<open>undefined\<close> for every other key.
\<close>

definition object_prototype_keys :: "string list" where
  "object_prototype_keys =
     [''constructor'', ''__proto__'', ''hasOwnProperty'', ''isPrototypeOf'',
      ''propertyIsEnumerable'', ''toLocaleString'', ''toString'', ''valueOf'',
      ''__defineGetter__'', ''__defineSetter__'', ''__lookupGetter__'', ''__lookupSetter__'']"

datatype lookup = Own palette | Inherited | Undefined

definition ThemeColors :: "string \<Rightarrow> lookup" where
  "ThemeColors key =
     (if key = ''dark'' then Own ThemeColors_dark
      else if key = ''light'' then Own ThemeColors_light
      else if key \<in> set object_prototype_keys then Inherited
      else Undefined)"

text \<open>
  \<open>getAttribute('data-theme') || 'dark'\<close>: the attribute is \<open>null\<close> when it is not set,
  and both \<open>null\<close> and the empty string are falsy.
\<close>

definition getCurrentTheme :: "string option \<Rightarrow> string" where
  "getCurrentTheme attr =
     (case attr of None \<Rightarrow> ''dark'' | Some v \<Rightarrow> if v = [] then ''dark'' else v)"

definition getThemeColors :: "string option \<Rightarrow> lookup" where
  "getThemeColors attr = ThemeColors (getCurrentTheme attr)"

text \<open>
  Reading a property of the value that \<open>getThemeColors\<close> returned: a \<open>TypeError\<close> when
  the value is \<open>undefined\<close>, the palette's fields when it is a palette, and no fields at
  all when it is a member of \<open>Object.prototype\<close>.
\<close>

fun fields_of :: "lookup \<Rightarrow> js_error + palette" where
  "fields_of (Own p) = Inr p"
| "fields_of Inherited = Inr no_palette_fields"
| "fields_of Undefined = Inl TypeError"

section \<open>The page\<close>

text \<open>
  What the scripts see of the browser: the \<open>data-theme\<close> attribute of the document
  root, the stored preference (\<open>localStorage\<close>), the elements that have an id with their
  current dimensions, and the listeners, observers and frame callbacks registered so far.
  \<open>calls\<close> records, in order, the calls that a render-loop invocation makes to the host
  and to the graphics library.
\<close>

datatype scene_class = Hero | Processor | Neural | Floating | Feature

datatype call = RequestAnimationFrame scene_class | GetElapsedTime scene_class
  | Render scene_class

record element =
  offsetWidth :: nat
  offsetHeight :: nat
  canvases :: nat

record page =
  data_theme :: "string option"
  saved_theme :: "string option"
  elements :: "string \<rightharpoonup> element"
  devicePixelRatio :: real
  resize_listeners :: "scene_class list"
  mousemove_listeners :: "scene_class list"
  theme_observers :: "scene_class list"
  frame_requests :: "scene_class list"
  calls :: "call list"

text \<open>\<open>initTheme\<close> of main.js, up to the registration of the toggle's click handler.\<close>

definition initTheme :: "page \<Rightarrow> page" where
  "initTheme pg =
     (let savedTheme = (case saved_theme pg of None \<Rightarrow> ''dark''
                        | Some v \<Rightarrow> if v = [] then ''dark'' else v)
      in pg\<lparr>data_theme := Some savedTheme\<rparr>)"

text \<open>The click handler of the theme toggle.\<close>

definition toggle_click :: "page \<Rightarrow> page" where
  "toggle_click pg =
     (let currentTheme = data_theme pg;
          newTheme = (if currentTheme = Some ''dark'' then ''light'' else ''dark'')
      in pg\<lparr>data_theme := Some newTheme, saved_theme := Some newTheme\<rparr>)"

text \<open>
  The dimensions of a scene's container. The scene keeps the element itself; an element
  that has left the page has width and height 0.
\<close>

definition container_size :: "page \<Rightarrow> string \<Rightarrow> nat \<times> nat" where
  "container_size pg cid =
     (case elements pg cid of None \<Rightarrow> (0, 0)
      | Some el \<Rightarrow> (offsetWidth el, offsetHeight el))"

definition appendChild :: "string \<Rightarrow> page \<Rightarrow> page" where
  "appendChild cid pg =
     (case elements pg cid of None \<Rightarrow> pg
      | Some el \<Rightarrow> pg\<lparr>elements := (elements pg)(cid \<mapsto> el\<lparr>canvases := canvases el + 1\<rparr>)\<rparr>)"

section \<open>Objects of the graphics library\<close>

text \<open>
  Only what the scenes set or read of the library's objects is kept. A colour is the
  hexadecimal number it was set from, and \<open>None\<close> when it was set from \<open>undefined\<close>.
\<close>

datatype geometry =
    IcosahedronGeometry real nat
  | SphereGeometry real nat nat
  | TorusGeometry real real nat nat
  | GridHelperGeometry nat nat "nat option" nat
  | PointsGeometry "vec3 list"

record material =
  color :: "nat option"
  opacity :: "real option"
  transparent :: bool
  wireframe :: bool
  vertexColors :: bool
  additiveBlending :: bool
  depthWrite :: bool
  pointSize :: "real option"

text \<open>
  The library's class hierarchy as record extension: every object has a transform, a
  drawable object has a material as well, a mesh (or line) a geometry, and a
  \<open>THREE.Points\<close> object the arrays of its geometry's attributes.

  The library gives every object, every material and every geometry an identity when it
  creates it (its \<open>uuid\<close>), and nothing changes it afterwards. The model numbers the
  identities that a scene gives to its drawable objects, their materials and their
  geometries in the order of the creations; a scene counts them in \<open>allocated\<close> (below). A
  drawable object records its own identity and those of its material and its geometry.
\<close>

record object3d =
  position :: vec3
  rotation :: vec3
  scale :: vec3

record drawable = object3d +
  material :: material
  uuid :: nat
  material_uuid :: nat
  geometry_uuid :: nat

record mesh = drawable +
  geometry :: geometry

record points = drawable +
  position_array :: "real list"
  color_array :: "real list"
  size_array :: "real list option"

record perspective_camera = object3d +
  fov :: real
  aspect :: jsnum
  near :: real
  far :: real
  projection_aspect :: jsnum
  lookAt :: "vec3 option"

record webgl_renderer =
  width :: nat
  height :: nat
  pixelRatio :: real
  frames :: nat

definition MeshBasicMaterial :: "nat option \<Rightarrow> bool \<Rightarrow> bool \<Rightarrow> real option \<Rightarrow> material" where
  "MeshBasicMaterial c wire tr opac =
     \<lparr>color = c, opacity = opac, transparent = tr, wireframe = wire, vertexColors = False,
      additiveBlending = False, depthWrite = True, pointSize = None\<rparr>"

definition LineBasicMaterial :: "nat option \<Rightarrow> bool \<Rightarrow> real option \<Rightarrow> material" where
  "LineBasicMaterial c tr opac =
     \<lparr>color = c, opacity = opac, transparent = tr, wireframe = False, vertexColors = False,
      additiveBlending = False, depthWrite = True, pointSize = None\<rparr>"

text \<open>
  \<open>new THREE.Mesh(geometry, material)\<close>, and \<open>new THREE.Line(geometry, material)\<close>, for
  a geometry and a material that have just been created, in this order, as everywhere in
  these scenes: the three identities are consecutive, and \<open>n\<close> is the number of identities
  given out before.
\<close>

definition Mesh :: "nat \<Rightarrow> geometry \<Rightarrow> material \<Rightarrow> mesh" where
  "Mesh n geo mat =
     \<lparr>position = (0, 0, 0), rotation = (0, 0, 0), scale = (1, 1, 1), material = mat,
      uuid = n + 2, material_uuid = n + 1, geometry_uuid = n, geometry = geo\<rparr>"

text \<open>The camera's constructor computes the projection from the aspect it is given.\<close>

definition PerspectiveCamera :: "real \<Rightarrow> jsnum \<Rightarrow> real \<Rightarrow> real \<Rightarrow> perspective_camera" where
  "PerspectiveCamera f a n fr =
     \<lparr>position = (0, 0, 0), rotation = (0, 0, 0), scale = (1, 1, 1),
      fov = f, aspect = a, near = n, far = fr, projection_aspect = a, lookAt = None\<rparr>"

definition updateProjectionMatrix :: "perspective_camera \<Rightarrow> perspective_camera" where
  "updateProjectionMatrix cam = cam\<lparr>projection_aspect := aspect cam\<rparr>"

definition WebGLRenderer :: webgl_renderer where
  "WebGLRenderer = \<lparr>width = 300, height = 150, pixelRatio = 1, frames = 0\<rparr>"

definition setSize :: "nat \<Rightarrow> nat \<Rightarrow> webgl_renderer \<Rightarrow> webgl_renderer" where
  "setSize w h r = r\<lparr>width := w, height := h\<rparr>"

definition render :: "webgl_renderer \<Rightarrow> webgl_renderer" where
  "render r = r\<lparr>frames := frames r + 1\<rparr>"

fun set_x :: "real \<Rightarrow> vec3 \<Rightarrow> vec3" where
  "set_x v (x, y, z) = (v, y, z)"

fun set_y :: "real \<Rightarrow> vec3 \<Rightarrow> vec3" where
  "set_y v (x, y, z) = (x, v, z)"

fun set_z :: "real \<Rightarrow> vec3 \<Rightarrow> vec3" where
  "set_z v (x, y, z) = (x, y, v)"

fun vx :: "vec3 \<Rightarrow> real" where
  "vx (x, y, z) = x"

fun vy :: "vec3 \<Rightarrow> real" where
  "vy (x, y, z) = y"

fun vz :: "vec3 \<Rightarrow> real" where
  "vz (x, y, z) = z"

text \<open>\<open>a.distanceTo(b)\<close> of the library's vectors.\<close>

fun distanceTo :: "vec3 \<Rightarrow> vec3 \<Rightarrow> real" where
  "distanceTo (x1, y1, z1) (x2, y2, z2) =
     sqrt ((x1 - x2) * (x1 - x2) + (y1 - y2) * (y1 - y2) + (z1 - z2) * (z1 - z2))"

text \<open>
  \<open>new THREE.Color(hex)\<close> as its three channels (a colour made from \<open>undefined\<close> is
  white), and \<open>a.clone().lerp(b, alpha)\<close>.
\<close>

definition Color :: "nat option \<Rightarrow> vec3" where
  "Color hex =
     (case hex of None \<Rightarrow> (1, 1, 1)
      | Some h \<Rightarrow> (real ((h div 65536) mod 256) / 255, real ((h div 256) mod 256) / 255,
                    real (h mod 256) / 255))"

fun lerp :: "vec3 \<Rightarrow> vec3 \<Rightarrow> real \<Rightarrow> vec3" where
  "lerp (r1, g1, b1) (r2, g2, b2) alpha =
     (r1 + (r2 - r1) * alpha, g1 + (g2 - g1) * alpha, b1 + (b2 - b1) * alpha)"

text \<open>\<open>m.color.setHex(c); m.opacity = o\<close> on the material of an object.\<close>

definition setHex :: "nat option \<Rightarrow> 'a drawable_scheme \<Rightarrow> 'a drawable_scheme" where
  "setHex c ob = ob\<lparr>material := (material ob)\<lparr>color := c\<rparr>\<rparr>"

definition set_opacity :: "real option \<Rightarrow> 'a drawable_scheme \<Rightarrow> 'a drawable_scheme" where
  "set_opacity opac ob = ob\<lparr>material := (material ob)\<lparr>opacity := opac\<rparr>\<rparr>"

text \<open>A scene object either found its container and was built, or did not.\<close>

datatype 's scene_object = NoContainer | Built 's

record scene_base =
  container :: string
  camera :: perspective_camera
  renderer :: webgl_renderer
  scene_children :: nat
  allocated :: nat

text \<open>
  \<open>onResize\<close> is the same method in all five scene classes. It is only ever called on a
  scene that found its container.
\<close>

definition onResize :: "page \<Rightarrow> 'a scene_base_scheme \<Rightarrow> 'a scene_base_scheme" where
  "onResize pg this =
     (let (w, h) = container_size pg (container this)
      in this\<lparr>camera := updateProjectionMatrix ((camera this)\<lparr>aspect := js_div w h\<rparr>),
              renderer := setSize w h (renderer this)\<rparr>)"

fun onResize_instance :: "page \<Rightarrow> ('a scene_base_scheme) scene_object \<Rightarrow> ('a scene_base_scheme) scene_object" where
  "onResize_instance pg NoContainer = NoContainer"
| "onResize_instance pg (Built this) = Built (onResize pg this)"

section \<open>Hero section: the quantum particle system\<close>

record particle =
  index :: nat
  radius :: real
  theta :: real
  phi :: real
  speed :: real
  phaseOffset :: real

text \<open>
  The objects that the scenes keep in their lists hold a mesh, most of them with a phase
  as well.
\<close>

record holder =
  mesh :: mesh

record with_phase = holder +
  phase :: real

record orbital = holder +
  rotationSpeed :: vec3

type_synonym entanglement_line = with_phase

record hero = scene_base +
  core :: "mesh option"
  innerCore :: "mesh option"
  glowSphere :: "mesh option"
  particleSystem :: "points option"
  particles :: "particle list"
  quantumOrbitals :: "orbital list"
  entanglementLines :: "entanglement_line list"
  mouse :: "real \<times> real"

definition hero_createQuantumCore :: "page \<Rightarrow> hero \<Rightarrow> js_error + hero" where
  "hero_createQuantumCore pg this =
     (case fields_of (getThemeColors (data_theme pg)) of
        Inl e \<Rightarrow> Inl e
      | Inr colors \<Rightarrow>
          Inr (this\<lparr>
            core := Some (Mesh (allocated this) (IcosahedronGeometry 2 2)
                      (MeshBasicMaterial (primary colors) True True (Some 0.8))),
            innerCore := Some (Mesh (allocated this + 3) (IcosahedronGeometry 1 1)
                      (MeshBasicMaterial (secondary colors) True True (Some 0.6))),
            glowSphere := Some (Mesh (allocated this + 6) (SphereGeometry 0.5 32 32)
                      (MeshBasicMaterial (primary colors) False True (glowOpacity colors))),
            scene_children := scene_children this + 3,
            allocated := allocated this + 9\<rparr>))"

text \<open>
  One iteration of each of the two loops of \<open>createParticles\<close>. The state is the three
  typed arrays (\<open>Float32Array\<close>), \<open>this.particles\<close> and the random source; a write past
  the end of a typed array is ignored, as a list update is.
\<close>

type_synonym particle_state = "real list \<times> real list \<times> real list \<times> particle list \<times> rng"

definition light_particle :: "vec3 \<Rightarrow> vec3 \<Rightarrow> nat \<Rightarrow> particle_state \<Rightarrow> particle_state" where
  "light_particle colorDark colorLight i st =
     (case st of (positions, particleColors, sizes, ps, g) \<Rightarrow>
        let radius = 8 + g 0 * 20;
            theta = g 1 * pi * 2;
            phi = arccos (2 * g 2 - 1);
            depthRatio = (radius - 8) / 20;
            color = lerp colorDark colorLight depthRatio
        in (positions[i * 3 := fround (radius * sin phi * cos theta),
                      i * 3 + 1 := fround (radius * sin phi * sin theta),
                      i * 3 + 2 := fround (radius * cos phi)],
            particleColors[i * 3 := fround (vx color), i * 3 + 1 := fround (vy color),
                           i * 3 + 2 := fround (vz color)],
            sizes[i := fround (g 3 * 2 + 0.5)],
            ps @ [\<lparr>index = i, radius = radius, theta = theta, phi = phi,
                   speed = 0.001 + g 4 * 0.002, phaseOffset = g 5 * pi * 2\<rparr>],
            skip 6 g))"

definition dark_particle :: "vec3 \<Rightarrow> vec3 \<Rightarrow> nat \<Rightarrow> particle_state \<Rightarrow> particle_state" where
  "dark_particle colorPrimary colorSecondary i st =
     (case st of (positions, particleColors, sizes, ps, g) \<Rightarrow>
        let radius = 8 + g 0 * 20;
            theta = g 1 * pi * 2;
            phi = arccos (2 * g 2 - 1);
            mixRatio = g 3;
            color = lerp colorPrimary colorSecondary mixRatio
        in (positions[i * 3 := fround (radius * sin phi * cos theta),
                      i * 3 + 1 := fround (radius * sin phi * sin theta),
                      i * 3 + 2 := fround (radius * cos phi)],
            particleColors[i * 3 := fround (vx color), i * 3 + 1 := fround (vy color),
                           i * 3 + 2 := fround (vz color)],
            sizes[i := fround (g 4 * 2 + 0.5)],
            ps @ [\<lparr>index = i, radius = radius, theta = theta, phi = phi,
                   speed = 0.001 + g 5 * 0.002, phaseOffset = g 6 * pi * 2\<rparr>],
            skip 7 g))"

definition particleCount :: nat where
  "particleCount = 500"

definition hero_createParticles :: "page \<Rightarrow> rng \<Rightarrow> hero \<Rightarrow> js_error + hero \<times> rng" where
  "hero_createParticles pg g this =
     (let theme = getCurrentTheme (data_theme pg);
          start = (replicate (particleCount * 3) 0, replicate (particleCount * 3) 0,
                   replicate particleCount 0, particles this, g)
      in case fields_of (getThemeColors (data_theme pg)) of
           Inl e \<Rightarrow> Inl e
         | Inr colors \<Rightarrow>
             (case (if theme = ''light''
                    then fold (light_particle (Color (depth2 colors)) (Color (depth5 colors)))
                           [0..<particleCount] start
                    else fold (dark_particle (Color (primary colors)) (Color (secondary colors)))
                           [0..<particleCount] start)
              of (positions, particleColors, sizes, ps, g') \<Rightarrow>
                Inr (this\<lparr>
                  particles := ps,
                  particleSystem := Some \<lparr>
                    position = (0, 0, 0), rotation = (0, 0, 0), scale = (1, 1, 1),
                    material = \<lparr>color = Some 0xffffff, opacity = particleOpacity colors,
                      transparent = True, wireframe = False, vertexColors = True,
                      additiveBlending = True, depthWrite = False, pointSize = Some 0.15\<rparr>,
                    uuid = allocated this + 2, material_uuid = allocated this + 1,
                    geometry_uuid = allocated this,
                    position_array = positions, color_array = particleColors,
                    size_array = Some sizes\<rparr>,
                  scene_children := scene_children this + 1,
                  allocated := allocated this + 3\<rparr>, g')))"

definition orbital_ring :: "nat \<Rightarrow> palette \<Rightarrow> nat \<Rightarrow> orbital" where
  "orbital_ring n colors i =
     (let ringCount = 3;
          ringColors = [primary colors, secondary colors, highlight colors];
          ring = (Mesh n (TorusGeometry (5 + real i * 3) 0.02 16 100)
                    (MeshBasicMaterial (ringColors ! i) False True (Some 0.4)))
                 \<lparr>rotation := (pi / 2 + real i * 0.3, real i * 0.5, 0)\<rparr>
      in \<lparr>mesh = ring,
          rotationSpeed = (0.001 * (real i + 1), 0.002 * (ringCount - real i),
                           0.0015 * (real i + 1))\<rparr>)"

definition hero_createOrbitalRings :: "page \<Rightarrow> hero \<Rightarrow> js_error + hero" where
  "hero_createOrbitalRings pg this =
     (case fields_of (getThemeColors (data_theme pg)) of
        Inl e \<Rightarrow> Inl e
      | Inr colors \<Rightarrow>
          Inr (fold (\<lambda>i this. this\<lparr>quantumOrbitals := quantumOrbitals this @
                                     [orbital_ring (allocated this) colors i],
                                   scene_children := scene_children this + 1,
                                   allocated := allocated this + 3\<rparr>)
                 [0..<3] this))"

text \<open>One line of \<open>createEntanglementLines\<close>: it draws 55 samples.\<close>

definition entangled_line :: "nat \<Rightarrow> palette \<Rightarrow> rng \<Rightarrow> entanglement_line" where
  "entangled_line n colors g =
     (let startAngle = g 0 * pi * 2;
          radius = 4 + g 1 * 8;
          points = map (\<lambda>j. let t = real j / 50;
                                 angle = startAngle + t * pi * 2;
                                 r = radius * (1 + 0.3 * sin (t * pi * 4))
                             in (r * cos angle, (g (2 + j) - 0.5) * 10 * sin (t * pi),
                                 r * sin angle))
                     [0..<51];
          mat = LineBasicMaterial (if g 53 > 0.5 then primary colors else secondary colors)
                  True (Some 0.2)
      in \<lparr>mesh = Mesh n (PointsGeometry points) mat, phase = g 54 * pi * 2\<rparr>)"

definition hero_createEntanglementLines :: "page \<Rightarrow> rng \<Rightarrow> hero \<Rightarrow> js_error + hero \<times> rng" where
  "hero_createEntanglementLines pg g this =
     (let lineCount = 20
      in case fields_of (getThemeColors (data_theme pg)) of
           Inl e \<Rightarrow> Inl e
         | Inr colors \<Rightarrow>
             Inr (fold (\<lambda>i (this, g).
                         (this\<lparr>entanglementLines := entanglementLines this @
                                 [entangled_line (allocated this) colors g],
                               scene_children := scene_children this + 1,
                               allocated := allocated this + 3\<rparr>, skip 55 g))
                    [0..<lineCount] (this\<lparr>entanglementLines := []\<rparr>, g)))"

text \<open>
  \<open>updateColors\<close>. The palette is not read before the first object is recoloured, so an
  \<open>undefined\<close> palette raises only when the scene has an object, and then before anything
  has been changed.
\<close>

definition hero_has_objects :: "hero \<Rightarrow> bool" where
  "hero_has_objects this \<longleftrightarrow>
     core this \<noteq> None \<or> innerCore this \<noteq> None \<or> glowSphere this \<noteq> None
     \<or> particleSystem this \<noteq> None \<or> quantumOrbitals this \<noteq> []
     \<or> entanglementLines this \<noteq> []"

definition hero_updateColors_light :: "palette \<Rightarrow> hero \<Rightarrow> hero" where
  "hero_updateColors_light colors this =
     this\<lparr>
       core := map_option (\<lambda>ob. set_opacity (wireframeOpacity colors) (setHex (depth1 colors) ob))
                 (core this),
       innerCore := map_option (\<lambda>ob. set_opacity (map_option (\<lambda>v. v * 0.8) (wireframeOpacity colors))
                                      (setHex (depth2 colors) ob))
                 (innerCore this),
       glowSphere := map_option (\<lambda>ob. set_opacity (glowOpacity colors) (setHex (depth3 colors) ob))
                 (glowSphere this),
       particleSystem := map_option
                 (set_opacity (particleOpacity colors))
                 (particleSystem this),
       quantumOrbitals := map (\<lambda>(i, orbital).
                   let depthColors = [depth2 colors, depth3 colors, depth4 colors]
                   in orbital\<lparr>mesh :=
                        set_opacity (Some (0.5 - real i * 0.1))
                          (setHex (depthColors ! (i mod 3)) (mesh orbital))\<rparr>)
                 (enumerate 0 (quantumOrbitals this)),
       entanglementLines := map (\<lambda>(i, line).
                   line\<lparr>mesh := set_opacity (lineOpacity colors) (setHex (depth4 colors) (mesh line))\<rparr>)
                 (enumerate 0 (entanglementLines this))\<rparr>"

definition hero_updateColors_dark :: "palette \<Rightarrow> rng \<Rightarrow> hero \<Rightarrow> hero \<times> rng" where
  "hero_updateColors_dark colors g this =
     (this\<lparr>
       core := map_option (\<lambda>ob. set_opacity (Some 0.8) (setHex (primary colors) ob)) (core this),
       innerCore := map_option (\<lambda>ob. set_opacity (Some 0.6) (setHex (secondary colors) ob))
                 (innerCore this),
       glowSphere := map_option (\<lambda>ob. set_opacity (glowOpacity colors) (setHex (primary colors) ob))
                 (glowSphere this),
       particleSystem := map_option
                 (set_opacity (particleOpacity colors))
                 (particleSystem this),
       quantumOrbitals := map (\<lambda>(i, orbital).
                   let ringColors = [primary colors, secondary colors, highlight colors]
                   in orbital\<lparr>mesh :=
                        set_opacity (Some 0.4) (setHex (ringColors ! (i mod 3)) (mesh orbital))\<rparr>)
                 (enumerate 0 (quantumOrbitals this)),
       entanglementLines := map (\<lambda>(i, line).
                   line\<lparr>mesh := set_opacity (Some 0.2)
                     (setHex (if g i > 0.5 then primary colors else secondary colors) (mesh line))\<rparr>)
                 (enumerate 0 (entanglementLines this))\<rparr>,
      skip (length (entanglementLines this)) g)"

definition hero_updateColors :: "page \<Rightarrow> rng \<Rightarrow> hero \<Rightarrow> js_error + hero \<times> rng" where
  "hero_updateColors pg g this =
     (let theme = getCurrentTheme (data_theme pg)
      in case fields_of (getThemeColors (data_theme pg)) of
           Inl e \<Rightarrow> if hero_has_objects this then Inl e else Inr (this, g)
         | Inr colors \<Rightarrow>
             if theme = ''light'' then Inr (hero_updateColors_light colors this, g)
             else Inr (hero_updateColors_dark colors g this))"

text \<open>
  The per-frame update: the body of \<open>animate\<close> between the reading of the clock and the
  call of the renderer. \<open>time\<close> is the clock's reading. The positions are written into the
  \<open>Float32Array\<close> of the particle system's geometry.
\<close>

definition animate_particle :: "real \<Rightarrow> particle \<Rightarrow> real list \<Rightarrow> particle \<times> real list" where
  "animate_particle time particle positions =
     (let particle = particle\<lparr>theta := theta particle + speed particle\<rparr>;
          r = radius particle + sin (time + phaseOffset particle) * 2
      in (particle,
          positions[index particle * 3 := fround (r * sin (phi particle) * cos (theta particle)),
                    index particle * 3 + 1 := fround (r * sin (phi particle) * sin (theta particle)),
                    index particle * 3 + 2 := fround (r * cos (phi particle))]))"

fun animate_particles :: "real \<Rightarrow> particle list \<Rightarrow> real list \<Rightarrow> particle list \<times> real list" where
  "animate_particles time [] positions = ([], positions)"
| "animate_particles time (particle # rest) positions =
     (case animate_particle time particle positions of
        (particle', positions') \<Rightarrow>
          (case animate_particles time rest positions' of
             (rest', positions'') \<Rightarrow> (particle' # rest', positions'')))"

definition hero_tick :: "real \<Rightarrow> hero \<Rightarrow> hero" where
  "hero_tick time this =
     (let this = this\<lparr>
            core := map_option
              (\<lambda>ob. ob\<lparr>rotation := set_y (time * 0.3) (set_x (time * 0.2) (rotation ob))\<rparr>)
              (core this),
            innerCore := map_option
              (\<lambda>ob. ob\<lparr>rotation := set_y (- time * 0.2) (set_x (- time * 0.3) (rotation ob))\<rparr>)
              (innerCore this),
            glowSphere := map_option
              (\<lambda>ob. let scale = 1 + 0.2 * sin (time * 2) in ob\<lparr>scale := (scale, scale, scale)\<rparr>)
              (glowSphere this)\<rparr>;
          this = (case particleSystem this of
                    None \<Rightarrow> this
                  | Some ps \<Rightarrow>
                      (case animate_particles time (particles this) (position_array ps) of
                         (particles', positions) \<Rightarrow>
                           this\<lparr>particles := particles',
                                particleSystem := Some (ps\<lparr>
                                  position_array := positions,
                                  rotation := set_y (time * 0.05) (rotation ps)\<rparr>)\<rparr>));
          this = this\<lparr>
            quantumOrbitals := map
              (\<lambda>orbital. orbital\<lparr>mesh := (mesh orbital)\<lparr>rotation :=
                 (case (rotation (mesh orbital), rotationSpeed orbital) of
                    ((x, y, z), (sx, sy, sz)) \<Rightarrow> (x + sx, y + sy, z + sz))\<rparr>\<rparr>)
              (quantumOrbitals this),
            entanglementLines := map
              (\<lambda>line. line\<lparr>mesh :=
                 set_opacity (Some (0.1 + 0.1 * sin (time * 2 + phase line)))
                   ((mesh line)\<lparr>rotation := set_y (time * 0.1 + phase line) (rotation (mesh line))\<rparr>)\<rparr>)
              (entanglementLines this)\<rparr>;
          cam = camera this;
          cam = cam\<lparr>position := set_x (vx (position cam) + (fst (mouse this) * 5 - vx (position cam)) * 0.02)
                                   (position cam)\<rparr>;
          cam = cam\<lparr>position := set_y (vy (position cam) + (snd (mouse this) * 3 - vy (position cam)) * 0.02)
                                   (position cam)\<rparr>;
          cam = cam\<lparr>lookAt := Some (0, 0, 0)\<rparr>
      in this\<lparr>camera := cam\<rparr>)"

text \<open>
  \<open>animate\<close>: the statements of the source in their order. The frame request, the clock
  reading and the render call are appended to the page's record of calls as they happen.
\<close>

definition hero_animate :: "real \<Rightarrow> page \<times> hero \<Rightarrow> page \<times> hero" where
  "hero_animate time st =
     (case st of (pg, this) \<Rightarrow>
        let pg = pg\<lparr>frame_requests := frame_requests pg @ [Hero],
                    calls := calls pg @ [RequestAnimationFrame Hero]\<rparr>;
            pg = pg\<lparr>calls := calls pg @ [GetElapsedTime Hero]\<rparr>;
            this = hero_tick time this;
            this = this\<lparr>renderer := render (renderer this)\<rparr>;
            pg = pg\<lparr>calls := calls pg @ [Render Hero]\<rparr>
        in (pg, this))"

text \<open>
  \<open>setupThemeObserver\<close> creates one observer of the document root's attributes; it is the
  same method in all five classes.
\<close>

definition setupThemeObserver :: "scene_class \<Rightarrow> page \<Rightarrow> page" where
  "setupThemeObserver cls pg = pg\<lparr>theme_observers := theme_observers pg @ [cls]\<rparr>"

text \<open>
  \<open>init\<close> and the constructor. The result carries the page and the random source as the
  code left them, also when an exception ends the construction. The scene's clock starts
  at its first reading, in the first call of \<open>animate\<close>, which is therefore 0.
\<close>

definition hero_init :: "page \<Rightarrow> rng \<Rightarrow> hero \<Rightarrow> page \<times> rng \<times> (js_error + hero)" where
  "hero_init pg g this =
     (let (w, h) = container_size pg (container this);
          this = this\<lparr>renderer := (setSize w h (renderer this))
                                      \<lparr>pixelRatio := min (devicePixelRatio pg) 2\<rparr>\<rparr>;
          pg = appendChild (container this) pg;
          this = this\<lparr>camera := (camera this)\<lparr>position := set_z 30 (position (camera this))\<rparr>\<rparr>
      in case hero_createQuantumCore pg this of
           Inl e \<Rightarrow> (pg, g, Inl e)
         | Inr this \<Rightarrow>
       (case hero_createParticles pg g this of
           Inl e \<Rightarrow> (pg, g, Inl e)
         | Inr (this, g) \<Rightarrow>
       (case hero_createOrbitalRings pg this of
           Inl e \<Rightarrow> (pg, g, Inl e)
         | Inr this \<Rightarrow>
       (case hero_createEntanglementLines pg g this of
           Inl e \<Rightarrow> (pg, g, Inl e)
         | Inr (this, g) \<Rightarrow>
             let pg = pg\<lparr>resize_listeners := resize_listeners pg @ [Hero]\<rparr>;
                 pg = pg\<lparr>mousemove_listeners := mousemove_listeners pg @ [Hero]\<rparr>;
                 pg = setupThemeObserver Hero pg;
                 (pg, this) = hero_animate 0 (pg, this)
             in (pg, g, Inr this)))))"

definition QuantumHeroScene :: "string \<Rightarrow> page \<Rightarrow> rng \<Rightarrow> page \<times> rng \<times> (js_error + hero scene_object)" where
  "QuantumHeroScene containerId pg g =
     (case elements pg containerId of
        None \<Rightarrow> (pg, g, Inr NoContainer)
      | Some el \<Rightarrow>
          (case hero_init pg g
                  \<lparr>container = containerId,
                   camera = PerspectiveCamera 75 (js_div (offsetWidth el) (offsetHeight el)) 0.1 1000,
                   renderer = WebGLRenderer, scene_children = 0, allocated = 0,
                   core = None, innerCore = None, glowSphere = None, particleSystem = None,
                   particles = [], quantumOrbitals = [], entanglementLines = [], mouse = (0, 0)\<rparr>
           of (pg, g, r) \<Rightarrow> (pg, g, map_sum id Built r)))"

section \<open>Technology section: the quantum processor\<close>

record qubit = with_phase +
  ring :: mesh
  baseY :: real
  frequency :: real

text \<open>
  \<open>scene_lines\<close> are the lines that \<open>createConnections\<close> adds to the scene; the source
  keeps them nowhere else. \<open>createConnections\<close> first creates one line material, which
  takes an identity and is given to no object; each line gets a clone of it, which is a
  material of its own. The grid helper creates its geometry and its material itself.
\<close>

record processor = scene_base +
  gridHelper :: "mesh option"
  qubits :: "qubit list"
  scene_lines :: "mesh list"

text \<open>
  The light branch of \<open>createQuantumGrid\<close> does not read the palette; the theme is then
  \<open>light\<close> and the palette is not \<open>undefined\<close>, so the exception is that of the dark branch.
\<close>

definition processor_createQuantumGrid :: "page \<Rightarrow> processor \<Rightarrow> js_error + processor" where
  "processor_createQuantumGrid pg this =
     (let theme = getCurrentTheme (data_theme pg);
          gridSize = 20;
          divisions = 20
      in case fields_of (getThemeColors (data_theme pg)) of
           Inl e \<Rightarrow> Inl e
         | Inr colors \<Rightarrow>
             let gridColor = (if theme = ''light'' then Some 0x0284C7 else primary colors);
                 bgColor = (if theme = ''light'' then 0xe5e7eb else 0x1a1a25);
                 helper = Mesh (allocated this)
                            (GridHelperGeometry gridSize divisions gridColor bgColor)
                            ((LineBasicMaterial (Some 0xffffff) True
                                (Some (if theme = ''light'' then 0.2 else 0.3)))
                             \<lparr>vertexColors := True\<rparr>)
             in Inr (this\<lparr>gridHelper := Some helper,
                          scene_children := scene_children this + 1,
                          allocated := allocated this + 3\<rparr>))"

text \<open>One qubit of the grid: it draws three samples and creates two meshes.\<close>

definition grid_qubit :: "nat \<Rightarrow> palette \<Rightarrow> int \<Rightarrow> int \<Rightarrow> rng \<Rightarrow> qubit" where
  "grid_qubit n colors x z g =
     (let spacing = 3;
          mat = MeshBasicMaterial (if g 0 > 0.5 then primary colors else secondary colors)
                  False True (Some 0.9);
          qubit = (Mesh n (SphereGeometry 0.3 16 16) mat)
                  \<lparr>position := (real_of_int (x * spacing), 0, real_of_int (z * spacing))\<rparr>;
          ringMaterial = MeshBasicMaterial (primary colors) False True (Some 0.5);
          ring = Mesh (n + 3) (TorusGeometry 0.5 0.02 8 32) ringMaterial;
          ring = ring\<lparr>rotation := set_x (pi / 2) (rotation ring)\<rparr>
      in \<lparr>mesh = qubit, phase = g 1 * pi * 2, ring = ring, baseY = 0, frequency = 1 + g 2\<rparr>)"

definition processor_createQubits :: "page \<Rightarrow> rng \<Rightarrow> processor \<Rightarrow> js_error + processor \<times> rng" where
  "processor_createQubits pg g this =
     (case fields_of (getThemeColors (data_theme pg)) of
        Inl e \<Rightarrow> Inl e
      | Inr colors \<Rightarrow>
          Inr (fold (\<lambda>x. fold (\<lambda>z (this, g).
                        (this\<lparr>qubits := qubits this @ [grid_qubit (allocated this) colors x z g],
                              scene_children := scene_children this + 1,
                              allocated := allocated this + 6\<rparr>, skip 3 g))
                      [-2..2])
                 [-2..2] (this, g)))"

definition processor_createConnections :: "page \<Rightarrow> processor \<Rightarrow> js_error + processor" where
  "processor_createConnections pg this =
     (case fields_of (getThemeColors (data_theme pg)) of
        Inl e \<Rightarrow> Inl e
      | Inr colors \<Rightarrow>
          let lineMaterial = LineBasicMaterial (primary colors) True (Some 0.3);
              this = this\<lparr>allocated := allocated this + 1\<rparr>
          in Inr (fold (\<lambda>(i, qubit). fold (\<lambda>(j, otherQubit) this.
                     if i < j then
                       (let dist = distanceTo (position (mesh qubit)) (position (mesh otherQubit))
                        in if dist < 4 then
                             this\<lparr>scene_lines := scene_lines this @
                                    [Mesh (allocated this)
                                       (PointsGeometry [position (mesh qubit),
                                                        position (mesh otherQubit)])
                                       lineMaterial],
                                  scene_children := scene_children this + 1,
                                  allocated := allocated this + 3\<rparr>
                           else this)
                     else this)
                   (enumerate 0 (qubits this)))
                 (enumerate 0 (qubits this)) this))"

definition processor_has_objects :: "processor \<Rightarrow> bool" where
  "processor_has_objects this \<longleftrightarrow> gridHelper this \<noteq> None \<or> qubits this \<noteq> []"

definition processor_updateColors_light :: "palette \<Rightarrow> processor \<Rightarrow> processor" where
  "processor_updateColors_light colors this =
     this\<lparr>
       gridHelper := map_option (\<lambda>ob. set_opacity (Some 0.25) (setHex (depth4 colors) ob))
                       (gridHelper this),
       qubits := map (\<lambda>(i, qubit).
                   let depthLevel = [depth2 colors, depth3 colors, depth4 colors] ! (i mod 3)
                   in qubit\<lparr>mesh := set_opacity (solidOpacity colors) (setHex depthLevel (mesh qubit)),
                           ring := set_opacity (Some 0.5) (setHex depthLevel (ring qubit))\<rparr>)
                 (enumerate 0 (qubits this))\<rparr>"

definition processor_updateColors_dark :: "palette \<Rightarrow> rng \<Rightarrow> processor \<Rightarrow> processor \<times> rng" where
  "processor_updateColors_dark colors g this =
     (this\<lparr>
       gridHelper := map_option (\<lambda>ob. set_opacity (Some 0.3) (setHex (primary colors) ob))
                       (gridHelper this),
       qubits := map (\<lambda>(i, qubit).
                   let qubitColor = (if g i > 0.5 then primary colors else secondary colors)
                   in qubit\<lparr>mesh := set_opacity (Some 0.9) (setHex qubitColor (mesh qubit)),
                           ring := set_opacity (Some 0.5) (setHex (primary colors) (ring qubit))\<rparr>)
                 (enumerate 0 (qubits this))\<rparr>,
      skip (length (qubits this)) g)"

definition processor_updateColors :: "page \<Rightarrow> rng \<Rightarrow> processor \<Rightarrow> js_error + processor \<times> rng" where
  "processor_updateColors pg g this =
     (let theme = getCurrentTheme (data_theme pg)
      in case fields_of (getThemeColors (data_theme pg)) of
           Inl e \<Rightarrow> if processor_has_objects this then Inl e else Inr (this, g)
         | Inr colors \<Rightarrow>
             if theme = ''light'' then Inr (processor_updateColors_light colors this, g)
             else Inr (processor_updateColors_dark colors g this))"

definition processor_tick :: "real \<Rightarrow> processor \<Rightarrow> processor" where
  "processor_tick time this =
     (let this = this\<lparr>qubits := map
            (\<lambda>qubit.
               let m = mesh qubit;
                   m = m\<lparr>position := set_y (baseY qubit
                                              + sin (time * frequency qubit + phase qubit) * 0.5)
                                         (position m)\<rparr>;
                   r = (ring qubit)\<lparr>rotation := set_z (time * 2) (rotation (ring qubit))\<rparr>;
                   scale = 1 + 0.1 * sin (time * 3 + phase qubit);
                   m = m\<lparr>scale := (scale, scale, scale)\<rparr>
               in qubit\<lparr>mesh := m, ring := r\<rparr>)
            (qubits this)\<rparr>;
          cam = camera this;
          cam = cam\<lparr>position := set_x (sin (time * 0.2) * 25) (position cam)\<rparr>;
          cam = cam\<lparr>position := set_z (cos (time * 0.2) * 25) (position cam)\<rparr>;
          cam = cam\<lparr>lookAt := Some (0, 0, 0)\<rparr>
      in this\<lparr>camera := cam\<rparr>)"

definition processor_animate :: "real \<Rightarrow> page \<times> processor \<Rightarrow> page \<times> processor" where
  "processor_animate time st =
     (case st of (pg, this) \<Rightarrow>
        let pg = pg\<lparr>frame_requests := frame_requests pg @ [Processor],
                    calls := calls pg @ [RequestAnimationFrame Processor]\<rparr>;
            pg = pg\<lparr>calls := calls pg @ [GetElapsedTime Processor]\<rparr>;
            this = processor_tick time this;
            this = this\<lparr>renderer := render (renderer this)\<rparr>;
            pg = pg\<lparr>calls := calls pg @ [Render Processor]\<rparr>
        in (pg, this))"

definition processor_init :: "page \<Rightarrow> rng \<Rightarrow> processor \<Rightarrow> page \<times> rng \<times> (js_error + processor)" where
  "processor_init pg g this =
     (let (w, h) = container_size pg (container this);
          this = this\<lparr>renderer := (setSize w h (renderer this))
                                      \<lparr>pixelRatio := min (devicePixelRatio pg) 2\<rparr>\<rparr>;
          pg = appendChild (container this) pg;
          this = this\<lparr>camera := (camera this)\<lparr>position := (0, 15, 25), lookAt := Some (0, 0, 0)\<rparr>\<rparr>
      in case processor_createQuantumGrid pg this of
           Inl e \<Rightarrow> (pg, g, Inl e)
         | Inr this \<Rightarrow>
       (case processor_createQubits pg g this of
           Inl e \<Rightarrow> (pg, g, Inl e)
         | Inr (this, g) \<Rightarrow>
       (case processor_createConnections pg this of
           Inl e \<Rightarrow> (pg, g, Inl e)
         | Inr this \<Rightarrow>
             let pg = pg\<lparr>resize_listeners := resize_listeners pg @ [Processor]\<rparr>;
                 pg = setupThemeObserver Processor pg;
                 (pg, this) = processor_animate 0 (pg, this)
             in (pg, g, Inr this))))"

definition QuantumProcessorScene ::
  "string \<Rightarrow> page \<Rightarrow> rng \<Rightarrow> page \<times> rng \<times> (js_error + processor scene_object)" where
  "QuantumProcessorScene containerId pg g =
     (case elements pg containerId of
        None \<Rightarrow> (pg, g, Inr NoContainer)
      | Some el \<Rightarrow>
          (case processor_init pg g
                  \<lparr>container = containerId,
                   camera = PerspectiveCamera 60 (js_div (offsetWidth el) (offsetHeight el)) 0.1 1000,
                   renderer = WebGLRenderer, scene_children = 0, allocated = 0,
                   gridHelper = None, qubits = [], scene_lines = []\<rparr>
           of (pg, g, r) \<Rightarrow> (pg, g, map_sum id Built r)))"

section \<open>About section: the neural network\<close>

text \<open>
  A connection refers to its two nodes; a reference to a node is its position in
  \<open>this.nodes\<close>.
\<close>

record node = with_phase +
  layer :: nat
  index :: nat

record connection = with_phase +
  from_node :: nat
  to_node :: nat

record neural = scene_base +
  nodes :: "node list"
  connections :: "connection list"
  scene_rotation :: vec3

definition neural_createNeuralNetwork :: "page \<Rightarrow> rng \<Rightarrow> neural \<Rightarrow> js_error + neural \<times> rng" where
  "neural_createNeuralNetwork pg g this =
     (let layers = [4, 6, 8, 6, 4];
          layerSpacing = 8;
          nodeSpacing = 4
      in case fields_of (getThemeColors (data_theme pg)) of
           Inl e \<Rightarrow> Inl e
         | Inr colors \<Rightarrow>
             let st = fold (\<lambda>(layerIndex, nodeCount).
                   let layerX = (real layerIndex - (real (length layers) - 1) / 2) * layerSpacing
                   in fold (\<lambda>i (this, g).
                        let nodeY = (real i - (real nodeCount - 1) / 2) * nodeSpacing;
                            mat = MeshBasicMaterial
                                    (if layerIndex = 0 \<or> layerIndex = length layers - 1
                                     then primary colors else secondary colors)
                                    False True (Some 0.8);
                            node = (Mesh (allocated this) (SphereGeometry 0.4 16 16) mat)
                                   \<lparr>position := (layerX, nodeY, 0)\<rparr>
                        in (this\<lparr>nodes := nodes this @
                                    [\<lparr>mesh = node, phase = g 0 * pi * 2, layer = layerIndex,
                                      index = i\<rparr>],
                                  scene_children := scene_children this + 1,
                                  allocated := allocated this + 3\<rparr>,
                            skip 1 g))
                      [0..<nodeCount])
                   (enumerate 0 layers) (this, g)
             in Inr (fold (\<lambda>l (this, g).
                   let currentLayerNodes = filter (\<lambda>(k, n). layer n = l) (enumerate 0 (nodes this));
                       nextLayerNodes = filter (\<lambda>(k, n). layer n = l + 1) (enumerate 0 (nodes this))
                   in fold (\<lambda>(k, node). fold (\<lambda>(k', nextNode) (this, g).
                        if g 0 > 0.3 then
                          (let points = [position (mesh node), position (mesh nextNode)];
                               mat = LineBasicMaterial (primary colors) True (Some 0.2);
                               line = Mesh (allocated this) (PointsGeometry points) mat
                           in (this\<lparr>connections := connections this @
                                       [\<lparr>mesh = line, phase = g 1 * pi * 2, from_node = k,
                                         to_node = k'\<rparr>],
                                     scene_children := scene_children this + 1,
                                     allocated := allocated this + 3\<rparr>,
                               skip 2 g))
                        else (this, skip 1 g))
                      nextLayerNodes)
                     currentLayerNodes (this, g))
                 [0..<length layers - 1] st))"

definition neural_has_objects :: "neural \<Rightarrow> bool" where
  "neural_has_objects this \<longleftrightarrow> nodes this \<noteq> [] \<or> connections this \<noteq> []"

definition neural_updateColors_light :: "palette \<Rightarrow> neural \<Rightarrow> neural" where
  "neural_updateColors_light colors this =
     this\<lparr>
       nodes := map (\<lambda>node.
                   let nodeColor = (if layer node = 0 \<or> layer node = 4 then depth2 colors
                                    else if layer node = 2 then depth4 colors
                                    else depth3 colors)
                   in node\<lparr>mesh := set_opacity (solidOpacity colors) (setHex nodeColor (mesh node))\<rparr>)
                 (nodes this),
       connections := map (\<lambda>connection.
                   connection\<lparr>mesh := set_opacity (map_option (\<lambda>v. v * 0.6) (lineOpacity colors))
                                         (setHex (depth5 colors) (mesh connection))\<rparr>)
                 (connections this)\<rparr>"

definition neural_updateColors_dark :: "palette \<Rightarrow> neural \<Rightarrow> neural" where
  "neural_updateColors_dark colors this =
     this\<lparr>
       nodes := map (\<lambda>node.
                   let nodeColor = (if layer node = 0 \<or> layer node = 4 then primary colors
                                    else secondary colors)
                   in node\<lparr>mesh := set_opacity (Some 0.8) (setHex nodeColor (mesh node))\<rparr>)
                 (nodes this),
       connections := map (\<lambda>connection.
                   connection\<lparr>mesh := set_opacity (Some 0.2)
                                         (setHex (primary colors) (mesh connection))\<rparr>)
                 (connections this)\<rparr>"

definition neural_updateColors :: "page \<Rightarrow> rng \<Rightarrow> neural \<Rightarrow> js_error + neural \<times> rng" where
  "neural_updateColors pg g this =
     (let theme = getCurrentTheme (data_theme pg)
      in case fields_of (getThemeColors (data_theme pg)) of
           Inl e \<Rightarrow> if neural_has_objects this then Inl e else Inr (this, g)
         | Inr colors \<Rightarrow>
             if theme = ''light'' then Inr (neural_updateColors_light colors this, g)
             else Inr (neural_updateColors_dark colors this, g))"

definition neural_tick :: "real \<Rightarrow> neural \<Rightarrow> neural" where
  "neural_tick time this =
     (let this = this\<lparr>
            nodes := map (\<lambda>node.
                let scale = 1 + 0.2 * sin (time * 2 + phase node)
                in node\<lparr>mesh := set_opacity (Some (0.6 + 0.4 * sin (time * 3 + phase node)))
                                   ((mesh node)\<lparr>scale := (scale, scale, scale)\<rparr>)\<rparr>)
              (nodes this),
            connections := map (\<lambda>connection.
                connection\<lparr>mesh := set_opacity (Some (0.1 + 0.2 * sin (time * 4 + phase connection)))
                                      (mesh connection)\<rparr>)
              (connections this)\<rparr>;
          this = this\<lparr>scene_rotation := set_y (sin (time * 0.3) * 0.2) (scene_rotation this)\<rparr>;
          this = this\<lparr>scene_rotation := set_x (sin (time * 0.2) * 0.1) (scene_rotation this)\<rparr>
      in this)"

definition neural_animate :: "real \<Rightarrow> page \<times> neural \<Rightarrow> page \<times> neural" where
  "neural_animate time st =
     (case st of (pg, this) \<Rightarrow>
        let pg = pg\<lparr>frame_requests := frame_requests pg @ [Neural],
                    calls := calls pg @ [RequestAnimationFrame Neural]\<rparr>;
            pg = pg\<lparr>calls := calls pg @ [GetElapsedTime Neural]\<rparr>;
            this = neural_tick time this;
            this = this\<lparr>renderer := render (renderer this)\<rparr>;
            pg = pg\<lparr>calls := calls pg @ [Render Neural]\<rparr>
        in (pg, this))"

definition neural_init :: "page \<Rightarrow> rng \<Rightarrow> neural \<Rightarrow> page \<times> rng \<times> (js_error + neural)" where
  "neural_init pg g this =
     (let (w, h) = container_size pg (container this);
          this = this\<lparr>renderer := (setSize w h (renderer this))
                                      \<lparr>pixelRatio := min (devicePixelRatio pg) 2\<rparr>\<rparr>;
          pg = appendChild (container this) pg;
          this = this\<lparr>camera := (camera this)\<lparr>position := set_z 40 (position (camera this))\<rparr>\<rparr>
      in case neural_createNeuralNetwork pg g this of
           Inl e \<Rightarrow> (pg, g, Inl e)
         | Inr (this, g) \<Rightarrow>
             let pg = pg\<lparr>resize_listeners := resize_listeners pg @ [Neural]\<rparr>;
                 pg = setupThemeObserver Neural pg;
                 (pg, this) = neural_animate 0 (pg, this)
             in (pg, g, Inr this))"

definition NeuralNetworkScene ::
  "string \<Rightarrow> page \<Rightarrow> rng \<Rightarrow> page \<times> rng \<times> (js_error + neural scene_object)" where
  "NeuralNetworkScene containerId pg g =
     (case elements pg containerId of
        None \<Rightarrow> (pg, g, Inr NoContainer)
      | Some el \<Rightarrow>
          (case neural_init pg g
                  \<lparr>container = containerId,
                   camera = PerspectiveCamera 60 (js_div (offsetWidth el) (offsetHeight el)) 0.1 1000,
                   renderer = WebGLRenderer, scene_children = 0, allocated = 0,
                   nodes = [], connections = [], scene_rotation = (0, 0, 0)\<rparr>
           of (pg, g, r) \<Rightarrow> (pg, g, map_sum id Built r)))"

section \<open>Call-to-action section: the floating particles\<close>

record floating = scene_base +
  particles :: "points option"

text \<open>The two loops of this \<open>createParticles\<close> differ in their two colours only.\<close>

definition floating_particle ::
  "vec3 \<Rightarrow> vec3 \<Rightarrow> nat \<Rightarrow> real list \<times> real list \<times> rng \<Rightarrow> real list \<times> real list \<times> rng" where
  "floating_particle colorA colorB i st =
     (case st of (positions, particleColors, g) \<Rightarrow>
        let color = lerp colorA colorB (g 3)
        in (positions[i * 3 := fround ((g 0 - 0.5) * 60),
                      i * 3 + 1 := fround ((g 1 - 0.5) * 30),
                      i * 3 + 2 := fround ((g 2 - 0.5) * 30)],
            particleColors[i * 3 := fround (vx color), i * 3 + 1 := fround (vy color),
                           i * 3 + 2 := fround (vz color)],
            skip 4 g))"

definition floating_createParticles :: "page \<Rightarrow> rng \<Rightarrow> floating \<Rightarrow> js_error + floating \<times> rng" where
  "floating_createParticles pg g this =
     (let theme = getCurrentTheme (data_theme pg);
          particleCount = 200;
          start = (replicate (particleCount * 3) 0, replicate (particleCount * 3) 0, g)
      in case fields_of (getThemeColors (data_theme pg)) of
           Inl e \<Rightarrow> Inl e
         | Inr colors \<Rightarrow>
             (case (if theme = ''light''
                    then fold (floating_particle (Color (depth3 colors)) (Color (depth5 colors)))
                           [0..<particleCount] start
                    else fold (floating_particle (Color (primary colors)) (Color (secondary colors)))
                           [0..<particleCount] start)
              of (positions, particleColors, g') \<Rightarrow>
                Inr (this\<lparr>
                  particles := Some \<lparr>
                    position = (0, 0, 0), rotation = (0, 0, 0), scale = (1, 1, 1),
                    material = \<lparr>color = Some 0xffffff, opacity = particleOpacity colors,
                      transparent = True, wireframe = False, vertexColors = True,
                      additiveBlending = True, depthWrite = True, pointSize = Some 0.3\<rparr>,
                    uuid = allocated this + 2, material_uuid = allocated this + 1,
                    geometry_uuid = allocated this,
                    position_array = positions, color_array = particleColors,
                    size_array = None\<rparr>,
                  scene_children := scene_children this + 1,
                  allocated := allocated this + 3\<rparr>, g')))"

definition floating_updateColors :: "page \<Rightarrow> rng \<Rightarrow> floating \<Rightarrow> js_error + floating \<times> rng" where
  "floating_updateColors pg g this =
     (let theme = getCurrentTheme (data_theme pg)
      in case fields_of (getThemeColors (data_theme pg)) of
           Inl e \<Rightarrow> if particles this \<noteq> None then Inl e else Inr (this, g)
         | Inr colors \<Rightarrow>
             Inr (this\<lparr>particles := map_option
                    (\<lambda>ps. if theme = ''light''
                          then set_opacity (map_option (\<lambda>v. v * 0.8) (particleOpacity colors)) ps
                          else set_opacity (particleOpacity colors) ps)
                    (particles this)\<rparr>, g))"

definition floating_tick :: "real \<Rightarrow> floating \<Rightarrow> floating" where
  "floating_tick time this =
     this\<lparr>particles := map_option
       (\<lambda>ps. let ps = ps\<lparr>rotation := set_y (time * 0.05) (rotation ps)\<rparr>
             in ps\<lparr>rotation := set_x (sin (time * 0.1) * 0.1) (rotation ps)\<rparr>)
       (particles this)\<rparr>"

definition floating_animate :: "real \<Rightarrow> page \<times> floating \<Rightarrow> page \<times> floating" where
  "floating_animate time st =
     (case st of (pg, this) \<Rightarrow>
        let pg = pg\<lparr>frame_requests := frame_requests pg @ [Floating],
                    calls := calls pg @ [RequestAnimationFrame Floating]\<rparr>;
            pg = pg\<lparr>calls := calls pg @ [GetElapsedTime Floating]\<rparr>;
            this = floating_tick time this;
            this = this\<lparr>renderer := render (renderer this)\<rparr>;
            pg = pg\<lparr>calls := calls pg @ [Render Floating]\<rparr>
        in (pg, this))"

definition floating_init :: "page \<Rightarrow> rng \<Rightarrow> floating \<Rightarrow> page \<times> rng \<times> (js_error + floating)" where
  "floating_init pg g this =
     (let (w, h) = container_size pg (container this);
          this = this\<lparr>renderer := (setSize w h (renderer this))
                                      \<lparr>pixelRatio := min (devicePixelRatio pg) 2\<rparr>\<rparr>;
          pg = appendChild (container this) pg;
          this = this\<lparr>camera := (camera this)\<lparr>position := set_z 30 (position (camera this))\<rparr>\<rparr>
      in case floating_createParticles pg g this of
           Inl e \<Rightarrow> (pg, g, Inl e)
         | Inr (this, g) \<Rightarrow>
             let pg = pg\<lparr>resize_listeners := resize_listeners pg @ [Floating]\<rparr>;
                 pg = setupThemeObserver Floating pg;
                 (pg, this) = floating_animate 0 (pg, this)
             in (pg, g, Inr this))"

definition FloatingParticlesScene ::
  "string \<Rightarrow> page \<Rightarrow> rng \<Rightarrow> page \<times> rng \<times> (js_error + floating scene_object)" where
  "FloatingParticlesScene containerId pg g =
     (case elements pg containerId of
        None \<Rightarrow> (pg, g, Inr NoContainer)
      | Some el \<Rightarrow>
          (case floating_init pg g
                  \<lparr>container = containerId,
                   camera = PerspectiveCamera 75 (js_div (offsetWidth el) (offsetHeight el)) 0.1 1000,
                   renderer = WebGLRenderer, scene_children = 0, allocated = 0,
                   particles = None\<rparr>
           of (pg, g, r) \<Rightarrow> (pg, g, map_sum id Built r)))"

section \<open>Feature visual: the small atom\<close>

text \<open>
  An orbit is a mesh with the electron as its first child; the orbit is created before the
  electron.
\<close>

record orbit = mesh +
  children :: "mesh list"

record feature = scene_base +
  core :: "mesh option"
  orbits :: "orbit list"

definition feature_orbit :: "nat \<Rightarrow> palette \<Rightarrow> nat \<Rightarrow> orbit" where
  "feature_orbit n colors i =
     (let orbitMaterial = MeshBasicMaterial
                            (if i mod 2 = 0 then primary colors else secondary colors)
                            False True (Some 0.5);
          electronMaterial = MeshBasicMaterial
                            (if i mod 2 = 0 then primary colors else secondary colors)
                            False False (Some 1);
          electron = Mesh (n + 3) (SphereGeometry 0.15 16 16) electronMaterial;
          electron = electron\<lparr>position := set_x (2 + real i * 0.8) (position electron)\<rparr>
      in \<lparr>position = (0, 0, 0), rotation = (pi / 2 + real i * 0.4, real i * 0.3, 0),
          scale = (1, 1, 1), material = orbitMaterial,
          uuid = n + 2, material_uuid = n + 1, geometry_uuid = n,
          geometry = TorusGeometry (2 + real i * 0.8) 0.02 8 64, children = [electron]\<rparr>)"

definition feature_createScene :: "page \<Rightarrow> feature \<Rightarrow> js_error + feature" where
  "feature_createScene pg this =
     (case fields_of (getThemeColors (data_theme pg)) of
        Inl e \<Rightarrow> Inl e
      | Inr colors \<Rightarrow>
          let this = this\<lparr>core := Some (Mesh (allocated this) (IcosahedronGeometry 1 1)
                                  (MeshBasicMaterial (primary colors) True True (Some 0.8))),
                          scene_children := scene_children this + 1,
                          allocated := allocated this + 3\<rparr>;
              this = this\<lparr>orbits := []\<rparr>
          in Inr (fold (\<lambda>i this. this\<lparr>orbits := orbits this @
                                        [feature_orbit (allocated this) colors i],
                                      scene_children := scene_children this + 1,
                                      allocated := allocated this + 6\<rparr>)
                    [0..<3] this))"

definition feature_has_objects :: "feature \<Rightarrow> bool" where
  "feature_has_objects this \<longleftrightarrow> core this \<noteq> None \<or> orbits this \<noteq> []"

text \<open>The callbacks of the two loops over the orbits in \<open>updateColors\<close>.\<close>

definition light_orbit :: "palette \<Rightarrow> nat \<Rightarrow> orbit \<Rightarrow> orbit" where
  "light_orbit colors i orbit =
     (let orbitColors = [depth2 colors, depth3 colors, depth4 colors];
          orbitColor = orbitColors ! (i mod 3);
          orbit = set_opacity (Some 0.6) (setHex orbitColor orbit)
      in (case children orbit of
            [] \<Rightarrow> orbit
          | electron # others \<Rightarrow>
              orbit\<lparr>children := set_opacity (solidOpacity colors)
                                   (setHex orbitColor electron) # others\<rparr>))"

definition dark_orbit :: "palette \<Rightarrow> nat \<Rightarrow> orbit \<Rightarrow> orbit" where
  "dark_orbit colors i orbit =
     (let orbitColor = (if i mod 2 = 0 then primary colors else secondary colors);
          orbit = set_opacity (Some 0.5) (setHex orbitColor orbit)
      in (case children orbit of
            [] \<Rightarrow> orbit
          | electron # others \<Rightarrow>
              orbit\<lparr>children := setHex orbitColor electron # others\<rparr>))"

definition feature_updateColors_light :: "palette \<Rightarrow> feature \<Rightarrow> feature" where
  "feature_updateColors_light colors this =
     this\<lparr>
       core := map_option (\<lambda>ob. set_opacity (wireframeOpacity colors) (setHex (depth2 colors) ob))
                 (core this),
       orbits := map (\<lambda>(i, orbit). light_orbit colors i orbit) (enumerate 0 (orbits this))\<rparr>"

definition feature_updateColors_dark :: "palette \<Rightarrow> feature \<Rightarrow> feature" where
  "feature_updateColors_dark colors this =
     this\<lparr>
       core := map_option (\<lambda>ob. set_opacity (Some 0.8) (setHex (primary colors) ob)) (core this),
       orbits := map (\<lambda>(i, orbit). dark_orbit colors i orbit) (enumerate 0 (orbits this))\<rparr>"

definition feature_updateColors :: "page \<Rightarrow> rng \<Rightarrow> feature \<Rightarrow> js_error + feature \<times> rng" where
  "feature_updateColors pg g this =
     (let theme = getCurrentTheme (data_theme pg)
      in case fields_of (getThemeColors (data_theme pg)) of
           Inl e \<Rightarrow> if feature_has_objects this then Inl e else Inr (this, g)
         | Inr colors \<Rightarrow>
             if theme = ''light'' then Inr (feature_updateColors_light colors this, g)
             else Inr (feature_updateColors_dark colors this, g))"

definition feature_tick :: "real \<Rightarrow> feature \<Rightarrow> feature" where
  "feature_tick time this =
     this\<lparr>
       core := map_option
         (\<lambda>ob. ob\<lparr>rotation := set_y (time * 0.3) (set_x (time * 0.5) (rotation ob))\<rparr>)
         (core this),
       orbits := map (\<lambda>(i, orbit).
                   orbit\<lparr>rotation := set_z (time * (1 + real i * 0.5)) (rotation orbit)\<rparr>)
                 (enumerate 0 (orbits this))\<rparr>"

definition feature_animate :: "real \<Rightarrow> page \<times> feature \<Rightarrow> page \<times> feature" where
  "feature_animate time st =
     (case st of (pg, this) \<Rightarrow>
        let pg = pg\<lparr>frame_requests := frame_requests pg @ [Feature],
                    calls := calls pg @ [RequestAnimationFrame Feature]\<rparr>;
            pg = pg\<lparr>calls := calls pg @ [GetElapsedTime Feature]\<rparr>;
            this = feature_tick time this;
            this = this\<lparr>renderer := render (renderer this)\<rparr>;
            pg = pg\<lparr>calls := calls pg @ [Render Feature]\<rparr>
        in (pg, this))"

definition feature_init :: "page \<Rightarrow> rng \<Rightarrow> feature \<Rightarrow> page \<times> rng \<times> (js_error + feature)" where
  "feature_init pg g this =
     (let (w, h) = container_size pg (container this);
          this = this\<lparr>renderer := (setSize w h (renderer this))
                                      \<lparr>pixelRatio := min (devicePixelRatio pg) 2\<rparr>\<rparr>;
          pg = appendChild (container this) pg;
          this = this\<lparr>camera := (camera this)\<lparr>position := set_z 10 (position (camera this))\<rparr>\<rparr>
      in case feature_createScene pg this of
           Inl e \<Rightarrow> (pg, g, Inl e)
         | Inr this \<Rightarrow>
             let pg = pg\<lparr>resize_listeners := resize_listeners pg @ [Feature]\<rparr>;
                 pg = setupThemeObserver Feature pg;
                 (pg, this) = feature_animate 0 (pg, this)
             in (pg, g, Inr this))"

definition FeatureQuantumScene ::
  "string \<Rightarrow> page \<Rightarrow> rng \<Rightarrow> page \<times> rng \<times> (js_error + feature scene_object)" where
  "FeatureQuantumScene containerId pg g =
     (case elements pg containerId of
        None \<Rightarrow> (pg, g, Inr NoContainer)
      | Some el \<Rightarrow>
          (case feature_init pg g
                  \<lparr>container = containerId,
                   camera = PerspectiveCamera 60 (js_div (offsetWidth el) (offsetHeight el)) 0.1 1000,
                   renderer = WebGLRenderer, scene_children = 0, allocated = 0,
                   core = None, orbits = []\<rparr>
           of (pg, g, r) \<Rightarrow> (pg, g, map_sum id Built r)))"

section \<open>Theme changes\<close>

text \<open>
  The callback that \<open>setupThemeObserver\<close> registers, for a scene with the given
  \<open>updateColors\<close>: one recolouring for each record of a change of \<open>data-theme\<close>, in the
  order of the records; an exception ends it.
\<close>

fun observer_callback ::
  "(page \<Rightarrow> rng \<Rightarrow> 's \<Rightarrow> js_error + 's \<times> rng) \<Rightarrow> string list \<Rightarrow> page \<Rightarrow> rng \<Rightarrow> 's \<Rightarrow> js_error + 's \<times> rng" where
  "observer_callback updateColors [] pg g this = Inr (this, g)"
| "observer_callback updateColors (attributeName # mutations) pg g this =
     (if attributeName = ''data-theme'' then
        (case updateColors pg g this of
           Inl e \<Rightarrow> Inl e
         | Inr (this, g) \<Rightarrow> observer_callback updateColors mutations pg g this)
      else observer_callback updateColors mutations pg g this)"

text \<open>
  A click on the theme toggle, followed by the delivery of its one mutation record to the
  observer of a scene.
\<close>

definition toggle_theme ::
  "(page \<Rightarrow> rng \<Rightarrow> 's \<Rightarrow> js_error + 's \<times> rng) \<Rightarrow> page \<times> rng \<times> 's \<Rightarrow> js_error + page \<times> rng \<times> 's" where
  "toggle_theme updateColors st =
     (case st of (pg, g, this) \<Rightarrow>
        let pg = toggle_click pg
        in case observer_callback updateColors [''data-theme''] pg g this of
             Inl e \<Rightarrow> Inl e
           | Inr (this, g) \<Rightarrow> Inr (pg, g, this))"

text \<open>A number of such clicks in succession.\<close>

fun toggles ::
  "(page \<Rightarrow> rng \<Rightarrow> 's \<Rightarrow> js_error + 's \<times> rng) \<Rightarrow> nat \<Rightarrow> page \<times> rng \<times> 's \<Rightarrow> js_error + page \<times> rng \<times> 's" where
  "toggles updateColors 0 st = Inr st"
| "toggles updateColors (Suc n) st =
     (case toggle_theme updateColors st of
        Inl e \<Rightarrow> Inl e
      | Inr st \<Rightarrow> toggles updateColors n st)"

section \<open>Notions used to state the properties\<close>

text \<open>A theme that has a palette.\<close>

definition supported :: "page \<Rightarrow> bool" where
  "supported pg \<longleftrightarrow> getCurrentTheme (data_theme pg) = ''dark'' \<or> getCurrentTheme (data_theme pg) = ''light''"

text \<open>
  The place of a qubit on the grid: its position with the height at rest, which the
  per-frame update leaves alone.
\<close>

definition rest_position :: "qubit \<Rightarrow> vec3" where
  "rest_position q = (vx (position (mesh q)), baseY q, vz (position (mesh q)))"

text \<open>The 5 by 5 grid with spacing 3, in the order in which the qubits are created.\<close>

definition qubit_grid :: "vec3 list" where
  "qubit_grid = [(3 * real_of_int x, 0, 3 * real_of_int z). x \<leftarrow> [-2..2], z \<leftarrow> [-2..2]]"

text \<open>The unordered pairs of a list of points that are less than 4 apart.\<close>

definition unordered_pairs_within_4 :: "vec3 list \<Rightarrow> (vec3 \<times> vec3) list" where
  "unordered_pairs_within_4 ps =
     [(p, p'). (i, p) \<leftarrow> enumerate 0 ps, (j, p') \<leftarrow> enumerate 0 ps, i < j \<and> distanceTo p p' < 4]"

text \<open>
  The objects that a list of constructors makes when each of them is given the number of
  identities given out before it and takes \<open>step\<close> of them.
\<close>

fun numbered :: "nat \<Rightarrow> nat \<Rightarrow> (nat \<Rightarrow> 'a) list \<Rightarrow> 'a list" where
  "numbered step n [] = []"
| "numbered step n (new # others) = new n # numbered step (n + step) others"

text \<open>
  An object, and each scene, with the colour and the opacity of every material that
  \<open>updateColors\<close> may write erased: two scenes with the same image under this map differ in
  those colours and opacities at most.
\<close>

definition unpainted :: "'a drawable_scheme \<Rightarrow> 'a drawable_scheme" where
  "unpainted ob = ob\<lparr>material := (material ob)\<lparr>color := None, opacity := None\<rparr>\<rparr>"

definition hero_unpainted :: "hero \<Rightarrow> hero" where
  "hero_unpainted this =
     this\<lparr>hero.core := map_option unpainted (hero.core this),
          innerCore := map_option unpainted (innerCore this),
          glowSphere := map_option unpainted (glowSphere this),
          particleSystem := map_option unpainted (particleSystem this),
          quantumOrbitals := map (\<lambda>ob. ob\<lparr>mesh := unpainted (mesh ob)\<rparr>) (quantumOrbitals this),
          entanglementLines := map (\<lambda>ob. ob\<lparr>mesh := unpainted (mesh ob)\<rparr>) (entanglementLines this)\<rparr>"

definition processor_unpainted :: "processor \<Rightarrow> processor" where
  "processor_unpainted this =
     this\<lparr>gridHelper := map_option unpainted (gridHelper this),
          qubits := map (\<lambda>q. q\<lparr>mesh := unpainted (mesh q), ring := unpainted (ring q)\<rparr>) (qubits this)\<rparr>"

definition neural_unpainted :: "neural \<Rightarrow> neural" where
  "neural_unpainted this =
     this\<lparr>nodes := map (\<lambda>ob. ob\<lparr>mesh := unpainted (mesh ob)\<rparr>) (nodes this),
          connections := map (\<lambda>ob. ob\<lparr>mesh := unpainted (mesh ob)\<rparr>) (connections this)\<rparr>"

definition floating_unpainted :: "floating \<Rightarrow> floating" where
  "floating_unpainted this = this\<lparr>particles := map_option unpainted (particles this)\<rparr>"

definition orbit_unpainted :: "orbit \<Rightarrow> orbit" where
  "orbit_unpainted ob =
     (unpainted ob)\<lparr>children := (case children ob of [] \<Rightarrow> []
                                  | electron # others \<Rightarrow> unpainted electron # others)\<rparr>"

definition feature_unpainted :: "feature \<Rightarrow> feature" where
  "feature_unpainted this =
     this\<lparr>core := map_option unpainted (core this),
          orbits := map orbit_unpainted (orbits this)\<rparr>"

text \<open>
  The identities of a drawable object (of its geometry, of its material and its own, in
  the order of their creation) and those of all drawable objects of a scene, in the order
  in which the scene creates them.
\<close>

definition identities :: "'a drawable_scheme \<Rightarrow> nat list" where
  "identities ob = [geometry_uuid ob, material_uuid ob, uuid ob]"

fun present :: "'a option \<Rightarrow> 'a list" where
  "present None = []"
| "present (Some x) = [x]"

definition hero_identities :: "hero \<Rightarrow> nat list" where
  "hero_identities this =
     concat (map identities (present (hero.core this) @ present (innerCore this)
                             @ present (glowSphere this)))
     @ concat (map identities (present (particleSystem this)))
     @ concat (map (\<lambda>ob. identities (mesh ob)) (quantumOrbitals this))
     @ concat (map (\<lambda>ob. identities (mesh ob)) (entanglementLines this))"

definition processor_identities :: "processor \<Rightarrow> nat list" where
  "processor_identities this =
     concat (map identities (present (gridHelper this)))
     @ concat (map (\<lambda>q. identities (mesh q) @ identities (ring q)) (qubits this))
     @ concat (map identities (scene_lines this))"

definition neural_identities :: "neural \<Rightarrow> nat list" where
  "neural_identities this =
     concat (map (\<lambda>ob. identities (mesh ob)) (nodes this))
     @ concat (map (\<lambda>ob. identities (mesh ob)) (connections this))"

definition floating_identities :: "floating \<Rightarrow> nat list" where
  "floating_identities this = concat (map identities (present (particles this)))"

definition feature_identities :: "feature \<Rightarrow> nat list" where
  "feature_identities this =
     concat (map identities (present (core this)))
     @ concat (map (\<lambda>ob. identities ob @ concat (map identities (children ob))) (orbits this))"

text \<open>The feature scene with the opacity of the electrons erased.\<close>

definition orbit_electron_opacity_erased :: "orbit \<Rightarrow> orbit" where
  "orbit_electron_opacity_erased ob = ob\<lparr>children := (case children ob of [] \<Rightarrow> []
                                     | electron # others \<Rightarrow> set_opacity None electron # others)\<rparr>"

definition electron_opacity_erased :: "feature \<Rightarrow> feature" where
  "electron_opacity_erased this = this\<lparr>orbits := map orbit_electron_opacity_erased (orbits this)\<rparr>"

text \<open>
  Toggling the theme \<open>n + 1\<close> times from a state succeeds, leaves the observers of the
  page as they were, and ends in the state that a single toggle produces from the initial
  scene on the page and with the random source that the first \<open>n\<close> toggles have left.
  The two final scenes are compared through \<open>view\<close>.
\<close>

definition toggling_converges ::
  "(page \<Rightarrow> rng \<Rightarrow> 's \<Rightarrow> js_error + 's \<times> rng) \<Rightarrow> ('s \<Rightarrow> 's) \<Rightarrow> nat \<Rightarrow> page \<times> rng \<times> 's \<Rightarrow> bool" where
  "toggling_converges updateColors view n st =
     (case st of (pg, g, this) \<Rightarrow>
        (case (toggles updateColors n st, toggles updateColors (Suc n) st) of
           (Inr (pg0, g0, this0), Inr (pg', g', this')) \<Rightarrow>
             theme_observers pg' = theme_observers pg
             \<and> (case toggle_theme updateColors (pg0, g0, this) of
                    Inr (pg1, g1, this1) \<Rightarrow> pg1 = pg' \<and> g1 = g' \<and> view this1 = view this'
                  | Inl e \<Rightarrow> False)
         | _ \<Rightarrow> False))"

text \<open>
  A particle after \<open>k\<close> frames; the radius \<open>r\<close> that a frame at a given time computes for a
  particle; the three coordinates that the frame stores for it, once the particle's angle
  has been advanced; and the distance from the centre of the \<open>i\<close>-th point of the particle
  system, as stored.
\<close>

definition advanced :: "nat \<Rightarrow> particle \<Rightarrow> particle" where
  "advanced k p = p\<lparr>theta := theta p + real k * speed p\<rparr>"

definition instantaneous_radius :: "real \<Rightarrow> particle \<Rightarrow> real" where
  "instantaneous_radius time p = radius p + sin (time + phaseOffset p) * 2"

definition particle_position :: "real \<Rightarrow> particle \<Rightarrow> real list" where
  "particle_position time p =
     (let r = instantaneous_radius time p
      in [fround (r * sin (phi p) * cos (theta p)), fround (r * sin (phi p) * sin (theta p)),
          fround (r * cos (phi p))])"


text \<open>The particles that the dark loop of \<open>createParticles\<close> makes from a random source.\<close>

definition dark_particles :: "rng \<Rightarrow> particle list" where
  "dark_particles g =
     map (\<lambda>i. \<lparr>particle.index = i, radius = 8 + g (7 * i) * 20, theta = g (7 * i + 1) * pi * 2,
                phi = arccos (2 * g (7 * i + 2) - 1),
                speed = 0.001 + g (7 * i + 5) * 0.002,
                phaseOffset = g (7 * i + 6) * pi * 2\<rparr>) [0..<500]"

text \<open>Pages and scenes for the examples.\<close>

definition demo_page :: page where
  "demo_page = \<lparr>data_theme = Some ''dark'', saved_theme = Some ''dark'',
     elements = [''hero-canvas'' \<mapsto> \<lparr>offsetWidth = 1280, offsetHeight = 720, canvases = 0\<rparr>,
                 ''tech-canvas'' \<mapsto> \<lparr>offsetWidth = 800, offsetHeight = 600, canvases = 0\<rparr>],
     devicePixelRatio = 1, resize_listeners = [], mousemove_listeners = [],
     theme_observers = [], frame_requests = [], calls = []\<rparr>"

definition collapsed_page :: page where
  "collapsed_page = demo_page\<lparr>elements := (elements demo_page)
     (''hero-canvas'' \<mapsto> \<lparr>offsetWidth = 800, offsetHeight = 0, canvases = 1\<rparr>)\<rparr>"

definition light_page :: page where
  "light_page = demo_page\<lparr>data_theme := Some ''light'', saved_theme := Some ''light''\<rparr>"

definition sample_hero :: hero where
  "sample_hero = \<lparr>container = ''hero-canvas'',
     camera = PerspectiveCamera 75 (Finite (4 / 3)) 0.1 1000,
     renderer = WebGLRenderer, scene_children = 1, allocated = 3,
     hero.core = Some (Mesh 0 (IcosahedronGeometry 2 2)
                        (MeshBasicMaterial (Some 0x0EA5E9) True True (Some 0.8))),
     innerCore = None, glowSphere = None, particleSystem = None,
     hero.particles = [], quantumOrbitals = [], entanglementLines = [], mouse = (0, 0)\<rparr>"

definition sample_processor :: processor where
  "sample_processor = \<lparr>container = ''tech-canvas'',
     camera = PerspectiveCamera 60 (Finite (4 / 3)) 0.1 1000,
     renderer = WebGLRenderer, scene_children = 1, allocated = 6,
     gridHelper = None, qubits = [grid_qubit 0 ThemeColors_dark 0 0 (\<lambda>n. 0)], scene_lines = []\<rparr>"

definition sample_neural :: neural where
  "sample_neural = \<lparr>container = ''about-canvas'',
     camera = PerspectiveCamera 60 (Finite (4 / 3)) 0.1 1000,
     renderer = WebGLRenderer, scene_children = 0, allocated = 0,
     nodes = [], connections = [], scene_rotation = (0, 0, 0)\<rparr>"

definition sample_floating :: floating where
  "sample_floating = \<lparr>container = ''cta-canvas'',
     camera = PerspectiveCamera 75 (Finite (4 / 3)) 0.1 1000,
     renderer = WebGLRenderer, scene_children = 0, allocated = 0, particles = None\<rparr>"

definition sample_feature :: feature where
  "sample_feature = \<lparr>container = ''feature-visual-1'',
     camera = PerspectiveCamera 60 (Finite (4 / 3)) 0.1 1000,
     renderer = WebGLRenderer, scene_children = 1, allocated = 6,
     core = None, orbits = [feature_orbit 0 ThemeColors_dark 0]\<rparr>"

section \<open>Basic facts\<close>

lemma skip_skip [simp]: "skip a (skip b g) = skip (a + b) g"
  by (simp add: skip_def fun_eq_iff add.assoc)

lemma skip_0 [simp]: "skip 0 g = g"
  by (simp add: skip_def)

lemma skip_apply: "skip k g n = g (n + k)"
  by (simp add: skip_def)

lemma distanceTo_less_4:
  "distanceTo (a, b, c) (d, e, f) < 4 \<longleftrightarrow> (a - d) * (a - d) + (b - e) * (b - e) + (c - f) * (c - f) < 16"
proof -
  have "sqrt 16 = 4" using real_sqrt_abs[of 4] by simp
  then show ?thesis using real_sqrt_less_iff[of _ 16] by simp
qed

lemma vx_set [simp]: "vx (set_y v p) = vx p" "vx (set_z v p) = vx p" "vx (set_x v p) = v"
  by (cases p; simp)+

lemma vy_set [simp]: "vy (set_x v p) = vy p" "vy (set_z v p) = vy p" "vy (set_y v p) = v"
  by (cases p; simp)+

lemma vz_set [simp]: "vz (set_x v p) = vz p" "vz (set_y v p) = vz p" "vz (set_z v p) = v"
  by (cases p; simp)+

lemma data_theme_appendChild [simp]: "data_theme (appendChild cid pg) = data_theme pg"
  by (simp add: appendChild_def split: option.splits)

lemma observers_appendChild [simp]: "theme_observers (appendChild cid pg) = theme_observers pg"
  by (simp add: appendChild_def split: option.splits)

lemma supported_theme_fields:
  assumes "getCurrentTheme (data_theme pg) = ''dark'' \<or> getCurrentTheme (data_theme pg) = ''light''"
  shows "\<exists>colors. fields_of (getThemeColors (data_theme pg)) = Inr colors"
  using assms by (auto simp: getThemeColors_def ThemeColors_def)

lemma supported_theme_cases:
  assumes "getCurrentTheme (data_theme pg) = ''dark'' \<or> getCurrentTheme (data_theme pg) = ''light''"
  obtains (dark) "getCurrentTheme (data_theme pg) = ''dark''"
      "fields_of (getThemeColors (data_theme pg)) = Inr ThemeColors_dark"
    | (light) "getCurrentTheme (data_theme pg) = ''light''"
      "fields_of (getThemeColors (data_theme pg)) = Inr ThemeColors_light"
  using assms by (auto simp: getThemeColors_def ThemeColors_def)

lemma upto_m2_2: "[-2..2] = [-2, -1, 0, 1, 2::int]"
  by (simp add: upto.simps)

lemma map_snd_enumerate_fun:
  "map (\<lambda>x. G (snd x)) (enumerate n xs) = map G xs"
  by (induction xs arbitrary: n) simp_all

lemma enumerate_map_enumerate:
  "map (\<lambda>(i, x). F i x) (enumerate n (map (\<lambda>(i, x). H i x) (enumerate n xs)))
   = map (\<lambda>(i, x). F i (H i x)) (enumerate n xs)"
  by (induction xs arbitrary: n) simp_all

section \<open>Single precision\<close>


lemma fround_0 [simp]: "fround 0 = 0"
  by (simp add: fround_def)







section \<open>The default theme\<close>

text \<open>
  C10. While the \<open>data-theme\<close> attribute of the document root is unset, the current
  theme is dark and every palette read yields the dark palette with all of its fields;
  a page with no stored preference is initialised to dark as well.
\<close>

theorem unset_theme_reads_dark_palette:
  "getCurrentTheme None = ''dark''
   \<and> getThemeColors None = Own ThemeColors_dark
   \<and> fields_of (getThemeColors None) = Inr ThemeColors_dark
   \<and> data_theme (initTheme (pg\<lparr>data_theme := None, saved_theme := None\<rparr>)) = Some ''dark''"
  by (simp add: getCurrentTheme_def getThemeColors_def ThemeColors_def initTheme_def)

section \<open>Theme values outside dark and light\<close>

text \<open>
  C3 as stated fails. The lookup of the palette never fails: for the theme \<open>sepia\<close> it
  returns \<open>undefined\<close>, and for the theme \<open>constructor\<close> it returns a member of
  \<open>Object.prototype\<close>, with which a recolouring of the hero scene goes through and leaves the
  core with an undefined colour.
\<close>

theorem unknown_theme_counterexample:
  "getThemeColors (Some ''sepia'') = Undefined
   \<and> getThemeColors (Some ''constructor'') = Inherited
   \<and> hero_updateColors (demo_page\<lparr>data_theme := Some ''constructor''\<rparr>) (\<lambda>n. 0) sample_hero
       = Inr (sample_hero\<lparr>hero.core := Some (Mesh 0 (IcosahedronGeometry 2 2)
                                           (MeshBasicMaterial None True True (Some 0.8)))\<rparr>,
              (\<lambda>n. 0))"
  by (simp add: getThemeColors_def getCurrentTheme_def ThemeColors_def object_prototype_keys_def
      hero_updateColors_def hero_updateColors_dark_def demo_page_def sample_hero_def
      no_palette_fields_def setHex_def set_opacity_def Mesh_def MeshBasicMaterial_def skip_def)

text \<open>
  C3, amended. For every value of the theme attribute the lookup of the palette returns
  without failing: the empty string resolves to the dark palette, the name of a member of
  \<open>Object.prototype\<close> to an object without palette fields, and every other value outside
  dark and light to \<open>undefined\<close>; only in this last case does the first read of a palette
  field raise, and what it raises is a \<open>TypeError\<close>.
\<close>

theorem theme_lookup_never_fails:
  "getThemeColors (Some t) =
     (if t = [] \<or> t = ''dark'' then Own ThemeColors_dark
      else if t = ''light'' then Own ThemeColors_light
      else if t \<in> set object_prototype_keys then Inherited
      else Undefined)
   \<and> (fields_of (getThemeColors (Some t)) = Inl TypeError) =
       (t \<notin> {[], ''dark'', ''light''} \<union> set object_prototype_keys)"
  by (simp add: getThemeColors_def getCurrentTheme_def ThemeColors_def object_prototype_keys_def)

section \<open>Resizing\<close>

text \<open>
  C2 as stated fails. When the container of the hero scene has width 800 and height 0,
  \<open>onResize\<close> does not skip the update: it replaces the aspect ratio 4/3 of the camera by
  infinity and recomputes the projection with it.
\<close>

theorem onResize_zero_height_counterexample:
  "aspect (camera (onResize collapsed_page sample_hero)) = Infinity
   \<and> projection_aspect (camera (onResize collapsed_page sample_hero)) = Infinity
   \<and> aspect (camera sample_hero) = Finite (4 / 3)
   \<and> container_size collapsed_page (container sample_hero) = (800, 0)"
  by (simp add: onResize_def collapsed_page_def demo_page_def sample_hero_def container_size_def js_div_def
      updateProjectionMatrix_def PerspectiveCamera_def)

text \<open>
  C2, amended. \<open>onResize\<close> raises nothing and never skips the update: it always sets the
  camera's aspect ratio to the quotient of the container's width and height, recomputes
  the projection with it and resizes the renderer. The aspect ratio is a finite number
  exactly when the height is not 0; with height 0 it is infinity (width positive) or NaN
  (width 0).
\<close>

theorem onResize_sets_aspect:
  "aspect (camera (onResize pg this)) =
     js_div (fst (container_size pg (container this))) (snd (container_size pg (container this)))
   \<and> projection_aspect (camera (onResize pg this)) = aspect (camera (onResize pg this))
   \<and> is_finite (aspect (camera (onResize pg this))) = (snd (container_size pg (container this)) \<noteq> 0)
   \<and> (width (renderer (onResize pg this)), height (renderer (onResize pg this)))
       = container_size pg (container this)"
  by (cases "container_size pg (container this)")
     (simp add: onResize_def js_div_def updateProjectionMatrix_def setSize_def)

section \<open>A container that does not exist\<close>

text \<open>
  C8. Constructing a scene of any of the five classes with an identifier that matches no
  element is a silent no-op: the page is left as it was (no canvas inserted, no listener,
  observer or frame callback registered), no random sample is drawn (nothing is built),
  and the constructor returns normally.
\<close>

theorem missing_container_is_noop:
  assumes "elements pg containerId = None"
  shows "QuantumHeroScene containerId pg g = (pg, g, Inr NoContainer)
       \<and> QuantumProcessorScene containerId pg g = (pg, g, Inr NoContainer)
       \<and> NeuralNetworkScene containerId pg g = (pg, g, Inr NoContainer)
       \<and> FloatingParticlesScene containerId pg g = (pg, g, Inr NoContainer)
       \<and> FeatureQuantumScene containerId pg g = (pg, g, Inr NoContainer)"
  using assms
  by (simp add: QuantumHeroScene_def QuantumProcessorScene_def NeuralNetworkScene_def
      FloatingParticlesScene_def FeatureQuantumScene_def)

theorem missing_container_is_noop_witness:
  "elements demo_page ''about-canvas'' = None
   \<and> QuantumHeroScene ''about-canvas'' demo_page (\<lambda>n. 0) = (demo_page, (\<lambda>n. 0), Inr NoContainer)
   \<and> NeuralNetworkScene ''about-canvas'' demo_page (\<lambda>n. 0) = (demo_page, (\<lambda>n. 0), Inr NoContainer)"
proof -
  have h: "elements demo_page ''about-canvas'' = None"
    by (simp add: demo_page_def)
  show ?thesis using h missing_container_is_noop[OF h, of "\<lambda>n. 0"] by simp
qed

section \<open>The render loop\<close>

text \<open>
  C9 as stated fails. An invocation of \<open>animate\<close> of the hero scene on a page that has
  recorded no calls yet makes its calls in this order: the request of the next frame
  first, then the reading of the clock, then the render call that ends the per-frame
  update.
\<close>

theorem animate_requests_first_counterexample:
  "calls (fst (hero_animate 0 (demo_page, sample_hero))) =
     [RequestAnimationFrame Hero, GetElapsedTime Hero, Render Hero]"
  by (simp add: hero_animate_def Let_def demo_page_def)

text \<open>
  C9, amended. Each invocation of \<open>animate\<close>, in all five scene classes, first requests
  the next invocation, then reads the elapsed time, then performs the per-frame update
  and renders; the scene it leaves is the updated scene with one more frame rendered.
\<close>

theorem animate_order:
  "calls (fst (hero_animate time (pg, h))) =
     calls pg @ [RequestAnimationFrame Hero, GetElapsedTime Hero, Render Hero]
   \<and> snd (hero_animate time (pg, h)) = (hero_tick time h)\<lparr>renderer := render (renderer (hero_tick time h))\<rparr>
   \<and> frame_requests (fst (hero_animate time (pg, h))) = frame_requests pg @ [Hero]
   \<and> calls (fst (processor_animate time (pg, p))) =
     calls pg @ [RequestAnimationFrame Processor, GetElapsedTime Processor, Render Processor]
   \<and> snd (processor_animate time (pg, p)) =
     (processor_tick time p)\<lparr>renderer := render (renderer (processor_tick time p))\<rparr>
   \<and> calls (fst (neural_animate time (pg, n))) =
     calls pg @ [RequestAnimationFrame Neural, GetElapsedTime Neural, Render Neural]
   \<and> snd (neural_animate time (pg, n)) =
     (neural_tick time n)\<lparr>renderer := render (renderer (neural_tick time n))\<rparr>
   \<and> calls (fst (floating_animate time (pg, fl))) =
     calls pg @ [RequestAnimationFrame Floating, GetElapsedTime Floating, Render Floating]
   \<and> snd (floating_animate time (pg, fl)) =
     (floating_tick time fl)\<lparr>renderer := render (renderer (floating_tick time fl))\<rparr>
   \<and> calls (fst (feature_animate time (pg, ft))) =
     calls pg @ [RequestAnimationFrame Feature, GetElapsedTime Feature, Render Feature]
   \<and> snd (feature_animate time (pg, ft)) =
     (feature_tick time ft)\<lparr>renderer := render (renderer (feature_tick time ft))\<rparr>"
  by (simp add: hero_animate_def processor_animate_def neural_animate_def floating_animate_def
      feature_animate_def Let_def)

section \<open>The connections of the processor scene\<close>

lemma numbered_append:
  "numbered step n (xs @ ys) = numbered step n xs @ numbered step (n + step * length xs) ys"
  by (induction xs arbitrary: n) (simp_all add: add.assoc)

lemma length_numbered [simp]: "length (numbered step n xs) = length xs"
  by (induction xs arbitrary: n) simp_all

lemma numbered_lines_geometry:
  "map geometry (numbered 3 n (map (\<lambda>(p, p') n. Mesh n (PointsGeometry [p, p']) lm) ps))
   = map (\<lambda>(p, p'). PointsGeometry [p, p']) ps"
  by (induction ps arbitrary: n) (auto simp: Mesh_def)

lemma qubit_row:
  "fold (\<lambda>z (this, g). (this\<lparr>qubits := qubits this @ [Q (allocated this) z g],
                              scene_children := scene_children this + 1,
                              allocated := allocated this + 6\<rparr>, skip 3 g)) zs (this, g)
   = (this\<lparr>qubits := qubits this @
             map (\<lambda>(k, z). Q (allocated this + 6 * k) z (skip (3 * k) g)) (enumerate 0 zs),
           scene_children := scene_children this + length zs,
           allocated := allocated this + 6 * length zs\<rparr>, skip (3 * length zs) g)"
proof (induction zs rule: rev_induct)
  case Nil
  show ?case by simp
next
  case (snoc z zs)
  then show ?case by (simp add: enumerate_append_eq add.commute)
qed

lemma qubit_rows:
  "fold (\<lambda>x. fold (\<lambda>z (this, g). (this\<lparr>qubits := qubits this @ [Q x (allocated this) z g],
                              scene_children := scene_children this + 1,
                              allocated := allocated this + 6\<rparr>, skip 3 g)) zs) xs (this, g)
   = (this\<lparr>qubits := qubits this @
             concat (map (\<lambda>(i, x). map (\<lambda>(k, z). Q x (allocated this + 6 * (i * length zs + k)) z
                                                    (skip (3 * (i * length zs + k)) g))
                                 (enumerate 0 zs)) (enumerate 0 xs)),
           scene_children := scene_children this + length xs * length zs,
           allocated := allocated this + 6 * (length xs * length zs)\<rparr>,
      skip (3 * (length xs * length zs)) g)"
  (is "fold ?F xs (this, g) = ?closed xs")
proof (induction xs rule: rev_induct)
  case Nil
  show ?case by simp
next
  case (snoc x xs)
  have "fold ?F (xs @ [x]) (this, g) = ?F x (fold ?F xs (this, g))"
    by simp
  also have "\<dots> = ?F x (?closed xs)"
    by (simp only: snoc)
  also have "\<dots> = ?closed (xs @ [x])"
    apply (simp only: qubit_row[where Q = "Q x"])
    apply (simp add: enumerate_append_eq algebra_simps)
    done
  finally show ?case .
qed

lemma connection_row:
  "fold (\<lambda>(j, otherQubit) this.
          if (i::nat) < j then
            (if D otherQubit < (4::real) then
               this\<lparr>scene_lines := scene_lines this @ [L otherQubit (allocated this)],
                    scene_children := scene_children this + 1,
                    allocated := allocated this + 3\<rparr>
             else this)
          else this) ys (this::processor)
   = this\<lparr>scene_lines := scene_lines this @
            numbered 3 (allocated this)
              (map (\<lambda>(j, q). L q) (filter (\<lambda>(j, q). i < j \<and> D q < 4) ys)),
          scene_children := scene_children this +
            length (filter (\<lambda>(j, q). i < j \<and> D q < 4) ys),
          allocated := allocated this +
            3 * length (filter (\<lambda>(j, q). i < j \<and> D q < 4) ys)\<rparr>"
proof (induction ys arbitrary: this)
  case Nil
  show ?case by simp
next
  case (Cons a ys)
  obtain j q where a: "a = (j, q)" by (cases a)
  show ?case
  proof (cases "i < j \<and> D q < 4")
    case True
    then show ?thesis by (simp add: a Cons Let_def)
  next
    case False
    then show ?thesis by (auto simp add: a Cons Let_def)
  qed
qed

lemma connection_rows:
  "fold (\<lambda>(i, qubit). fold (\<lambda>(j, otherQubit) this.
          if (i::nat) < j then
            (if D qubit otherQubit < (4::real) then
               this\<lparr>scene_lines := scene_lines this @ [L qubit otherQubit (allocated this)],
                    scene_children := scene_children this + 1,
                    allocated := allocated this + 3\<rparr>
             else this)
          else this) ys) xs (this::processor)
   = this\<lparr>scene_lines := scene_lines this @
            numbered 3 (allocated this)
              (concat (map (\<lambda>(i, q). map (\<lambda>(j, q'). L q q')
                       (filter (\<lambda>(j, q'). i < j \<and> D q q' < 4) ys)) xs)),
          scene_children := scene_children this +
            length (concat (map (\<lambda>(i, q). map (\<lambda>(j, q'). L q q')
                       (filter (\<lambda>(j, q'). i < j \<and> D q q' < 4) ys)) xs)),
          allocated := allocated this +
            3 * length (concat (map (\<lambda>(i, q). map (\<lambda>(j, q'). L q q')
                       (filter (\<lambda>(j, q'). i < j \<and> D q q' < 4) ys)) xs))\<rparr>"
proof (induction xs arbitrary: this)
  case Nil
  show ?case by simp
next
  case (Cons a xs)
  obtain i q where a: "a = (i, q)" by (cases a)
  show ?case
    apply (simp only: fold_simps a split_conv comp_apply)
    apply (simp only: connection_row[where D = "D q" and L = "L q"])
    apply (simp only: Cons)
    apply (simp add: numbered_append algebra_simps)
    done
qed

lemma createConnections_eq:
  assumes "fields_of (getThemeColors (data_theme pg)) = Inr colors"
  shows "processor_createConnections pg this =
    Inr (this\<lparr>scene_lines := scene_lines this @
            numbered 3 (allocated this + 1)
              (concat (map (\<lambda>(i, q). map (\<lambda>(j, q') n.
                Mesh n (PointsGeometry [position (mesh q), position (mesh q')])
                  (LineBasicMaterial (primary colors) True (Some 0.3)))
              (filter (\<lambda>(j, q'). i < j \<and> distanceTo (position (mesh q)) (position (mesh q')) < 4)
                 (enumerate 0 (qubits this)))) (enumerate 0 (qubits this)))),
          scene_children := scene_children this + length (concat (map (\<lambda>(i, q). map (\<lambda>(j, q') n.
                Mesh n (PointsGeometry [position (mesh q), position (mesh q')])
                  (LineBasicMaterial (primary colors) True (Some 0.3)))
              (filter (\<lambda>(j, q'). i < j \<and> distanceTo (position (mesh q)) (position (mesh q')) < 4)
                 (enumerate 0 (qubits this)))) (enumerate 0 (qubits this)))),
          allocated := allocated this + 1 + 3 * length (concat (map (\<lambda>(i, q). map (\<lambda>(j, q') n.
                Mesh n (PointsGeometry [position (mesh q), position (mesh q')])
                  (LineBasicMaterial (primary colors) True (Some 0.3)))
              (filter (\<lambda>(j, q'). i < j \<and> distanceTo (position (mesh q)) (position (mesh q')) < 4)
                 (enumerate 0 (qubits this)))) (enumerate 0 (qubits this))))\<rparr>)"
  unfolding processor_createConnections_def assms sum.case
  apply (simp only: Let_def)
  apply (subst connection_rows[where L = "\<lambda>q q' n. Mesh n (PointsGeometry [position (mesh q), position (mesh q')])
                  (LineBasicMaterial (primary colors) True (Some 0.3))"
        and D = "\<lambda>q q'. distanceTo (position (mesh q)) (position (mesh q'))"])
  apply simp
  done

lemma qubit_grid_explicit: "qubit_grid = [(-6, 0, -6), (-6, 0, -3), (-6, 0, 0), (-6, 0, 3), (-6, 0, 6),
    (-3, 0, -6), (-3, 0, -3), (-3, 0, 0), (-3, 0, 3), (-3, 0, 6),
    (0, 0, -6), (0, 0, -3), (0, 0, 0), (0, 0, 3), (0, 0, 6),
    (3, 0, -6), (3, 0, -3), (3, 0, 0), (3, 0, 3), (3, 0, 6),
    (6, 0, -6), (6, 0, -3), (6, 0, 0), (6, 0, 3), (6, 0, 6)]"
  unfolding qubit_grid_def upto_m2_2 by simp

lemma qubit_grid_pairs: "length (unordered_pairs_within_4 qubit_grid) = 40"
  unfolding qubit_grid_explicit unordered_pairs_within_4_def
  by (simp add: distanceTo_less_4 del: distanceTo.simps)

lemma pairs_inner:
  "map (\<lambda>(j, q'). L (pos q')) (filter (\<lambda>(j, q'). (i::nat) < j \<and> D (pos q')) (enumerate n qs))
   = concat (map (\<lambda>(j, p'). if i < j \<and> D p' then [L p'] else []) (enumerate n (map pos qs)))"
  by (induction qs arbitrary: n) auto

lemma pairs_outer:
  "concat (map (\<lambda>(i, q). map (\<lambda>(j, q'). L (pos q) (pos q'))
       (filter (\<lambda>(j, q'). (i::nat) < j \<and> D (pos q) (pos q')) (enumerate n qs'))) (enumerate m qs))
   = concat (map (\<lambda>(i, p). concat (map (\<lambda>(j, p'). if i < j \<and> D p p' then [L p p'] else [])
       (enumerate n (map pos qs')))) (enumerate m (map pos qs)))"
proof (induction qs arbitrary: m)
  case Nil
  show ?case by simp
next
  case (Cons q qs)
  show ?case
    by (simp add: Cons pairs_inner[where L = "L (pos q)" and D = "D (pos q)"])
qed

lemma created_lines:
  "concat (map (\<lambda>(i, q). map (\<lambda>(j, q') n.
                Mesh n (PointsGeometry [position (mesh q), position (mesh q')]) lm)
              (filter (\<lambda>(j, q'). i < j \<and> distanceTo (position (mesh q)) (position (mesh q')) < 4)
                 (enumerate 0 qs))) (enumerate 0 qs))
   = map (\<lambda>(p, p') n. Mesh n (PointsGeometry [p, p']) lm)
       (unordered_pairs_within_4 (map (\<lambda>q. position (mesh q)) qs))"
  unfolding unordered_pairs_within_4_def
  apply (subst pairs_outer[where pos = "\<lambda>q. position (mesh q)"
        and L = "\<lambda>p p' n. Mesh n (PointsGeometry [p, p']) lm" and D = "\<lambda>p p'. distanceTo p p' < 4"])
  apply (simp add: map_concat comp_def split_def if_distrib cong: if_cong)
  done

lemma grid_qubit_position: "position (mesh (grid_qubit n colors x z g)) = (real_of_int x * 3, 0, real_of_int z * 3)"
  by (simp add: grid_qubit_def Mesh_def Let_def)

lemma grid_qubit_baseY: "baseY (grid_qubit n colors x z g) = 0"
  by (simp add: grid_qubit_def Let_def)

lemma grid_qubit_paint:
  "color (material (ring (grid_qubit n colors x z g))) = primary colors"
  "opacity (material (mesh (grid_qubit n colors x z g))) = Some 0.9"
  by (simp_all add: grid_qubit_def Let_def Mesh_def MeshBasicMaterial_def)

lemma identities_Mesh [simp]: "identities (Mesh n geo mat) = [n, n + 1, n + 2]"
  by (simp add: identities_def Mesh_def)

lemma identities_transform [simp]:
  "identities (ob\<lparr>position := p\<rparr>) = identities ob"
  "identities (ob\<lparr>rotation := r\<rparr>) = identities ob"
  "identities (ob\<lparr>scale := sc\<rparr>) = identities ob"
  "identities (set_opacity opac ob) = identities ob"
  "identities (setHex c ob) = identities ob"
  by (simp_all add: identities_def set_opacity_def setHex_def)

lemma consecutive_identities:
  "concat (map (\<lambda>i. [a + k * i ..< a + k * i + k]) [0..<n]) = [a..<a + k * n]"
proof (induction n)
  case 0
  show ?case by simp
next
  case (Suc n)
  have e: "a + k * Suc n = a + k * n + k" by simp
  have "[a..<a + k * Suc n] = [a..<a + k * n] @ [a + k * n..<a + k * n + k]"
    unfolding e by (rule upt_add_eq_append) simp
  moreover have "concat (map (\<lambda>i. [a + k * i ..< a + k * i + k]) [0..<Suc n])
      = concat (map (\<lambda>i. [a + k * i ..< a + k * i + k]) [0..<n]) @ [a + k * n..<a + k * n + k]"
    by simp
  ultimately show ?case by (simp only: Suc)
qed

lemma identities_Mesh_upt: "identities (Mesh n geo mat) = [n..<n + 3]"
  by (simp add: identities_def Mesh_def upt_rec[of n] upt_rec[of "Suc n"] upt_rec[of "Suc (Suc n)"])

lemma numbered_lines_identities:
  "concat (map identities (numbered 3 n (map (\<lambda>(p, p') n. Mesh n (PointsGeometry [p, p']) lm) ps)))
   = [n..<n + 3 * length ps]"
proof (induction ps arbitrary: n)
  case Nil
  show ?case by simp
next
  case (Cons a ps)
  obtain p p' where a: "a = (p, p')" by (cases a)
  have e: "n + 3 * length (a # ps) = n + 3 + 3 * length ps" by simp
  have "[n..<n + 3 * length (a # ps)] = [n..<n + 3] @ [n + 3..<n + 3 + 3 * length ps]"
    unfolding e by (rule upt_add_eq_append) simp
  moreover have "concat (map identities (numbered 3 n (map (\<lambda>(p, p') n. Mesh n (PointsGeometry [p, p']) lm) (a # ps))))
      = [n..<n + 3] @ [n + 3..<n + 3 + 3 * length ps]"
    by (simp only: a list.map split_conv numbered.simps concat.simps identities_Mesh_upt Cons)
  ultimately show ?case by (simp only:)
qed

lemma grid_qubit_identities:
  "identities (mesh (grid_qubit n colors x z g)) @ identities (ring (grid_qubit n colors x z g))
   = [n..<n + 6]"
proof -
  have m: "identities (mesh (grid_qubit n colors x z g)) = [n..<n + 3]"
    by (simp add: grid_qubit_def Let_def identities_Mesh_upt del: identities_Mesh)
  have r: "identities (ring (grid_qubit n colors x z g)) = [n + 3..<n + 3 + 3]"
    by (simp add: grid_qubit_def Let_def identities_Mesh_upt del: identities_Mesh)
  have e: "n + 6 = n + 3 + 3" by simp
  show ?thesis
    unfolding m r e by (rule upt_add_eq_append[symmetric]) simp
qed

lemma qubits_identities:
  "concat (map (\<lambda>q. identities (mesh q) @ identities (ring q))
     (concat (map (\<lambda>(i, x). map (\<lambda>(k, z). grid_qubit (a + 6 * (i * length [-2..2::int] + k))
                                           colors x z (G i k))
                                 (enumerate 0 [-2..2])) (enumerate 0 [-2..2::int]))))
   = [a..<a + 150]"
proof -
  have "concat (map (\<lambda>i. [a + 6 * i ..< a + 6 * i + 6]) [0..<25]) = [a..<a + 6 * 25]"
    by (rule consecutive_identities)
  moreover have "concat (map (\<lambda>q. identities (mesh q) @ identities (ring q))
     (concat (map (\<lambda>(i, x). map (\<lambda>(k, z). grid_qubit (a + 6 * (i * length [-2..2::int] + k))
                                           colors x z (G i k))
                                 (enumerate 0 [-2..2])) (enumerate 0 [-2..2::int]))))
     = concat (map (\<lambda>i. [a + 6 * i ..< a + 6 * i + 6]) [0..<25])"
    unfolding upto_m2_2
    by (simp add: grid_qubit_identities upt_conv_Cons del: identities_Mesh)
  ultimately show ?thesis by simp
qed

lemma processor_tick_identities:
  "processor_identities (processor_tick time this) = processor_identities this"
  "allocated (processor_tick time this) = allocated this"
  by (simp_all add: processor_tick_def processor_identities_def Let_def comp_def)

lemma createQubits_eq:
  assumes "fields_of (getThemeColors (data_theme pg)) = Inr colors"
  shows "\<exists>qs. processor_createQubits pg g this =
            Inr (this\<lparr>qubits := qubits this @ qs, scene_children := scene_children this + 25,
                      allocated := allocated this + 150\<rparr>,
                 skip 75 g)
          \<and> map (\<lambda>q. position (mesh q)) qs = qubit_grid \<and> map rest_position qs = qubit_grid
          \<and> (\<forall>q\<in>set qs. color (material (ring q)) = primary colors
                        \<and> opacity (material (mesh q)) = Some 0.9)
          \<and> concat (map (\<lambda>q. identities (mesh q) @ identities (ring q)) qs)
              = [allocated this..<allocated this + 150]"
proof -
  let ?qs = "concat (map (\<lambda>(i, x). map (\<lambda>(k, z). grid_qubit (allocated this + 6 * (i * length [-2..2::int] + k))
                                           colors x z (skip (3 * (i * length [-2..2::int] + k)) g))
                                 (enumerate 0 [-2..2])) (enumerate 0 [-2..2]))"
  have len: "length [-2..2::int] = 5"
    by (simp add: upto_m2_2)
  have "processor_createQubits pg g this =
            Inr (this\<lparr>qubits := qubits this @ ?qs, scene_children := scene_children this + 25,
                      allocated := allocated this + 150\<rparr>,
                 skip 75 g)"
    unfolding processor_createQubits_def assms sum.case
    apply (subst qubit_rows[where Q = "\<lambda>x n z g. grid_qubit n colors x z g"])
    apply (simp only: len)
    apply simp
    done
  moreover have "map (\<lambda>q. position (mesh q)) ?qs = qubit_grid"
    unfolding qubit_grid_explicit upto_m2_2
    by (simp add: map_concat comp_def split_def grid_qubit_position)
  moreover have "map rest_position ?qs = qubit_grid"
    unfolding qubit_grid_explicit upto_m2_2
    by (simp add: map_concat comp_def split_def rest_position_def grid_qubit_position
        grid_qubit_baseY)
  moreover have "\<forall>q\<in>set ?qs. color (material (ring q)) = primary colors
                        \<and> opacity (material (mesh q)) = Some 0.9"
    by (auto simp: grid_qubit_paint)
  moreover have "concat (map (\<lambda>q. identities (mesh q) @ identities (ring q)) ?qs)
              = [allocated this..<allocated this + 150]"
    by (rule qubits_identities)
  ultimately show ?thesis by blast
qed

lemma processor_tick_rest:
  "map rest_position (qubits (processor_tick time this)) = map rest_position (qubits this)"
  by (simp add: processor_tick_def Let_def rest_position_def comp_def)

lemma processor_tick_lines: "scene_lines (processor_tick time this) = scene_lines this"
  by (simp add: processor_tick_def Let_def)

lemma processor_tick_paint:
  "map (\<lambda>q. (color (material (ring q)), opacity (material (mesh q)))) (qubits (processor_tick time this))
   = map (\<lambda>q. (color (material (ring q)), opacity (material (mesh q)))) (qubits this)"
  by (simp add: processor_tick_def Let_def comp_def)

lemma createQuantumGrid_ok:
  assumes "fields_of (getThemeColors (data_theme pg)) = Inr colors"
  shows "\<exists>this1. processor_createQuantumGrid pg this = Inr this1
     \<and> qubits this1 = qubits this \<and> scene_lines this1 = scene_lines this
     \<and> allocated this1 = allocated this + 3
     \<and> concat (map identities (present (gridHelper this1))) = [allocated this..<allocated this + 3]"
  by (simp add: processor_createQuantumGrid_def assms Let_def identities_Mesh_upt del: identities_Mesh)

lemma processor_init_built:
  assumes colors: "fields_of (getThemeColors (data_theme pg)) = Inr colors"
      and empty: "qubits this = []" "scene_lines this = []" "allocated this = 0"
  shows "\<exists>pg' this'. processor_init pg g this = (pg', skip 75 g, Inr this')
     \<and> theme_observers pg' = theme_observers pg @ [Processor]
     \<and> data_theme pg' = data_theme pg
     \<and> map rest_position (qubits this') = qubit_grid
     \<and> scene_lines this' =
         numbered 3 154
           (map (\<lambda>(p, p') n. Mesh n (PointsGeometry [p, p']) (LineBasicMaterial (primary colors) True (Some 0.3)))
              (unordered_pairs_within_4 qubit_grid))
     \<and> (\<forall>q\<in>set (qubits this'). color (material (ring q)) = primary colors
                        \<and> opacity (material (mesh q)) = Some 0.9)
     \<and> processor_identities this' = [0..<153] @ [154..<274]
     \<and> allocated this' = 274"
proof -
  obtain w h where wh: "container_size pg (container this) = (w, h)"
    by (cases "container_size pg (container this)")
  let ?pg = "appendChild (container this) pg"
  have colors': "fields_of (getThemeColors (data_theme ?pg)) = Inr colors"
    using colors by simp
  let ?start = "this\<lparr>renderer := (setSize w h (renderer this))\<lparr>pixelRatio := min (devicePixelRatio pg) 2\<rparr>,
      camera := (camera this)\<lparr>position := (0, 15, 25), lookAt := Some (0, 0, 0)\<rparr>\<rparr>"
  obtain this1 where grid: "processor_createQuantumGrid ?pg ?start = Inr this1"
    and q1: "qubits this1 = []" and l1: "scene_lines this1 = []" and a1: "allocated this1 = 3"
    and i1: "concat (map identities (present (gridHelper this1))) = [0..<3]"
    using createQuantumGrid_ok[OF colors', of ?start] empty by auto
  obtain qs where qs: "processor_createQubits ?pg g this1 =
      Inr (this1\<lparr>qubits := qubits this1 @ qs, scene_children := scene_children this1 + 25,
                 allocated := allocated this1 + 150\<rparr>, skip 75 g)"
    and pos: "map (\<lambda>q. position (mesh q)) qs = qubit_grid" and rest: "map rest_position qs = qubit_grid"
    and paint: "\<forall>q\<in>set qs. color (material (ring q)) = primary colors
                        \<and> opacity (material (mesh q)) = Some 0.9"
    and i2: "concat (map (\<lambda>q. identities (mesh q) @ identities (ring q)) qs)
              = [allocated this1..<allocated this1 + 150]"
    using createQubits_eq[OF colors'] by blast
  let ?this2 = "this1\<lparr>qubits := qubits this1 @ qs, scene_children := scene_children this1 + 25,
                 allocated := allocated this1 + 150\<rparr>"
  let ?lines = "numbered 3 154
           (map (\<lambda>(p, p') n. Mesh n (PointsGeometry [p, p']) (LineBasicMaterial (primary colors) True (Some 0.3)))
           (unordered_pairs_within_4 qubit_grid))"
  have "\<exists>this3. processor_createConnections ?pg ?this2 = Inr this3
    \<and> qubits this3 = qs
    \<and> scene_lines this3 = ?lines
    \<and> gridHelper this3 = gridHelper this1
    \<and> allocated this3 = 274"
    by (simp add: createConnections_eq[OF colors'] q1 l1 a1 created_lines pos qubit_grid_pairs)
  then obtain this3 where conn: "processor_createConnections ?pg ?this2 = Inr this3"
    and q3: "qubits this3 = qs"
    and l3: "scene_lines this3 = ?lines"
    and g3: "gridHelper this3 = gridHelper this1"
    and a3: "allocated this3 = 274"
    by blast
  define f where "f = (\<lambda>q::qubit. (color (material (ring q)), opacity (material (mesh q))))"
  have "map f (qubits (processor_tick 0 this3)) = map f qs"
    unfolding f_def by (simp only: processor_tick_paint q3)
  then have "f ` set (qubits (processor_tick 0 this3)) = f ` set qs"
    by (metis set_map)
  moreover have "\<forall>q\<in>set qs. f q = (primary colors, Some 0.9)"
    using paint by (simp add: f_def)
  ultimately have "\<forall>q\<in>set (qubits (processor_tick 0 this3)). f q = (primary colors, Some 0.9)"
    by (metis (no_types, lifting) imageE imageI)
  then have paint3: "\<forall>q\<in>set (qubits (processor_tick 0 this3)). color (material (ring q)) = primary colors
                        \<and> opacity (material (mesh q)) = Some 0.9"
    by (simp add: f_def)
  have "concat (map identities ?lines) = [154..<154 + 3 * length (unordered_pairs_within_4 qubit_grid)]"
    by (rule numbered_lines_identities)
  then have i3: "concat (map identities (scene_lines this3)) = [154..<274]"
    by (simp add: l3 qubit_grid_pairs)
  have "[0..<3 + 150] = [0..<3] @ [3..<3 + 150]"
    by (rule upt_add_eq_append) simp
  then have "processor_identities this3 = [0..<153] @ [154..<274]"
    unfolding processor_identities_def g3 q3 i1 i3 using i2 by (simp add: a1)
  then have ids: "processor_identities (processor_tick 0 this3) = [0..<153] @ [154..<274]"
    by (simp only: processor_tick_identities)
  have ids': "processor_identities ((processor_tick 0 this3)\<lparr>renderer := r\<rparr>)
      = processor_identities (processor_tick 0 this3)" for r
    by (simp add: processor_identities_def)
  show ?thesis
    using paint3 ids
    by (simp add: processor_init_def wh Let_def grid qs conn processor_animate_def
        processor_tick_rest processor_tick_lines q3 l3 rest setupThemeObserver_def ids'
        processor_tick_identities a3)
qed

lemma QuantumProcessorScene_built:
  assumes el: "elements pg containerId = Some el"
      and colors: "fields_of (getThemeColors (data_theme pg)) = Inr colors"
  shows "\<exists>pg' this. QuantumProcessorScene containerId pg g = (pg', skip 75 g, Inr (Built this))
     \<and> theme_observers pg' = theme_observers pg @ [Processor]
     \<and> data_theme pg' = data_theme pg
     \<and> map rest_position (qubits this) = qubit_grid
     \<and> scene_lines this =
         numbered 3 154
           (map (\<lambda>(p, p') n. Mesh n (PointsGeometry [p, p']) (LineBasicMaterial (primary colors) True (Some 0.3)))
              (unordered_pairs_within_4 qubit_grid))
     \<and> (\<forall>q\<in>set (qubits this). color (material (ring q)) = primary colors
                        \<and> opacity (material (mesh q)) = Some 0.9)
     \<and> processor_identities this = [0..<153] @ [154..<274]
     \<and> allocated this = 274"
proof -
  let ?new = "\<lparr>container = containerId,
                   camera = PerspectiveCamera 60 (js_div (offsetWidth el) (offsetHeight el)) 0.1 1000,
                   renderer = WebGLRenderer, scene_children = 0, allocated = 0,
                   gridHelper = None, qubits = [], scene_lines = []\<rparr>"
  obtain pg' this' where "processor_init pg g ?new = (pg', skip 75 g, Inr this')"
     and "theme_observers pg' = theme_observers pg @ [Processor]"
     and "data_theme pg' = data_theme pg"
     and "map rest_position (qubits this') = qubit_grid"
     and "scene_lines this' =
         numbered 3 154
           (map (\<lambda>(p, p') n. Mesh n (PointsGeometry [p, p']) (LineBasicMaterial (primary colors) True (Some 0.3)))
              (unordered_pairs_within_4 qubit_grid))"
     and "\<forall>q\<in>set (qubits this'). color (material (ring q)) = primary colors
                        \<and> opacity (material (mesh q)) = Some 0.9"
     and "processor_identities this' = [0..<153] @ [154..<274]"
     and "allocated this' = 274"
    using processor_init_built[OF colors, of ?new g] by auto
  then show ?thesis
    by (simp add: QuantumProcessorScene_def el)
qed

text \<open>
  C6. Building the processor scene (in a container that exists, under a supported theme)
  places the 25 qubits on the 5 by 5 grid with spacing 3 and creates one line for exactly
  the unordered pairs of qubits whose places are less than 4 apart, from the one place to
  the other. There are 40 such lines, and two builds with different random samples create
  the same lines.
\<close>

theorem processor_connections_exact:
  assumes "elements pg containerId = Some el"
      and "getCurrentTheme (data_theme pg) = ''dark'' \<or> getCurrentTheme (data_theme pg) = ''light''"
  shows "\<exists>pg1 g1' this1 pg2 g2' this2.
           QuantumProcessorScene containerId pg g1 = (pg1, g1', Inr (Built this1))
         \<and> QuantumProcessorScene containerId pg g2 = (pg2, g2', Inr (Built this2))
         \<and> map rest_position (qubits this1) = qubit_grid
         \<and> map geometry (scene_lines this1) =
             map (\<lambda>(p, p'). PointsGeometry [p, p'])
               (unordered_pairs_within_4 (map rest_position (qubits this1)))
         \<and> length (scene_lines this1) = 40
         \<and> scene_lines this2 = scene_lines this1"
proof -
  obtain colors where colors: "fields_of (getThemeColors (data_theme pg)) = Inr colors"
    using supported_theme_fields[OF assms(2)] by blast
  obtain pg1 this1 where 1: "QuantumProcessorScene containerId pg g1 = (pg1, skip 75 g1, Inr (Built this1))"
     and r1: "map rest_position (qubits this1) = qubit_grid"
     and l1: "scene_lines this1 =
         numbered 3 154
           (map (\<lambda>(p, p') n. Mesh n (PointsGeometry [p, p']) (LineBasicMaterial (primary colors) True (Some 0.3)))
              (unordered_pairs_within_4 qubit_grid))"
    using QuantumProcessorScene_built[OF assms(1) colors, of g1] by blast
  obtain pg2 this2 where 2: "QuantumProcessorScene containerId pg g2 = (pg2, skip 75 g2, Inr (Built this2))"
     and l2: "scene_lines this2 =
         numbered 3 154
           (map (\<lambda>(p, p') n. Mesh n (PointsGeometry [p, p']) (LineBasicMaterial (primary colors) True (Some 0.3)))
              (unordered_pairs_within_4 qubit_grid))"
    using QuantumProcessorScene_built[OF assms(1) colors, of g2] by blast
  have "map geometry (scene_lines this1) =
             map (\<lambda>(p, p'). PointsGeometry [p, p'])
               (unordered_pairs_within_4 (map rest_position (qubits this1)))"
    unfolding l1 r1 by (rule numbered_lines_geometry)
  moreover have "length (scene_lines this1) = 40"
    by (simp add: l1 qubit_grid_pairs)
  ultimately show ?thesis
    using 1 2 r1 l1 l2 by auto
qed

theorem processor_connections_exact_witness:
  "elements demo_page ''tech-canvas'' = Some \<lparr>offsetWidth = 800, offsetHeight = 600, canvases = 0\<rparr>
   \<and> getCurrentTheme (data_theme demo_page) = ''dark''
   \<and> (\<exists>pg1 g1' this1 pg2 g2' this2.
           QuantumProcessorScene ''tech-canvas'' demo_page (\<lambda>n. 0) = (pg1, g1', Inr (Built this1))
         \<and> QuantumProcessorScene ''tech-canvas'' demo_page (\<lambda>n. 1 / 2) = (pg2, g2', Inr (Built this2))
         \<and> map rest_position (qubits this1) = qubit_grid
         \<and> map geometry (scene_lines this1) =
             map (\<lambda>(p, p'). PointsGeometry [p, p'])
               (unordered_pairs_within_4 (map rest_position (qubits this1)))
         \<and> length (scene_lines this1) = 40
         \<and> scene_lines this2 = scene_lines this1)"
proof -
  have h1: "elements demo_page ''tech-canvas'' = Some \<lparr>offsetWidth = 800, offsetHeight = 600, canvases = 0\<rparr>"
    by (simp add: demo_page_def)
  have h2: "getCurrentTheme (data_theme demo_page) = ''dark''"
    by (simp add: demo_page_def getCurrentTheme_def)
  from h2 have h2': "getCurrentTheme (data_theme demo_page) = ''dark''
      \<or> getCurrentTheme (data_theme demo_page) = ''light''" by simp
  show ?thesis
    using h1 h2 processor_connections_exact[OF h1 h2', of "\<lambda>n. 0" "\<lambda>n. 1 / 2"] by simp
qed

section \<open>The particles of the hero scene\<close>

lemma dark_loop:
  "\<exists>pos col siz.
     fold (dark_particle c1 c2) [0..<n] (pos0, col0, siz0, ps0, g) =
       (pos, col, siz,
        ps0 @ map (\<lambda>i. \<lparr>particle.index = i, radius = 8 + g (7 * i) * 20, theta = g (7 * i + 1) * pi * 2,
                         phi = arccos (2 * g (7 * i + 2) - 1),
                         speed = 0.001 + g (7 * i + 5) * 0.002,
                         phaseOffset = g (7 * i + 6) * pi * 2\<rparr>) [0..<n],
        skip (7 * n) g)
     \<and> length pos = length pos0"
  (is "\<exists>pos col siz. ?loop n = (pos, col, siz, ?made n, skip (7 * n) g) \<and> length pos = length pos0")
proof (induction n)
  case 0
  show ?case by simp
next
  case (Suc n)
  then obtain pos col siz where
    n: "?loop n = (pos, col, siz, ?made n, skip (7 * n) g)" and len: "length pos = length pos0"
    by blast
  have step: "?loop (Suc n) = dark_particle c1 c2 n (?loop n)"
    by simp
  have "\<exists>pos' col' siz'. dark_particle c1 c2 n (pos, col, siz, ?made n, skip (7 * n) g)
      = (pos', col', siz', ?made (Suc n), skip (7 * Suc n) g) \<and> length pos' = length pos0"
    using len by (simp add: dark_particle_def Let_def skip_apply add.commute)
  then obtain pos' col' siz' where
    r: "dark_particle c1 c2 n (pos, col, siz, ?made n, skip (7 * n) g)
      = (pos', col', siz', ?made (Suc n), skip (7 * Suc n) g)" and len': "length pos' = length pos0"
    by blast
  have "?loop (Suc n) = (pos', col', siz', ?made (Suc n), skip (7 * Suc n) g)"
    by (simp only: step n r)
  with len' show ?case by blast
qed

lemma light_loop:
  "\<exists>pos col siz.
     fold (light_particle c1 c2) [0..<n] (pos0, col0, siz0, ps0, g) =
       (pos, col, siz,
        ps0 @ map (\<lambda>i. \<lparr>particle.index = i, radius = 8 + g (6 * i) * 20, theta = g (6 * i + 1) * pi * 2,
                         phi = arccos (2 * g (6 * i + 2) - 1),
                         speed = 0.001 + g (6 * i + 4) * 0.002,
                         phaseOffset = g (6 * i + 5) * pi * 2\<rparr>) [0..<n],
        skip (6 * n) g)
     \<and> length pos = length pos0"
  (is "\<exists>pos col siz. ?loop n = (pos, col, siz, ?made n, skip (6 * n) g) \<and> length pos = length pos0")
proof (induction n)
  case 0
  show ?case by simp
next
  case (Suc n)
  then obtain pos col siz where
    n: "?loop n = (pos, col, siz, ?made n, skip (6 * n) g)" and len: "length pos = length pos0"
    by blast
  have step: "?loop (Suc n) = light_particle c1 c2 n (?loop n)"
    by simp
  have "\<exists>pos' col' siz'. light_particle c1 c2 n (pos, col, siz, ?made n, skip (6 * n) g)
      = (pos', col', siz', ?made (Suc n), skip (6 * Suc n) g) \<and> length pos' = length pos0"
    using len by (simp add: light_particle_def Let_def skip_apply add.commute)
  then obtain pos' col' siz' where
    r: "light_particle c1 c2 n (pos, col, siz, ?made n, skip (6 * n) g)
      = (pos', col', siz', ?made (Suc n), skip (6 * Suc n) g)" and len': "length pos' = length pos0"
    by blast
  have "?loop (Suc n) = (pos', col', siz', ?made (Suc n), skip (6 * Suc n) g)"
    by (simp only: step n r)
  with len' show ?case by blast
qed

lemma animate_particle_eq:
  assumes "particle.index p = n" "length pre = n * 3"
  shows "animate_particle time p (pre @ a # b # c # rest)
       = (advanced 1 p, pre @ particle_position time (advanced 1 p) @ rest)"
  using assms
  by (simp add: animate_particle_def advanced_def particle_position_def instantaneous_radius_def
      Let_def list_update_append)

lemma animate_particles_eq:
  assumes "\<forall>k<length ps. particle.index (ps ! k) = n + k" "length pre = n * 3"
      and "length mid = length ps * 3"
  shows "animate_particles time ps (pre @ mid @ rest)
       = (map (advanced 1) ps,
          pre @ concat (map (\<lambda>p. particle_position time (advanced 1 p)) ps) @ rest)"
  using assms
proof (induction ps arbitrary: n pre mid)
  case Nil
  then show ?case by simp
next
  case (Cons p ps)
  from Cons.prems(3) obtain a b c mid' where mid: "mid = a # b # c # mid'"
    and mid': "length mid' = length ps * 3"
    by (cases mid; cases "tl mid"; cases "tl (tl mid)") auto
  from Cons.prems(1) have idx: "particle.index p = n"
    by auto
  from Cons.prems(1) have rest: "\<forall>k<length ps. particle.index (ps ! k) = Suc n + k"
    by fastforce
  let ?pre = "pre @ particle_position time (advanced 1 p)"
  have len: "length ?pre = Suc n * 3"
    using Cons.prems(2) by (simp add: particle_position_def Let_def)
  have 1: "animate_particle time p (pre @ mid @ rest) = (advanced 1 p, ?pre @ mid' @ rest)"
    using animate_particle_eq[OF idx Cons.prems(2), of time a b c "mid' @ rest"] by (simp add: mid)
  have 2: "animate_particles time ps (?pre @ mid' @ rest)
       = (map (advanced 1) ps,
          ?pre @ concat (map (\<lambda>p. particle_position time (advanced 1 p)) ps) @ rest)"
    by (rule Cons.IH[OF rest len mid'])
  show ?case
    by (simp only: animate_particles.simps 1 2 prod.case) simp
qed

lemma advanced_simps [simp]:
  "particle.index (advanced k p) = particle.index p"
  "radius (advanced k p) = radius p"
  "phi (advanced k p) = phi p"
  "speed (advanced k p) = speed p"
  "phaseOffset (advanced k p) = phaseOffset p"
  "theta (advanced k p) = theta p + real k * speed p"
  by (simp_all add: advanced_def)

lemma advanced_advanced [simp]: "advanced a (advanced b p) = advanced (a + b) p"
  by (simp add: advanced_def algebra_simps)

lemma length_particle_position [simp]: "length (particle_position time p) = 3"
  by (simp add: particle_position_def Let_def)

lemma length_concat_positions [simp]:
  "length (concat (map (\<lambda>p. particle_position time (f p)) ps)) = length ps * 3"
  by (induction ps) simp_all

lemma hero_tick_particles:
  assumes ps: "particleSystem this = Some ps"
      and len: "length (position_array ps) = length (hero.particles this) * 3"
      and idx: "\<forall>k<length (hero.particles this). particle.index (hero.particles this ! k) = k"
  shows "hero.particles (hero_tick time this) = map (advanced 1) (hero.particles this)
       \<and> (\<exists>ps'. particleSystem (hero_tick time this) = Some ps'
              \<and> position_array ps' =
                  concat (map (\<lambda>p. particle_position time (advanced 1 p)) (hero.particles this)))"
proof -
  have "animate_particles time (hero.particles this) ([] @ position_array ps @ [])
       = (map (advanced 1) (hero.particles this),
          [] @ concat (map (\<lambda>p. particle_position time (advanced 1 p)) (hero.particles this)) @ [])"
    by (rule animate_particles_eq) (use len idx in simp_all)
  then have "animate_particles time (hero.particles this) (position_array ps)
       = (map (advanced 1) (hero.particles this),
          concat (map (\<lambda>p. particle_position time (advanced 1 p)) (hero.particles this)))"
    by simp
  then show ?thesis
    by (simp add: hero_tick_def Let_def ps)
qed








lemma entanglement_loop:
  "fold (\<lambda>i (this, g).
           (this\<lparr>entanglementLines := entanglementLines this @ [L (allocated this) g],
                 scene_children := scene_children this + 1,
                 allocated := allocated this + 3\<rparr>, skip 55 g))
        [0..<n] (this, g)
   = (this\<lparr>entanglementLines := entanglementLines this @
               map (\<lambda>i. L (allocated this + 3 * i) (skip (55 * i) g)) [0..<n],
            scene_children := scene_children this + n,
            allocated := allocated this + 3 * n\<rparr>, skip (55 * n) g)"
  by (induction n) (simp_all add: add.commute)

lemma rings_loop:
  "fold (\<lambda>i this. this\<lparr>quantumOrbitals := quantumOrbitals this @ [R (allocated this) i],
                          scene_children := scene_children this + 1,
                          allocated := allocated this + 3\<rparr>) [0..<n] (this::hero)
   = this\<lparr>quantumOrbitals := quantumOrbitals this @ map (\<lambda>i. R (allocated this + 3 * i) i) [0..<n],
          scene_children := scene_children this + n,
          allocated := allocated this + 3 * n\<rparr>"
  by (induction n) (simp_all add: add.commute)

lemma createQuantumCore_ok:
  assumes "fields_of (getThemeColors (data_theme pg)) = Inr colors"
  shows "\<exists>this1. hero_createQuantumCore pg this = Inr this1
     \<and> hero.particles this1 = hero.particles this \<and> particleSystem this1 = particleSystem this"
  by (simp add: hero_createQuantumCore_def assms)

lemma createParticles_dark:
  assumes "fields_of (getThemeColors (data_theme pg)) = Inr colors"
      and "getCurrentTheme (data_theme pg) = ''dark''"
  shows "\<exists>this' ps. hero_createParticles pg g this = Inr (this', skip 3500 g)
     \<and> hero.particles this' = hero.particles this @ dark_particles g
     \<and> particleSystem this' = Some ps \<and> length (position_array ps) = 1500"
proof -
  have "\<exists>pos col siz.
      fold (dark_particle (Color (primary colors)) (Color (secondary colors))) [0..<500]
            (replicate 1500 0, replicate 1500 0, replicate 500 0, hero.particles this, g)
          = (pos, col, siz, hero.particles this @ dark_particles g, skip 3500 g)
      \<and> length pos = 1500"
    unfolding dark_particles_def
    using dark_loop[of "Color (primary colors)" "Color (secondary colors)" 500
        "replicate 1500 0" "replicate 1500 0" "replicate 500 0" "hero.particles this" g]
    by simp
  then obtain pos col siz where
    loop: "fold (dark_particle (Color (primary colors)) (Color (secondary colors))) [0..<500]
            (replicate 1500 0, replicate 1500 0, replicate 500 0, hero.particles this, g)
          = (pos, col, siz, hero.particles this @ dark_particles g, skip 3500 g)"
    and len: "length pos = 1500"
    by blast
  show ?thesis
    unfolding hero_createParticles_def particleCount_def Let_def assms sum.case
    using len by (simp add: loop)
qed

lemma dark_particles_facts:
  "length (dark_particles g) = 500"
  "k < 500 \<Longrightarrow> particle.index (dark_particles g ! k) = k"
  "k < 500 \<Longrightarrow> radius (dark_particles g ! k) = 8 + g (7 * k) * 20"
  by (simp_all add: dark_particles_def)

lemma createParticles_light:
  assumes "fields_of (getThemeColors (data_theme pg)) = Inr colors"
      and "getCurrentTheme (data_theme pg) = ''light''"
  shows "\<exists>this' ps qs. hero_createParticles pg g this = Inr (this', skip 3000 g)
     \<and> hero.particles this' = hero.particles this @ qs
     \<and> particleSystem this' = Some ps \<and> length (position_array ps) = 1500
     \<and> length qs = 500
     \<and> (\<forall>k<500. particle.index (qs ! k) = k \<and> radius (qs ! k) = 8 + g (6 * k) * 20)"
proof -
  let ?qs = "map (\<lambda>i. \<lparr>particle.index = i, radius = 8 + g (6 * i) * 20, theta = g (6 * i + 1) * pi * 2,
                         phi = arccos (2 * g (6 * i + 2) - 1),
                         speed = 0.001 + g (6 * i + 4) * 0.002,
                         phaseOffset = g (6 * i + 5) * pi * 2\<rparr>) [0..<500]"
  have "\<exists>pos col siz.
      fold (light_particle (Color (depth2 colors)) (Color (depth5 colors))) [0..<500]
            (replicate 1500 0, replicate 1500 0, replicate 500 0, hero.particles this, g)
          = (pos, col, siz, hero.particles this @ ?qs, skip 3000 g)
      \<and> length pos = 1500"
    using light_loop[of "Color (depth2 colors)" "Color (depth5 colors)" 500
        "replicate 1500 0" "replicate 1500 0" "replicate 500 0" "hero.particles this" g]
    by simp
  then obtain pos col siz where
    loop: "fold (light_particle (Color (depth2 colors)) (Color (depth5 colors))) [0..<500]
            (replicate 1500 0, replicate 1500 0, replicate 500 0, hero.particles this, g)
          = (pos, col, siz, hero.particles this @ ?qs, skip 3000 g)"
    and len: "length pos = 1500"
    by blast
  have "hero_createParticles pg g this = Inr (this\<lparr>
                  hero.particles := hero.particles this @ ?qs,
                  particleSystem := Some \<lparr>
                    position = (0, 0, 0), rotation = (0, 0, 0), scale = (1, 1, 1),
                    material = \<lparr>color = Some 0xffffff, opacity = particleOpacity colors,
                      transparent = True, wireframe = False, vertexColors = True,
                      additiveBlending = True, depthWrite = False, pointSize = Some 0.15\<rparr>,
                    uuid = allocated this + 2, material_uuid = allocated this + 1,
                    geometry_uuid = allocated this,
                    position_array = pos, color_array = col,
                    size_array = Some siz\<rparr>,
                  scene_children := scene_children this + 1,
                  allocated := allocated this + 3\<rparr>, skip 3000 g)"
    unfolding hero_createParticles_def particleCount_def Let_def assms sum.case
    by (simp add: loop)
  moreover have "length ?qs = 500" by simp
  moreover have "\<forall>k<500. particle.index (?qs ! k) = k \<and> radius (?qs ! k) = 8 + g (6 * k) * 20"
    by simp
  ultimately show ?thesis
    using len by (intro exI[of _ "?qs"] exI) auto
qed

lemma createParticles_supported:
  assumes "fields_of (getThemeColors (data_theme pg)) = Inr colors"
      and "getCurrentTheme (data_theme pg) = ''dark'' \<or> getCurrentTheme (data_theme pg) = ''light''"
  shows "\<exists>this' ps qs c. hero_createParticles pg g this = Inr (this', skip c g)
     \<and> hero.particles this' = hero.particles this @ qs
     \<and> particleSystem this' = Some ps \<and> length (position_array ps) = 1500
     \<and> length qs = 500
     \<and> (\<forall>k<500. particle.index (qs ! k) = k \<and> (\<exists>n. radius (qs ! k) = 8 + g n * 20))
     \<and> (getCurrentTheme (data_theme pg) = ''dark'' \<longrightarrow> qs = dark_particles g)"
  using assms(2)
proof
  assume dark: "getCurrentTheme (data_theme pg) = ''dark''"
  from createParticles_dark[OF assms(1) dark, of g this]
  obtain this' ps where "hero_createParticles pg g this = Inr (this', skip 3500 g)"
     "hero.particles this' = hero.particles this @ dark_particles g"
     "particleSystem this' = Some ps" "length (position_array ps) = 1500"
    by blast
  then show ?thesis
    using dark_particles_facts[where g = g] by (intro exI[of _ "dark_particles g"] exI) auto
next
  assume light: "getCurrentTheme (data_theme pg) = ''light''"
  from createParticles_light[OF assms(1) light, of g this]
  obtain this' ps qs where "hero_createParticles pg g this = Inr (this', skip 3000 g)"
     "hero.particles this' = hero.particles this @ qs"
     "particleSystem this' = Some ps" "length (position_array ps) = 1500"
     "length qs = 500"
     "\<forall>k<500. particle.index (qs ! k) = k \<and> radius (qs ! k) = 8 + g (6 * k) * 20"
    by blast
  then show ?thesis
    using light by (intro exI[of _ qs] exI) auto
qed

lemma createOrbitalRings_ok:
  assumes "fields_of (getThemeColors (data_theme pg)) = Inr colors"
  shows "\<exists>this1. hero_createOrbitalRings pg this = Inr this1
     \<and> hero.particles this1 = hero.particles this \<and> particleSystem this1 = particleSystem this"
  unfolding hero_createOrbitalRings_def assms sum.case
    rings_loop[where R = "\<lambda>n. orbital_ring n colors"]
  by simp

lemma createEntanglementLines_ok:
  assumes "fields_of (getThemeColors (data_theme pg)) = Inr colors"
  shows "\<exists>this1. hero_createEntanglementLines pg g this = Inr (this1, skip 1100 g)
     \<and> hero.particles this1 = hero.particles this \<and> particleSystem this1 = particleSystem this
     \<and> length (entanglementLines this1) = 20"
  unfolding hero_createEntanglementLines_def assms sum.case Let_def
    entanglement_loop[where L = "\<lambda>n. entangled_line n colors"]
  by simp

lemma hero_tick_lines:
  "length (entanglementLines (hero_tick time this)) = length (entanglementLines this)"
  by (simp add: hero_tick_def Let_def split: option.splits prod.splits)

lemma hero_init_built:
  assumes colors: "fields_of (getThemeColors (data_theme pg)) = Inr colors"
      and theme: "getCurrentTheme (data_theme pg) = ''dark'' \<or> getCurrentTheme (data_theme pg) = ''light''"
      and empty: "hero.particles this = []"
  shows "\<exists>pg' g' this' ps qs. hero_init pg g this = (pg', g', Inr this')
     \<and> particleSystem this' = Some ps
     \<and> hero.particles this' = map (advanced 1) qs
     \<and> position_array ps = concat (map (\<lambda>p. particle_position 0 (advanced 1 p)) qs)
     \<and> length qs = 500
     \<and> (\<forall>k<500. particle.index (qs ! k) = k \<and> (\<exists>n. radius (qs ! k) = 8 + g n * 20))
     \<and> (getCurrentTheme (data_theme pg) = ''dark'' \<longrightarrow> qs = dark_particles g)
     \<and> theme_observers pg' = theme_observers pg @ [Hero]
     \<and> data_theme pg' = data_theme pg
     \<and> length (entanglementLines this') = 20"
proof -
  obtain w h where wh: "container_size pg (container this) = (w, h)"
    by (cases "container_size pg (container this)")
  let ?pg = "appendChild (container this) pg"
  have colors': "fields_of (getThemeColors (data_theme ?pg)) = Inr colors"
    using colors by simp
  have theme': "getCurrentTheme (data_theme ?pg) = ''dark'' \<or> getCurrentTheme (data_theme ?pg) = ''light''"
    using theme by simp
  let ?start = "this\<lparr>renderer := (setSize w h (renderer this))\<lparr>pixelRatio := min (devicePixelRatio pg) 2\<rparr>,
      camera := (camera this)\<lparr>position := set_z 30 (position (camera this))\<rparr>\<rparr>"
  obtain this1 where core: "hero_createQuantumCore ?pg ?start = Inr this1"
    and p1: "hero.particles this1 = []" and s1: "particleSystem this1 = particleSystem ?start"
    using createQuantumCore_ok[OF colors', of ?start] empty by auto
  obtain this2 ps2 qs c where parts: "hero_createParticles ?pg g this1 = Inr (this2, skip c g)"
    and p2: "hero.particles this2 = qs"
    and s2: "particleSystem this2 = Some ps2" and l2: "length (position_array ps2) = 1500"
    and lq: "length qs = 500"
    and iq: "\<forall>k<500. particle.index (qs ! k) = k \<and> (\<exists>n. radius (qs ! k) = 8 + g n * 20)"
    and dq: "getCurrentTheme (data_theme pg) = ''dark'' \<longrightarrow> qs = dark_particles g"
    using createParticles_supported[OF colors' theme', of g this1] p1 by auto
  obtain this3 where rings: "hero_createOrbitalRings ?pg this2 = Inr this3"
    and p3: "hero.particles this3 = qs" and s3: "particleSystem this3 = Some ps2"
    using createOrbitalRings_ok[OF colors', of this2] p2 s2 by auto
  obtain this4 where lines: "hero_createEntanglementLines ?pg (skip c g) this3 = Inr (this4, skip 1100 (skip c g))"
    and p4: "hero.particles this4 = qs" and s4: "particleSystem this4 = Some ps2"
    and e4: "length (entanglementLines this4) = 20"
    using createEntanglementLines_ok[OF colors', of "skip c g" this3] p3 s3 by auto
  have len4: "length (position_array ps2) = length (hero.particles this4) * 3"
    by (simp add: p4 l2 lq)
  have idx4: "\<forall>k<length (hero.particles this4). particle.index (hero.particles this4 ! k) = k"
    using iq by (simp add: p4 lq)
  have tick: "hero.particles (hero_tick 0 this4) = map (advanced 1) qs
       \<and> (\<exists>ps'. particleSystem (hero_tick 0 this4) = Some ps'
              \<and> position_array ps' =
                  concat (map (\<lambda>p. particle_position 0 (advanced 1 p)) qs))"
    using hero_tick_particles[OF s4 len4 idx4, of 0] by (simp add: p4)
  then obtain ps' where t1: "hero.particles (hero_tick 0 this4) = map (advanced 1) qs"
    and t2: "particleSystem (hero_tick 0 this4) = Some ps'"
    and t3: "position_array ps' = concat (map (\<lambda>p. particle_position 0 (advanced 1 p)) qs)"
    by blast
  obtain pg' where res: "hero_init pg g this =
      (pg', skip (1100 + c) g, Inr ((hero_tick 0 this4)\<lparr>renderer := render (renderer (hero_tick 0 this4))\<rparr>))"
    and o: "theme_observers pg' = theme_observers pg @ [Hero]" and d: "data_theme pg' = data_theme pg"
    by (simp add: hero_init_def wh Let_def core parts rings lines hero_animate_def
        setupThemeObserver_def)
  show ?thesis
    using res o d t1 t2 t3 lq iq dq e4
    by (intro exI[of _ qs] exI[of _ ps'] exI) (auto simp: hero_tick_lines)
qed

lemma QuantumHeroScene_built:
  assumes el: "elements pg containerId = Some el"
      and theme: "getCurrentTheme (data_theme pg) = ''dark'' \<or> getCurrentTheme (data_theme pg) = ''light''"
  shows "\<exists>pg' g' this ps qs. QuantumHeroScene containerId pg g = (pg', g', Inr (Built this))
     \<and> particleSystem this = Some ps
     \<and> hero.particles this = map (advanced 1) qs
     \<and> position_array ps = concat (map (\<lambda>p. particle_position 0 (advanced 1 p)) qs)
     \<and> length qs = 500
     \<and> (\<forall>k<500. particle.index (qs ! k) = k \<and> (\<exists>n. radius (qs ! k) = 8 + g n * 20))
     \<and> (getCurrentTheme (data_theme pg) = ''dark'' \<longrightarrow> qs = dark_particles g)
     \<and> theme_observers pg' = theme_observers pg @ [Hero]
     \<and> data_theme pg' = data_theme pg
     \<and> length (entanglementLines this) = 20"
proof -
  obtain colors where colors: "fields_of (getThemeColors (data_theme pg)) = Inr colors"
    using supported_theme_fields[OF theme] by blast
  let ?new = "\<lparr>container = containerId,
                   camera = PerspectiveCamera 75 (js_div (offsetWidth el) (offsetHeight el)) 0.1 1000,
                   renderer = WebGLRenderer, scene_children = 0, allocated = 0,
                   hero.core = None, innerCore = None, glowSphere = None, particleSystem = None,
                   hero.particles = [], quantumOrbitals = [], entanglementLines = [], mouse = (0, 0)\<rparr>"
  from hero_init_built[OF colors theme, of ?new g]
  obtain pg' g' this' ps qs where "hero_init pg g ?new = (pg', g', Inr this')"
     "particleSystem this' = Some ps"
     "hero.particles this' = map (advanced 1) qs"
     "position_array ps = concat (map (\<lambda>p. particle_position 0 (advanced 1 p)) qs)"
     "length qs = 500"
     "\<forall>k<500. particle.index (qs ! k) = k \<and> (\<exists>n. radius (qs ! k) = 8 + g n * 20)"
     "getCurrentTheme (data_theme pg) = ''dark'' \<longrightarrow> qs = dark_particles g"
     "theme_observers pg' = theme_observers pg @ [Hero]"
     "data_theme pg' = data_theme pg"
     "length (entanglementLines this') = 20"
    by auto
  then show ?thesis
    by (intro exI[of _ qs] exI[of _ ps] exI[of _ this'] exI[of _ pg'] exI[of _ g'])
       (simp add: QuantumHeroScene_def el)
qed








section \<open>Toggling the theme\<close>

lemma supported_toggle_click: "supported (toggle_click pg)"
  by (simp add: supported_def toggle_click_def getCurrentTheme_def Let_def)

lemma observers_toggle_click: "theme_observers (toggle_click pg) = theme_observers pg"
  by (simp add: toggle_click_def Let_def)

lemma toggle_theme_eq:
  "toggle_theme upd (pg, g, x) =
     (case upd (toggle_click pg) g x of Inl e \<Rightarrow> Inl e | Inr (y, g') \<Rightarrow> Inr (toggle_click pg, g', y))"
  by (simp add: toggle_theme_def Let_def split: sum.splits)

lemma toggles_snoc:
  "toggles upd (Suc n) st =
     (case toggles upd n st of Inl e \<Rightarrow> Inl e | Inr st' \<Rightarrow> toggle_theme upd st')"
proof (induction n arbitrary: st)
  case 0
  show ?case by (simp split: sum.splits)
next
  case (Suc n)
  show ?case
  proof (cases "toggle_theme upd st")
    case (Inl e)
    then show ?thesis by simp
  next
    case (Inr st1)
    have "toggles upd (Suc (Suc n)) st = toggles upd (Suc n) st1"
      using Inr by simp
    also have "\<dots> = (case toggles upd n st1 of Inl e \<Rightarrow> Inl e | Inr st' \<Rightarrow> toggle_theme upd st')"
      by (rule Suc)
    also have "toggles upd n st1 = toggles upd (Suc n) st"
      using Inr by simp
    finally show ?thesis .
  qed
qed

lemma toggles_invariant:
  assumes ow: "\<And>pg1 g1 x y g1' pg2 g2. supported pg1 \<Longrightarrow> supported pg2 \<Longrightarrow>
             upd pg1 g1 x = Inr (y, g1') \<Longrightarrow>
             map_sum id (apfst N) (upd pg2 g2 y) = map_sum id (apfst N) (upd pg2 g2 x)"
      and total: "\<And>pg g x. supported pg \<Longrightarrow> \<exists>y g'. upd pg g x = Inr (y, g')"
  shows "\<exists>pg0 g0 x0. toggles upd n (pg, g, x) = Inr (pg0, g0, x0)
           \<and> theme_observers pg0 = theme_observers pg
           \<and> (\<forall>pg2 g2. supported pg2 \<longrightarrow>
                 map_sum id (apfst N) (upd pg2 g2 x0) = map_sum id (apfst N) (upd pg2 g2 x))"
proof (induction n)
  case 0
  show ?case by simp
next
  case (Suc n)
  then obtain pg0 g0 x0 where n: "toggles upd n (pg, g, x) = Inr (pg0, g0, x0)"
    and obs: "theme_observers pg0 = theme_observers pg"
    and inv: "\<And>pg2 g2. supported pg2 \<Longrightarrow>
                 map_sum id (apfst N) (upd pg2 g2 x0) = map_sum id (apfst N) (upd pg2 g2 x)"
    by blast
  obtain y g' where y: "upd (toggle_click pg0) g0 x0 = Inr (y, g')"
    using total[OF supported_toggle_click] by blast
  have t: "toggles upd (Suc n) (pg, g, x) = Inr (toggle_click pg0, g', y)"
    by (simp only: toggles_snoc n sum.case toggle_theme_eq y prod.case)
  have i: "\<forall>pg2 g2. supported pg2 \<longrightarrow>
       map_sum id (apfst N) (upd pg2 g2 y) = map_sum id (apfst N) (upd pg2 g2 x)"
  proof (intro allI impI)
    fix pg2 g2
    assume s: "supported pg2"
    have "map_sum id (apfst N) (upd pg2 g2 y) = map_sum id (apfst N) (upd pg2 g2 x0)"
      by (rule ow[OF supported_toggle_click s y])
    also have "\<dots> = map_sum id (apfst N) (upd pg2 g2 x)"
      by (rule inv[OF s])
    finally show "map_sum id (apfst N) (upd pg2 g2 y) = map_sum id (apfst N) (upd pg2 g2 x)" .
  qed
  have o: "theme_observers (toggle_click pg0) = theme_observers pg"
    using obs by (simp add: observers_toggle_click)
  from t i o show ?case by blast
qed

lemma toggles_converge_generic:
  assumes ow: "\<And>pg1 g1 x y g1' pg2 g2. supported pg1 \<Longrightarrow> supported pg2 \<Longrightarrow>
             upd pg1 g1 x = Inr (y, g1') \<Longrightarrow>
             map_sum id (apfst N) (upd pg2 g2 y) = map_sum id (apfst N) (upd pg2 g2 x)"
      and total: "\<And>pg g x. supported pg \<Longrightarrow> \<exists>y g'. upd pg g x = Inr (y, g')"
  shows "\<exists>pg0 g0 x0 pg' g' x' x''.
           toggles upd n (pg, g, x) = Inr (pg0, g0, x0)
         \<and> toggles upd (Suc n) (pg, g, x) = Inr (pg', g', x')
         \<and> toggle_theme upd (pg0, g0, x) = Inr (pg', g', x'')
         \<and> N x'' = N x'
         \<and> theme_observers pg' = theme_observers pg"
proof -
  have "\<exists>pg0 g0 x0. toggles upd n (pg, g, x) = Inr (pg0, g0, x0)
           \<and> theme_observers pg0 = theme_observers pg
           \<and> (\<forall>pg2 g2. supported pg2 \<longrightarrow>
                 map_sum id (apfst N) (upd pg2 g2 x0) = map_sum id (apfst N) (upd pg2 g2 x))"
    by (rule toggles_invariant) (use ow total in blast)+
  then obtain pg0 g0 x0 where n: "toggles upd n (pg, g, x) = Inr (pg0, g0, x0)"
    and obs: "theme_observers pg0 = theme_observers pg"
    and inv: "\<And>pg2 g2. supported pg2 \<Longrightarrow>
                 map_sum id (apfst N) (upd pg2 g2 x0) = map_sum id (apfst N) (upd pg2 g2 x)"
    by blast
  obtain y g' where y: "upd (toggle_click pg0) g0 x0 = Inr (y, g')"
    using total[OF supported_toggle_click] by blast
  obtain y' g'' where y': "upd (toggle_click pg0) g0 x = Inr (y', g'')"
    using total[OF supported_toggle_click] by blast
  have e: "N y' = N y \<and> g'' = g'"
    using inv[OF supported_toggle_click, of pg0 g0] y y' by simp
  have t: "toggles upd (Suc n) (pg, g, x) = Inr (toggle_click pg0, g', y)"
    by (simp only: toggles_snoc n sum.case toggle_theme_eq y prod.case)
  have t1: "toggle_theme upd (pg0, g0, x) = Inr (toggle_click pg0, g', y')"
    using e by (simp only: toggle_theme_eq y' sum.case prod.case)
  have o: "theme_observers (toggle_click pg0) = theme_observers pg"
    using obs by (simp add: observers_toggle_click)
  from n t t1 e o show ?thesis by blast
qed

lemma toggling_converges_generic:
  assumes ow: "\<And>pg1 g1 x y g1' pg2 g2. supported pg1 \<Longrightarrow> supported pg2 \<Longrightarrow>
             upd pg1 g1 x = Inr (y, g1') \<Longrightarrow>
             map_sum id (apfst N) (upd pg2 g2 y) = map_sum id (apfst N) (upd pg2 g2 x)"
      and total: "\<And>pg g x. supported pg \<Longrightarrow> \<exists>y g'. upd pg g x = Inr (y, g')"
  shows "toggling_converges upd N n (pg, g, x)"
proof -
  have "\<exists>pg0 g0 x0 pg' g' x' x''.
           toggles upd n (pg, g, x) = Inr (pg0, g0, x0)
         \<and> toggles upd (Suc n) (pg, g, x) = Inr (pg', g', x')
         \<and> toggle_theme upd (pg0, g0, x) = Inr (pg', g', x'')
         \<and> N x'' = N x'
         \<and> theme_observers pg' = theme_observers pg"
    by (rule toggles_converge_generic) (use ow total in blast)+
  then obtain pg0 g0 x0 pg' g' x' x'' where
      "toggles upd n (pg, g, x) = Inr (pg0, g0, x0)"
      "toggles upd (Suc n) (pg, g, x) = Inr (pg', g', x')"
      "toggle_theme upd (pg0, g0, x) = Inr (pg', g', x'')"
      "N x'' = N x'" "theme_observers pg' = theme_observers pg"
    by blast
  then show ?thesis
    unfolding toggling_converges_def by (simp del: toggles.simps)
qed

lemma paint_overwrite [simp]:
  "set_opacity o2 (setHex c2 (set_opacity o1 (setHex c1 ob))) = set_opacity o2 (setHex c2 ob)"
  "set_opacity o2 (set_opacity o1 ob) = set_opacity o2 ob"
  by (simp_all add: set_opacity_def setHex_def)

lemma hero_LL: "hero_updateColors_light c2 (hero_updateColors_light c1 x) = hero_updateColors_light c2 x"
  unfolding hero_updateColors_light_def
  by (simp add: option.map_comp comp_def enumerate_map_enumerate Let_def)

lemma hero_LD: "hero_updateColors_light c2 (fst (hero_updateColors_dark c1 g x)) = hero_updateColors_light c2 x"
  unfolding hero_updateColors_light_def hero_updateColors_dark_def
  by (simp add: option.map_comp comp_def enumerate_map_enumerate Let_def)

lemma hero_DL: "hero_updateColors_dark c2 g2 (hero_updateColors_light c1 x) = hero_updateColors_dark c2 g2 x"
  unfolding hero_updateColors_light_def hero_updateColors_dark_def
  by (simp add: option.map_comp comp_def enumerate_map_enumerate Let_def)

lemma hero_DD: "hero_updateColors_dark c2 g2 (fst (hero_updateColors_dark c1 g x)) = hero_updateColors_dark c2 g2 x"
  unfolding hero_updateColors_dark_def
  by (simp add: option.map_comp comp_def enumerate_map_enumerate Let_def)

lemma processor_LL: "processor_updateColors_light c2 (processor_updateColors_light c1 x) = processor_updateColors_light c2 x"
  unfolding processor_updateColors_light_def
  by (simp add: option.map_comp comp_def enumerate_map_enumerate Let_def)

lemma processor_LD: "processor_updateColors_light c2 (fst (processor_updateColors_dark c1 g x)) = processor_updateColors_light c2 x"
  unfolding processor_updateColors_light_def processor_updateColors_dark_def
  by (simp add: option.map_comp comp_def enumerate_map_enumerate Let_def)

lemma processor_DL: "processor_updateColors_dark c2 g2 (processor_updateColors_light c1 x) = processor_updateColors_dark c2 g2 x"
  unfolding processor_updateColors_light_def processor_updateColors_dark_def
  by (simp add: option.map_comp comp_def enumerate_map_enumerate Let_def)

lemma processor_DD: "processor_updateColors_dark c2 g2 (fst (processor_updateColors_dark c1 g x)) = processor_updateColors_dark c2 g2 x"
  unfolding processor_updateColors_dark_def
  by (simp add: option.map_comp comp_def enumerate_map_enumerate Let_def)

lemma layer_paint [simp]: "layer (node\<lparr>mesh := m\<rparr>) = layer node"
  by simp

lemma neural_LL: "neural_updateColors_light c2 (neural_updateColors_light c1 x) = neural_updateColors_light c2 x"
  unfolding neural_updateColors_light_def
  by (simp add: comp_def Let_def)

lemma neural_LD: "neural_updateColors_light c2 (neural_updateColors_dark c1 x) = neural_updateColors_light c2 x"
  unfolding neural_updateColors_light_def neural_updateColors_dark_def
  by (simp add: comp_def Let_def)

lemma neural_DL: "neural_updateColors_dark c2 (neural_updateColors_light c1 x) = neural_updateColors_dark c2 x"
  unfolding neural_updateColors_light_def neural_updateColors_dark_def
  by (simp add: comp_def Let_def)

lemma neural_DD: "neural_updateColors_dark c2 (neural_updateColors_dark c1 x) = neural_updateColors_dark c2 x"
  unfolding neural_updateColors_dark_def
  by (simp add: comp_def Let_def)

lemma hero_total:
  "supported pg \<Longrightarrow> \<exists>y g'. hero_updateColors pg g x = Inr (y, g')"
  unfolding supported_def
  by (erule supported_theme_cases) (simp_all add: hero_updateColors_def prod_eq_iff)

lemma hero_overwrite:
  assumes "supported pg1" "supported pg2" "hero_updateColors pg1 g1 x = Inr (y, g1')"
  shows "map_sum id (apfst (\<lambda>s. s)) (hero_updateColors pg2 g2 y)
       = map_sum id (apfst (\<lambda>s. s)) (hero_updateColors pg2 g2 x)"
proof -
  have y: "y = hero_updateColors_light ThemeColors_light x \<or> y = fst (hero_updateColors_dark ThemeColors_dark g1 x)"
    using assms(1,3) unfolding supported_def
    by (elim supported_theme_cases) (auto simp: hero_updateColors_def)
  have "hero_updateColors pg2 g2 y = hero_updateColors pg2 g2 x"
    using assms(2) y unfolding supported_def
    by (elim supported_theme_cases)
       (auto simp: hero_updateColors_def hero_LL hero_LD hero_DL hero_DD)
  then show ?thesis by simp
qed

lemma processor_total:
  "supported pg \<Longrightarrow> \<exists>y g'. processor_updateColors pg g x = Inr (y, g')"
  unfolding supported_def
  by (erule supported_theme_cases) (simp_all add: processor_updateColors_def prod_eq_iff)

lemma processor_overwrite:
  assumes "supported pg1" "supported pg2" "processor_updateColors pg1 g1 x = Inr (y, g1')"
  shows "map_sum id (apfst (\<lambda>s. s)) (processor_updateColors pg2 g2 y)
       = map_sum id (apfst (\<lambda>s. s)) (processor_updateColors pg2 g2 x)"
proof -
  have y: "y = processor_updateColors_light ThemeColors_light x
         \<or> y = fst (processor_updateColors_dark ThemeColors_dark g1 x)"
    using assms(1,3) unfolding supported_def
    by (elim supported_theme_cases) (auto simp: processor_updateColors_def)
  have "processor_updateColors pg2 g2 y = processor_updateColors pg2 g2 x"
    using assms(2) y unfolding supported_def
    by (elim supported_theme_cases)
       (auto simp: processor_updateColors_def processor_LL processor_LD processor_DL processor_DD)
  then show ?thesis by simp
qed

lemma neural_total:
  "supported pg \<Longrightarrow> \<exists>y g'. neural_updateColors pg g x = Inr (y, g')"
  unfolding supported_def
  by (erule supported_theme_cases) (simp_all add: neural_updateColors_def)

lemma neural_overwrite:
  assumes "supported pg1" "supported pg2" "neural_updateColors pg1 g1 x = Inr (y, g1')"
  shows "map_sum id (apfst (\<lambda>s. s)) (neural_updateColors pg2 g2 y)
       = map_sum id (apfst (\<lambda>s. s)) (neural_updateColors pg2 g2 x)"
proof -
  have y: "y = neural_updateColors_light ThemeColors_light x
         \<or> y = neural_updateColors_dark ThemeColors_dark x"
    using assms(1,3) unfolding supported_def
    by (elim supported_theme_cases) (auto simp: neural_updateColors_def)
  have "neural_updateColors pg2 g2 y = neural_updateColors pg2 g2 x"
    using assms(2) y unfolding supported_def
    by (elim supported_theme_cases)
       (auto simp: neural_updateColors_def neural_LL neural_LD neural_DL neural_DD)
  then show ?thesis by simp
qed

lemma floating_total:
  "supported pg \<Longrightarrow> \<exists>y g'. floating_updateColors pg g x = Inr (y, g')"
  unfolding supported_def
  by (erule supported_theme_cases) (simp_all add: floating_updateColors_def)

lemma floating_overwrite:
  assumes "supported pg1" "supported pg2" "floating_updateColors pg1 g1 x = Inr (y, g1')"
  shows "map_sum id (apfst (\<lambda>s. s)) (floating_updateColors pg2 g2 y)
       = map_sum id (apfst (\<lambda>s. s)) (floating_updateColors pg2 g2 x)"
proof -
  have "floating_updateColors pg2 g2 y = floating_updateColors pg2 g2 x"
    using assms unfolding supported_def
    by (elim supported_theme_cases)
       (auto simp: floating_updateColors_def option.map_comp comp_def)
  then show ?thesis by simp
qed

lemma feature_total:
  "supported pg \<Longrightarrow> \<exists>y g'. feature_updateColors pg g x = Inr (y, g')"
  unfolding supported_def
  by (erule supported_theme_cases) (simp_all add: feature_updateColors_def)

lemma orbit_LL: "light_orbit c2 i (light_orbit c1 i ob) = light_orbit c2 i ob"
  by (cases "children ob") (simp_all add: light_orbit_def Let_def setHex_def set_opacity_def)

lemma orbit_LD: "light_orbit c2 i (dark_orbit c1 i ob) = light_orbit c2 i ob"
  by (cases "children ob") (simp_all add: light_orbit_def dark_orbit_def Let_def setHex_def set_opacity_def)

lemma orbit_DL: "orbit_electron_opacity_erased (dark_orbit c2 i (light_orbit c1 i ob))
    = orbit_electron_opacity_erased (dark_orbit c2 i ob)"
  by (cases "children ob")
     (simp_all add: light_orbit_def dark_orbit_def Let_def setHex_def set_opacity_def
        orbit_electron_opacity_erased_def)

lemma orbit_DD: "dark_orbit c2 i (dark_orbit c1 i ob) = dark_orbit c2 i ob"
  by (cases "children ob") (simp_all add: dark_orbit_def Let_def setHex_def set_opacity_def)

lemma feature_LL: "feature_updateColors_light c2 (feature_updateColors_light c1 x) = feature_updateColors_light c2 x"
  unfolding feature_updateColors_light_def
  by (simp add: option.map_comp comp_def enumerate_map_enumerate orbit_LL)

lemma feature_LD: "feature_updateColors_light c2 (feature_updateColors_dark c1 x) = feature_updateColors_light c2 x"
  unfolding feature_updateColors_light_def feature_updateColors_dark_def
  by (simp add: option.map_comp comp_def enumerate_map_enumerate orbit_LD)

lemma feature_DD: "feature_updateColors_dark c2 (feature_updateColors_dark c1 x) = feature_updateColors_dark c2 x"
  unfolding feature_updateColors_dark_def
  by (simp add: option.map_comp comp_def enumerate_map_enumerate orbit_DD)

lemma feature_DL: "electron_opacity_erased (feature_updateColors_dark c2 (feature_updateColors_light c1 x))
   = electron_opacity_erased (feature_updateColors_dark c2 x)"
  unfolding feature_updateColors_light_def feature_updateColors_dark_def electron_opacity_erased_def
  apply (simp add: option.map_comp enumerate_map_enumerate del: map_map)
  apply (simp add: comp_def split_def orbit_DL)
  done

lemma feature_overwrite:
  assumes "supported pg1" "supported pg2" "feature_updateColors pg1 g1 x = Inr (y, g1')"
  shows "map_sum id (apfst electron_opacity_erased) (feature_updateColors pg2 g2 y)
       = map_sum id (apfst electron_opacity_erased) (feature_updateColors pg2 g2 x)"
proof -
  have y: "y = feature_updateColors_light ThemeColors_light x
         \<or> y = feature_updateColors_dark ThemeColors_dark x"
    using assms(1,3) unfolding supported_def
    by (elim supported_theme_cases) (auto simp: feature_updateColors_def)
  show ?thesis
    using assms(2) y unfolding supported_def
    by (elim supported_theme_cases)
       (auto simp: feature_updateColors_def feature_LL feature_LD feature_DL feature_DD)
qed

lemma hero_converges: "toggling_converges hero_updateColors (\<lambda>s. s) n (pg, g, x)"
  by (rule toggling_converges_generic) (use hero_overwrite hero_total in blast)+

lemma processor_converges: "toggling_converges processor_updateColors (\<lambda>s. s) n (pg, g, x)"
  by (rule toggling_converges_generic) (use processor_overwrite processor_total in blast)+

lemma neural_converges: "toggling_converges neural_updateColors (\<lambda>s. s) n (pg, g, x)"
  by (rule toggling_converges_generic) (use neural_overwrite neural_total in blast)+

lemma floating_converges: "toggling_converges floating_updateColors (\<lambda>s. s) n (pg, g, x)"
  by (rule toggling_converges_generic) (use floating_overwrite floating_total in blast)+

lemma feature_converges:
  "toggling_converges feature_updateColors electron_opacity_erased n (pg, g, x)"
  by (rule toggling_converges_generic) (use feature_overwrite feature_total in blast)+

lemma createNeuralNetwork_ok:
  assumes colors: "fields_of (getThemeColors (data_theme pg)) = Inr colors"
  shows "\<exists>this' g'. neural_createNeuralNetwork pg g this = Inr (this', g')"
proof -
  have "\<exists>r. neural_createNeuralNetwork pg g this = Inr r"
    unfolding neural_createNeuralNetwork_def colors sum.case Let_def
    by (rule exI) (rule refl)
  then show ?thesis by (metis surj_pair)
qed

lemma NeuralNetworkScene_built:
  assumes el: "elements pg containerId = Some el"
      and colors: "fields_of (getThemeColors (data_theme pg)) = Inr colors"
  shows "\<exists>pg' g' this. NeuralNetworkScene containerId pg g = (pg', g', Inr (Built this))
     \<and> theme_observers pg' = theme_observers pg @ [Neural]"
proof -
  let ?new = "\<lparr>container = containerId,
                   camera = PerspectiveCamera 60 (js_div (offsetWidth el) (offsetHeight el)) 0.1 1000,
                   renderer = WebGLRenderer, scene_children = 0, allocated = 0,
                   nodes = [], connections = [], scene_rotation = (0, 0, 0)\<rparr>"
  obtain w h where wh: "container_size pg (container ?new) = (w, h)"
    by (cases "container_size pg (container ?new)")
  let ?pg = "appendChild (container ?new) pg"
  have colors': "fields_of (getThemeColors (data_theme ?pg)) = Inr colors"
    using colors by simp
  let ?start = "?new\<lparr>renderer := (setSize w h (renderer ?new))\<lparr>pixelRatio := min (devicePixelRatio pg) 2\<rparr>,
      camera := (camera ?new)\<lparr>position := set_z 40 (position (camera ?new))\<rparr>\<rparr>"
  obtain this1 g1 where net: "neural_createNeuralNetwork ?pg g ?start = Inr (this1, g1)"
    using createNeuralNetwork_ok[OF colors'] by blast
  have "neural_init pg g ?new =
      (fst (neural_animate 0 (setupThemeObserver Neural (?pg\<lparr>resize_listeners := resize_listeners ?pg @ [Neural]\<rparr>), this1)),
       g1, Inr (snd (neural_animate 0 (setupThemeObserver Neural (?pg\<lparr>resize_listeners := resize_listeners ?pg @ [Neural]\<rparr>), this1))))"
    unfolding neural_init_def wh prod.case Let_def
    using net by (simp add: split_def)
  then show ?thesis
    by (simp add: NeuralNetworkScene_def el neural_animate_def setupThemeObserver_def Let_def)
qed

lemma floating_createParticles_ok:
  assumes colors: "fields_of (getThemeColors (data_theme pg)) = Inr colors"
  shows "\<exists>this' g'. floating_createParticles pg g this = Inr (this', g')"
proof -
  have "\<exists>r. floating_createParticles pg g this = Inr r"
    unfolding floating_createParticles_def colors sum.case Let_def split_def
    by (rule exI) (rule refl)
  then show ?thesis by (metis surj_pair)
qed

lemma FloatingParticlesScene_built:
  assumes el: "elements pg containerId = Some el"
      and colors: "fields_of (getThemeColors (data_theme pg)) = Inr colors"
  shows "\<exists>pg' g' this. FloatingParticlesScene containerId pg g = (pg', g', Inr (Built this))
     \<and> theme_observers pg' = theme_observers pg @ [Floating]"
proof -
  let ?new = "\<lparr>container = containerId,
                   camera = PerspectiveCamera 75 (js_div (offsetWidth el) (offsetHeight el)) 0.1 1000,
                   renderer = WebGLRenderer, scene_children = 0, allocated = 0,
                   particles = None\<rparr>"
  obtain w h where wh: "container_size pg (container ?new) = (w, h)"
    by (cases "container_size pg (container ?new)")
  let ?pg = "appendChild (container ?new) pg"
  have colors': "fields_of (getThemeColors (data_theme ?pg)) = Inr colors"
    using colors by simp
  let ?start = "?new\<lparr>renderer := (setSize w h (renderer ?new))\<lparr>pixelRatio := min (devicePixelRatio pg) 2\<rparr>,
      camera := (camera ?new)\<lparr>position := set_z 30 (position (camera ?new))\<rparr>\<rparr>"
  obtain this1 g1 where made: "floating_createParticles ?pg g ?start = Inr (this1, g1)"
    using floating_createParticles_ok[OF colors'] by blast
  have "floating_init pg g ?new =
      (fst (floating_animate 0 (setupThemeObserver Floating (?pg\<lparr>resize_listeners := resize_listeners ?pg @ [Floating]\<rparr>), this1)),
       g1, Inr (snd (floating_animate 0 (setupThemeObserver Floating (?pg\<lparr>resize_listeners := resize_listeners ?pg @ [Floating]\<rparr>), this1))))"
    unfolding floating_init_def wh prod.case Let_def
    using made by (simp add: split_def)
  then show ?thesis
    by (simp add: FloatingParticlesScene_def el floating_animate_def setupThemeObserver_def Let_def)
qed

lemma FeatureQuantumScene_built:
  assumes el: "elements pg containerId = Some el"
      and colors: "fields_of (getThemeColors (data_theme pg)) = Inr colors"
  shows "\<exists>pg' g' this. FeatureQuantumScene containerId pg g = (pg', g', Inr (Built this))
     \<and> theme_observers pg' = theme_observers pg @ [Feature]"
proof -
  let ?new = "\<lparr>container = containerId,
                   camera = PerspectiveCamera 60 (js_div (offsetWidth el) (offsetHeight el)) 0.1 1000,
                   renderer = WebGLRenderer, scene_children = 0, allocated = 0,
                   core = None, orbits = []\<rparr>"
  obtain w h where wh: "container_size pg (container ?new) = (w, h)"
    by (cases "container_size pg (container ?new)")
  let ?pg = "appendChild (container ?new) pg"
  have colors': "fields_of (getThemeColors (data_theme ?pg)) = Inr colors"
    using colors by simp
  let ?start = "?new\<lparr>renderer := (setSize w h (renderer ?new))\<lparr>pixelRatio := min (devicePixelRatio pg) 2\<rparr>,
      camera := (camera ?new)\<lparr>position := set_z 10 (position (camera ?new))\<rparr>\<rparr>"
  have "\<exists>this1. feature_createScene ?pg ?start = Inr this1"
    unfolding feature_createScene_def colors' sum.case Let_def
    by (rule exI) (rule refl)
  then obtain this1 where made: "feature_createScene ?pg ?start = Inr this1"
    by blast
  have "feature_init pg g ?new =
      (fst (feature_animate 0 (setupThemeObserver Feature (?pg\<lparr>resize_listeners := resize_listeners ?pg @ [Feature]\<rparr>), this1)),
       g, Inr (snd (feature_animate 0 (setupThemeObserver Feature (?pg\<lparr>resize_listeners := resize_listeners ?pg @ [Feature]\<rparr>), this1))))"
    unfolding feature_init_def wh prod.case Let_def
    using made by (simp add: split_def)
  then show ?thesis
    by (simp add: FeatureQuantumScene_def el feature_animate_def setupThemeObserver_def Let_def)
qed

lemma dark_qubit_color:
  assumes "i < length (qubits x)"
  shows "color (material (mesh (qubits (fst (processor_updateColors_dark c g x)) ! i)))
       = (if g i > 0.5 then primary c else secondary c)"
  using assms
  by (simp add: processor_updateColors_dark_def nth_enumerate_eq Let_def setHex_def set_opacity_def)

lemma length_qubits_recoloured [simp]:
  "length (qubits (processor_updateColors_light c x)) = length (qubits x)"
  "length (qubits (fst (processor_updateColors_dark c g x))) = length (qubits x)"
  by (simp_all add: processor_updateColors_light_def processor_updateColors_dark_def)

lemma snd_processor_dark [simp]:
  "snd (processor_updateColors_dark c g x) = skip (length (qubits x)) g"
  by (simp add: processor_updateColors_dark_def)

lemma processor_updateColors_dark_page:
  assumes "data_theme pg = Some ''dark''"
  shows "processor_updateColors pg g x = Inr (processor_updateColors_dark ThemeColors_dark g x)"
  using assms
  by (simp add: processor_updateColors_def getCurrentTheme_def getThemeColors_def ThemeColors_def)

lemma processor_updateColors_light_page:
  assumes "data_theme pg = Some ''light''"
  shows "processor_updateColors pg g x = Inr (processor_updateColors_light ThemeColors_light x, g)"
  using assms
  by (simp add: processor_updateColors_def getCurrentTheme_def getThemeColors_def ThemeColors_def)

lemma toggle_click_theme:
  "data_theme pg = Some ''dark'' \<Longrightarrow> data_theme (toggle_click pg) = Some ''light''"
  "data_theme pg = Some ''light'' \<Longrightarrow> data_theme (toggle_click pg) = Some ''dark''"
  by (simp_all add: toggle_click_def Let_def)

text \<open>
  C5 as stated fails. Build the processor scene under the light theme, with random
  samples that are 9/10 for the first hundred and 1/10 afterwards. One toggle and three
  toggles both end in the dark theme, but the first qubit is left with the primary colour
  by the one and with the secondary colour by the three: each recolouring for the dark
  theme gives every qubit a colour picked with a fresh random sample.
\<close>

theorem toggles_counterexample:
  "(case QuantumProcessorScene ''tech-canvas'' light_page (\<lambda>n. if n < 100 then 9 / 10 else 1 / 10) of
      (pg, g, Inr (Built this)) \<Rightarrow>
        (case (toggles processor_updateColors 1 (pg, g, this),
               toggles processor_updateColors 3 (pg, g, this)) of
           (Inr (pg1, g1, this1), Inr (pg3, g3, this3)) \<Rightarrow>
               data_theme pg1 = Some ''dark'' \<and> data_theme pg3 = Some ''dark''
             \<and> color (material (mesh (qubits this1 ! 0))) = Some 0x0EA5E9
             \<and> color (material (mesh (qubits this3 ! 0))) = Some 0x06B6D4
         | _ \<Rightarrow> False)
    | _ \<Rightarrow> False)"
proof -
  let ?g = "\<lambda>n::nat. if n < 100 then 9 / 10 else 1 / 10 :: real"
  have h1: "elements light_page ''tech-canvas'' = Some \<lparr>offsetWidth = 800, offsetHeight = 600, canvases = 0\<rparr>"
    by (simp add: light_page_def demo_page_def)
  have h2: "fields_of (getThemeColors (data_theme light_page)) = Inr ThemeColors_light"
    by (simp add: light_page_def getCurrentTheme_def getThemeColors_def ThemeColors_def)
  from QuantumProcessorScene_built[OF h1 h2, of ?g]
  obtain pg this where built: "QuantumProcessorScene ''tech-canvas'' light_page ?g = (pg, skip 75 ?g, Inr (Built this))"
    and theme: "data_theme pg = data_theme light_page"
    and grid: "map rest_position (qubits this) = qubit_grid"
    by blast
  have t0: "data_theme pg = Some ''light''"
    by (simp add: theme light_page_def)
  have len: "length (qubits this) = 25"
    using arg_cong[OF grid, of length] by (simp add: qubit_grid_explicit)
  let ?pg1 = "toggle_click pg"
  let ?pg2 = "toggle_click ?pg1"
  let ?pg3 = "toggle_click ?pg2"
  have t1: "data_theme ?pg1 = Some ''dark''" using t0 by (rule toggle_click_theme)
  have t2: "data_theme ?pg2 = Some ''light''" using t1 by (rule toggle_click_theme)
  have t3: "data_theme ?pg3 = Some ''dark''" using t2 by (rule toggle_click_theme)
  let ?x1 = "fst (processor_updateColors_dark ThemeColors_dark (skip 75 ?g) this)"
  let ?x2 = "processor_updateColors_light ThemeColors_light ?x1"
  let ?x3 = "fst (processor_updateColors_dark ThemeColors_dark (skip 100 ?g) ?x2)"
  have s1: "toggle_theme processor_updateColors (pg, skip 75 ?g, this) = Inr (?pg1, skip 100 ?g, ?x1)"
    by (simp add: toggle_theme_eq processor_updateColors_dark_page[OF t1] len split_def)
  have s2: "toggle_theme processor_updateColors (?pg1, skip 100 ?g, ?x1) = Inr (?pg2, skip 100 ?g, ?x2)"
    by (simp add: toggle_theme_eq processor_updateColors_light_page[OF t2])
  have s3: "toggle_theme processor_updateColors (?pg2, skip 100 ?g, ?x2) = Inr (?pg3, skip 125 ?g, ?x3)"
    by (simp add: toggle_theme_eq processor_updateColors_dark_page[OF t3] len split_def)
  have one: "toggles processor_updateColors 1 (pg, skip 75 ?g, this) = Inr (?pg1, skip 100 ?g, ?x1)"
  proof -
    have n1: "(1::nat) = Suc 0" by simp
    show ?thesis
      by (subst n1) (simp only: toggles.simps s1 sum.case)
  qed
  have three: "toggles processor_updateColors 3 (pg, skip 75 ?g, this) = Inr (?pg3, skip 125 ?g, ?x3)"
  proof -
    have n3: "(3::nat) = Suc (Suc (Suc 0))" by simp
    show ?thesis
      by (subst n3) (simp only: toggles.simps s1 s2 s3 sum.case)
  qed
  have c1: "color (material (mesh (qubits ?x1 ! 0))) = Some 0x0EA5E9"
    using dark_qubit_color[of 0 this ThemeColors_dark "skip 75 ?g"]
    by (simp add: len skip_apply ThemeColors_dark_def)
  have c3: "color (material (mesh (qubits ?x3 ! 0))) = Some 0x06B6D4"
    using dark_qubit_color[of 0 ?x2 ThemeColors_dark "skip 100 ?g"]
    by (simp add: len skip_apply ThemeColors_dark_def)
  show ?thesis
    by (simp only: built prod.case sum.case scene_object.case one three t1 t3 c1 c3 simp_thms)
qed

text \<open>
  C5, amended. Building a scene of any of the five classes, in a container that exists
  and under a supported theme, registers exactly one theme observer. Any number of
  toggles after that, at least one, succeeds and leaves the observers of the page as they
  were, and the scene it ends in is the one that a single toggle to the same final theme
  produces from the built scene when it draws the same random samples as the last of the
  toggles. For the feature scene this holds of everything but the opacity of the
  electrons.
\<close>

theorem toggles_converge:
  assumes el: "elements pg containerId = Some el"
      and theme: "supported pg"
  shows "(\<exists>pgb gb this. QuantumHeroScene containerId pg g = (pgb, gb, Inr (Built this))
            \<and> theme_observers pgb = theme_observers pg @ [Hero]
            \<and> toggling_converges hero_updateColors (\<lambda>s. s) n (pgb, gb, this))
       \<and> (\<exists>pgb gb this. QuantumProcessorScene containerId pg g = (pgb, gb, Inr (Built this))
            \<and> theme_observers pgb = theme_observers pg @ [Processor]
            \<and> toggling_converges processor_updateColors (\<lambda>s. s) n (pgb, gb, this))
       \<and> (\<exists>pgb gb this. NeuralNetworkScene containerId pg g = (pgb, gb, Inr (Built this))
            \<and> theme_observers pgb = theme_observers pg @ [Neural]
            \<and> toggling_converges neural_updateColors (\<lambda>s. s) n (pgb, gb, this))
       \<and> (\<exists>pgb gb this. FloatingParticlesScene containerId pg g = (pgb, gb, Inr (Built this))
            \<and> theme_observers pgb = theme_observers pg @ [Floating]
            \<and> toggling_converges floating_updateColors (\<lambda>s. s) n (pgb, gb, this))
       \<and> (\<exists>pgb gb this. FeatureQuantumScene containerId pg g = (pgb, gb, Inr (Built this))
            \<and> theme_observers pgb = theme_observers pg @ [Feature]
            \<and> toggling_converges feature_updateColors electron_opacity_erased n (pgb, gb, this))"
proof -
  from theme have theme': "getCurrentTheme (data_theme pg) = ''dark'' \<or> getCurrentTheme (data_theme pg) = ''light''"
    by (simp add: supported_def)
  from supported_theme_fields[OF theme']
  obtain colors where colors: "fields_of (getThemeColors (data_theme pg)) = Inr colors"
    by blast
  have hero: "\<exists>pgb gb this. QuantumHeroScene containerId pg g = (pgb, gb, Inr (Built this))
            \<and> theme_observers pgb = theme_observers pg @ [Hero]
            \<and> toggling_converges hero_updateColors (\<lambda>s. s) n (pgb, gb, this)"
    using QuantumHeroScene_built[OF el theme', of g] hero_converges by blast
  have processor: "\<exists>pgb gb this. QuantumProcessorScene containerId pg g = (pgb, gb, Inr (Built this))
            \<and> theme_observers pgb = theme_observers pg @ [Processor]
            \<and> toggling_converges processor_updateColors (\<lambda>s. s) n (pgb, gb, this)"
    using QuantumProcessorScene_built[OF el colors, of g] processor_converges by blast
  have neural: "\<exists>pgb gb this. NeuralNetworkScene containerId pg g = (pgb, gb, Inr (Built this))
            \<and> theme_observers pgb = theme_observers pg @ [Neural]
            \<and> toggling_converges neural_updateColors (\<lambda>s. s) n (pgb, gb, this)"
    using NeuralNetworkScene_built[OF el colors, of g] neural_converges by blast
  have floating: "\<exists>pgb gb this. FloatingParticlesScene containerId pg g = (pgb, gb, Inr (Built this))
            \<and> theme_observers pgb = theme_observers pg @ [Floating]
            \<and> toggling_converges floating_updateColors (\<lambda>s. s) n (pgb, gb, this)"
    using FloatingParticlesScene_built[OF el colors, of g] floating_converges by blast
  have feature: "\<exists>pgb gb this. FeatureQuantumScene containerId pg g = (pgb, gb, Inr (Built this))
            \<and> theme_observers pgb = theme_observers pg @ [Feature]
            \<and> toggling_converges feature_updateColors electron_opacity_erased n (pgb, gb, this)"
    using FeatureQuantumScene_built[OF el colors, of g] feature_converges by blast
  from hero processor neural floating feature show ?thesis
    by (intro conjI)
qed

theorem toggles_converge_witness:
  "elements demo_page ''hero-canvas'' = Some \<lparr>offsetWidth = 1280, offsetHeight = 720, canvases = 0\<rparr>
   \<and> supported demo_page
   \<and> (\<exists>pgb gb this. QuantumHeroScene ''hero-canvas'' demo_page (\<lambda>n. 1 / 2) = (pgb, gb, Inr (Built this))
          \<and> theme_observers pgb = [Hero]
          \<and> toggling_converges hero_updateColors (\<lambda>s. s) 3 (pgb, gb, this))
   \<and> (\<exists>pgb gb this. FeatureQuantumScene ''hero-canvas'' demo_page (\<lambda>n. 1 / 2) = (pgb, gb, Inr (Built this))
          \<and> theme_observers pgb = [Feature]
          \<and> toggling_converges feature_updateColors electron_opacity_erased 3 (pgb, gb, this))"
proof -
  have h1: "elements demo_page ''hero-canvas'' = Some \<lparr>offsetWidth = 1280, offsetHeight = 720, canvases = 0\<rparr>"
    by (simp add: demo_page_def)
  have h2: "supported demo_page"
    by (simp add: supported_def demo_page_def getCurrentTheme_def)
  have obs: "theme_observers demo_page = []"
    by (simp add: demo_page_def)
  from toggles_converge[OF h1 h2, of "\<lambda>n. 1 / 2" 3] h1 h2
  show ?thesis
    unfolding obs append_Nil by blast
qed

section \<open>What a recolouring changes\<close>

lemma unpainted_paint [simp]:
  "unpainted (setHex c ob) = unpainted ob" "unpainted (set_opacity opac ob) = unpainted ob"
  by (simp_all add: unpainted_def setHex_def set_opacity_def)

lemma hero_light_frame: "hero_unpainted (hero_updateColors_light colors this) = hero_unpainted this"
  unfolding hero_updateColors_light_def hero_unpainted_def
  by (simp add: option.map_comp comp_def split_def Let_def map_snd_enumerate_fun[where G = "\<lambda>ob. ob\<lparr>mesh := unpainted (mesh ob)\<rparr>"])

lemma hero_dark_frame: "hero_unpainted (fst (hero_updateColors_dark colors g this)) = hero_unpainted this"
  unfolding hero_updateColors_dark_def hero_unpainted_def
  by (simp add: option.map_comp comp_def split_def Let_def map_snd_enumerate_fun[where G = "\<lambda>ob. ob\<lparr>mesh := unpainted (mesh ob)\<rparr>"])

lemma processor_light_frame:
  "processor_unpainted (processor_updateColors_light colors this) = processor_unpainted this"
  unfolding processor_updateColors_light_def processor_unpainted_def
  by (simp add: option.map_comp comp_def split_def Let_def map_snd_enumerate_fun[where G = "\<lambda>q. q\<lparr>mesh := unpainted (mesh q), ring := unpainted (ring q)\<rparr>"])

lemma processor_dark_frame:
  "processor_unpainted (fst (processor_updateColors_dark colors g this)) = processor_unpainted this"
  unfolding processor_updateColors_dark_def processor_unpainted_def
  by (simp add: option.map_comp comp_def split_def Let_def map_snd_enumerate_fun[where G = "\<lambda>q. q\<lparr>mesh := unpainted (mesh q), ring := unpainted (ring q)\<rparr>"])

lemma neural_light_frame:
  "neural_unpainted (neural_updateColors_light colors this) = neural_unpainted this"
  unfolding neural_updateColors_light_def neural_unpainted_def
  by (simp add: comp_def Let_def)

lemma neural_dark_frame:
  "neural_unpainted (neural_updateColors_dark colors this) = neural_unpainted this"
  unfolding neural_updateColors_dark_def neural_unpainted_def
  by (simp add: comp_def Let_def)

lemma orbit_unpainted_paint [simp]:
  "orbit_unpainted (setHex c ob) = orbit_unpainted ob"
  "orbit_unpainted (set_opacity opac ob) = orbit_unpainted ob"
  by (simp_all add: orbit_unpainted_def unpainted_def setHex_def set_opacity_def)

lemma orbit_unpainted_electron:
  "children ob = electron # others \<Longrightarrow> unpainted electron' = unpainted electron \<Longrightarrow>
   orbit_unpainted (ob\<lparr>children := electron' # others\<rparr>) = orbit_unpainted ob"
  by (simp add: orbit_unpainted_def unpainted_def)

lemma children_paint [simp]:
  "children (setHex c ob) = children ob" "children (set_opacity opac ob) = children ob"
  by (simp_all add: setHex_def set_opacity_def)

lemma light_orbit_frame: "orbit_unpainted (light_orbit colors i ob) = orbit_unpainted ob"
  by (simp add: light_orbit_def Let_def orbit_unpainted_electron split: list.splits)

lemma dark_orbit_frame: "orbit_unpainted (dark_orbit colors i ob) = orbit_unpainted ob"
  by (simp add: dark_orbit_def Let_def orbit_unpainted_electron split: list.splits)

lemma feature_light_frame:
  "feature_unpainted (feature_updateColors_light colors this) = feature_unpainted this"
  unfolding feature_updateColors_light_def feature_unpainted_def
  by (simp add: option.map_comp comp_def split_def light_orbit_frame
      map_snd_enumerate_fun[where G = orbit_unpainted])

lemma feature_dark_frame:
  "feature_unpainted (feature_updateColors_dark colors this) = feature_unpainted this"
  unfolding feature_updateColors_dark_def feature_unpainted_def
  by (simp add: option.map_comp comp_def split_def dark_orbit_frame
      map_snd_enumerate_fun[where G = orbit_unpainted])

lemma identities_unpainted [simp]: "identities (unpainted ob) = identities ob"
  by (simp add: identities_def unpainted_def)

lemma hero_unpainted_keeps:
  "hero_identities (hero_unpainted this) = hero_identities this"
  "allocated (hero_unpainted this) = allocated this"
  by (cases "hero.core this"; cases "innerCore this"; cases "glowSphere this";
      cases "particleSystem this";
      simp add: hero_identities_def hero_unpainted_def comp_def)+

lemma processor_unpainted_keeps:
  "processor_identities (processor_unpainted this) = processor_identities this"
  "allocated (processor_unpainted this) = allocated this"
  by (cases "gridHelper this"; simp add: processor_identities_def processor_unpainted_def comp_def)+

lemma neural_unpainted_keeps:
  "neural_identities (neural_unpainted this) = neural_identities this"
  "allocated (neural_unpainted this) = allocated this"
  by (simp_all add: neural_identities_def neural_unpainted_def comp_def)

lemma floating_unpainted_keeps:
  "floating_identities (floating_unpainted this) = floating_identities this"
  "allocated (floating_unpainted this) = allocated this"
  by (cases "particles this"; simp add: floating_identities_def floating_unpainted_def)+

lemma orbit_unpainted_identities:
  "identities (orbit_unpainted ob) @ concat (map identities (children (orbit_unpainted ob)))
   = identities ob @ concat (map identities (children ob))"
  by (cases "children ob") (simp_all add: orbit_unpainted_def identities_def unpainted_def)

lemma feature_unpainted_keeps:
  "feature_identities (feature_unpainted this) = feature_identities this"
  "allocated (feature_unpainted this) = allocated this"
  by (cases "core this"; simp add: feature_identities_def feature_unpainted_def comp_def
        orbit_unpainted_identities)+

lemma updateColors_frames:
  assumes "getCurrentTheme (data_theme pg) = ''dark'' \<or> getCurrentTheme (data_theme pg) = ''light''"
  shows "(\<exists>h' g'. hero_updateColors pg g h = Inr (h', g') \<and> hero_unpainted h' = hero_unpainted h)
       \<and> (\<exists>p' g'. processor_updateColors pg g p = Inr (p', g')
                \<and> processor_unpainted p' = processor_unpainted p)
       \<and> (\<exists>n' g'. neural_updateColors pg g n = Inr (n', g') \<and> neural_unpainted n' = neural_unpainted n)
       \<and> (\<exists>fl' g'. floating_updateColors pg g fl = Inr (fl', g')
                \<and> floating_unpainted fl' = floating_unpainted fl)
       \<and> (\<exists>ft' g'. feature_updateColors pg g ft = Inr (ft', g')
                \<and> feature_unpainted ft' = feature_unpainted ft)"
  using assms
proof (cases rule: supported_theme_cases)
  case dark
  then show ?thesis
    using hero_dark_frame[of ThemeColors_dark g h] processor_dark_frame[of ThemeColors_dark g p]
    by (simp add: hero_updateColors_def processor_updateColors_def neural_updateColors_def
        floating_updateColors_def feature_updateColors_def neural_dark_frame feature_dark_frame
        floating_unpainted_def option.map_comp comp_def prod_eq_iff)
next
  case light
  then show ?thesis
    by (simp add: hero_updateColors_def processor_updateColors_def neural_updateColors_def
        floating_updateColors_def feature_updateColors_def hero_light_frame processor_light_frame
        neural_light_frame feature_light_frame
        floating_unpainted_def option.map_comp comp_def)
qed


lemma append_upt:
  assumes "a \<le> b" "b \<le> c"
  shows "[a..<b] @ [b..<c] = [a..<c]"
proof -
  from assms(2) obtain k where "c = b + k" using le_Suc_ex by blast
  then show ?thesis using upt_add_eq_append[OF assms(1), of k] by simp
qed

lemma createQuantumCore_identities:
  assumes "hero_createQuantumCore pg this = Inr this1"
  shows "concat (map identities (present (hero.core this1) @ present (innerCore this1)
                                 @ present (glowSphere this1)))
         = [allocated this..<allocated this + 9]"
    and "particleSystem this1 = particleSystem this"
    and "quantumOrbitals this1 = quantumOrbitals this"
    and "entanglementLines this1 = entanglementLines this"
    and "allocated this1 = allocated this + 9"
proof -
  from assms obtain colors where c: "fields_of (getThemeColors (data_theme pg)) = Inr colors"
    by (cases "fields_of (getThemeColors (data_theme pg))") (auto simp: hero_createQuantumCore_def)
  from assms have
    this1: "this1 = this\<lparr>
            hero.core := Some (Mesh (allocated this) (IcosahedronGeometry 2 2)
                      (MeshBasicMaterial (primary colors) True True (Some 0.8))),
            innerCore := Some (Mesh (allocated this + 3) (IcosahedronGeometry 1 1)
                      (MeshBasicMaterial (secondary colors) True True (Some 0.6))),
            glowSphere := Some (Mesh (allocated this + 6) (SphereGeometry 0.5 32 32)
                      (MeshBasicMaterial (primary colors) False True (glowOpacity colors))),
            scene_children := scene_children this + 3,
            allocated := allocated this + 9\<rparr>"
    by (simp add: hero_createQuantumCore_def c)
  show "concat (map identities (present (hero.core this1) @ present (innerCore this1)
                                 @ present (glowSphere this1)))
         = [allocated this..<allocated this + 9]"
    unfolding this1 by (simp add: upt_conv_Cons)
  show "particleSystem this1 = particleSystem this" "quantumOrbitals this1 = quantumOrbitals this"
    "entanglementLines this1 = entanglementLines this" "allocated this1 = allocated this + 9"
    by (simp_all add: this1)
qed

lemma createParticles_identities:
  assumes "hero_createParticles pg g this = Inr (this1, g1)"
  shows "concat (map identities (present (particleSystem this1)))
         = [allocated this..<allocated this + 3]"
    and "hero.core this1 = hero.core this" and "innerCore this1 = innerCore this"
    and "glowSphere this1 = glowSphere this"
    and "quantumOrbitals this1 = quantumOrbitals this"
    and "entanglementLines this1 = entanglementLines this"
    and "allocated this1 = allocated this + 3"
  using assms
  by (auto simp: hero_createParticles_def Let_def identities_def
      upt_rec[of "allocated this"] upt_rec[of "Suc (allocated this)"]
      upt_rec[of "Suc (Suc (allocated this))"]
      split: sum.splits prod.splits if_splits)

lemma orbital_ring_identities [simp]:
  "identities (mesh (orbital_ring n colors i)) = [n..<n + 3]"
  by (simp add: orbital_ring_def Let_def identities_Mesh_upt del: identities_Mesh)

lemma entangled_line_identities [simp]:
  "identities (mesh (entangled_line n colors g)) = [n..<n + 3]"
  by (simp add: entangled_line_def Let_def identities_Mesh_upt del: identities_Mesh)

lemma createOrbitalRings_identities:
  assumes "hero_createOrbitalRings pg this = Inr this1"
  shows "concat (map (\<lambda>ob. identities (mesh ob)) (quantumOrbitals this1))
         = concat (map (\<lambda>ob. identities (mesh ob)) (quantumOrbitals this))
           @ [allocated this..<allocated this + 9]"
    and "hero.core this1 = hero.core this" and "innerCore this1 = innerCore this"
    and "glowSphere this1 = glowSphere this"
    and "particleSystem this1 = particleSystem this"
    and "entanglementLines this1 = entanglementLines this"
    and "allocated this1 = allocated this + 9"
proof -
  from assms obtain colors where c: "fields_of (getThemeColors (data_theme pg)) = Inr colors"
    by (cases "fields_of (getThemeColors (data_theme pg))") (auto simp: hero_createOrbitalRings_def)
  from assms have
    this1: "this1 = this\<lparr>quantumOrbitals := quantumOrbitals this @
               map (\<lambda>i. orbital_ring (allocated this + 3 * i) colors i) [0..<3],
          scene_children := scene_children this + 3,
          allocated := allocated this + 3 * 3\<rparr>"
    unfolding hero_createOrbitalRings_def c sum.case
      rings_loop[where R = "\<lambda>n. orbital_ring n colors"]
    by simp
  have "concat (map (\<lambda>i. [allocated this + 3 * i..<allocated this + 3 * i + 3]) [0..<3])
      = [allocated this..<allocated this + 3 * 3]"
    by (rule consecutive_identities)
  then show "concat (map (\<lambda>ob. identities (mesh ob)) (quantumOrbitals this1))
         = concat (map (\<lambda>ob. identities (mesh ob)) (quantumOrbitals this))
           @ [allocated this..<allocated this + 9]"
    unfolding this1 by (simp add: comp_def)
  show "hero.core this1 = hero.core this" "innerCore this1 = innerCore this"
    "glowSphere this1 = glowSphere this" "particleSystem this1 = particleSystem this"
    "entanglementLines this1 = entanglementLines this" "allocated this1 = allocated this + 9"
    by (simp_all add: this1)
qed

lemma createEntanglementLines_identities:
  assumes "hero_createEntanglementLines pg g this = Inr (this1, g1)"
  shows "concat (map (\<lambda>ob. identities (mesh ob)) (entanglementLines this1))
         = [allocated this..<allocated this + 60]"
    and "hero.core this1 = hero.core this" and "innerCore this1 = innerCore this"
    and "glowSphere this1 = glowSphere this"
    and "particleSystem this1 = particleSystem this"
    and "quantumOrbitals this1 = quantumOrbitals this"
    and "allocated this1 = allocated this + 60"
proof -
  from assms obtain colors where c: "fields_of (getThemeColors (data_theme pg)) = Inr colors"
    by (cases "fields_of (getThemeColors (data_theme pg))")
       (auto simp: hero_createEntanglementLines_def)
  from assms have
    this1: "this1 = this\<lparr>entanglementLines :=
               map (\<lambda>i. entangled_line (allocated this + 3 * i) colors (skip (55 * i) g)) [0..<20],
            scene_children := scene_children this + 20,
            allocated := allocated this + 3 * 20\<rparr>"
    unfolding hero_createEntanglementLines_def Let_def c sum.case
      entanglement_loop[where L = "\<lambda>n. entangled_line n colors"]
    by simp
  have "concat (map (\<lambda>i. [allocated this + 3 * i..<allocated this + 3 * i + 3]) [0..<20])
      = [allocated this..<allocated this + 3 * 20]"
    by (rule consecutive_identities)
  then show "concat (map (\<lambda>ob. identities (mesh ob)) (entanglementLines this1))
         = [allocated this..<allocated this + 60]"
    unfolding this1 by (simp add: comp_def del: upt_Suc)
  show "hero.core this1 = hero.core this" "innerCore this1 = innerCore this"
    "glowSphere this1 = glowSphere this" "particleSystem this1 = particleSystem this"
    "quantumOrbitals this1 = quantumOrbitals this" "allocated this1 = allocated this + 60"
    by (simp_all add: this1)
qed

lemma hero_tick_identities:
  "hero_identities (hero_tick time this) = hero_identities this"
  "allocated (hero_tick time this) = allocated this"
  by (cases "hero.core this"; cases "innerCore this"; cases "glowSphere this";
      cases "particleSystem this";
      simp add: hero_tick_def Let_def hero_identities_def comp_def identities_def set_opacity_def
        split: prod.splits)+

lemma hero_init_identities:
  assumes "hero_init pg g this = (pg', g', Inr this')"
      and "allocated this = 0" "quantumOrbitals this = []"
  shows "hero_identities this' = [0..<81]" "allocated this' = 81"
proof -
  obtain w h where wh: "container_size pg (container this) = (w, h)"
    by (cases "container_size pg (container this)")
  let ?pg = "appendChild (container this) pg"
  let ?start = "this\<lparr>renderer := (setSize w h (renderer this))\<lparr>pixelRatio := min (devicePixelRatio pg) 2\<rparr>,
      camera := (camera this)\<lparr>position := set_z 30 (position (camera this))\<rparr>\<rparr>"
  from assms(1) have "\<exists>this1 this2 g2 this3 this4 g4.
      hero_createQuantumCore ?pg ?start = Inr this1
    \<and> hero_createParticles ?pg g this1 = Inr (this2, g2)
    \<and> hero_createOrbitalRings ?pg this2 = Inr this3
    \<and> hero_createEntanglementLines ?pg g2 this3 = Inr (this4, g4)
    \<and> this' = (hero_tick 0 this4)\<lparr>renderer := render (renderer (hero_tick 0 this4))\<rparr>"
    by (auto simp: hero_init_def wh Let_def hero_animate_def split: sum.splits prod.splits)
  then obtain this1 this2 g2 this3 this4 g4 where
      1: "hero_createQuantumCore ?pg ?start = Inr this1"
    and 2: "hero_createParticles ?pg g this1 = Inr (this2, g2)"
    and 3: "hero_createOrbitalRings ?pg this2 = Inr this3"
    and 4: "hero_createEntanglementLines ?pg g2 this3 = Inr (this4, g4)"
    and 5: "this' = (hero_tick 0 this4)\<lparr>renderer := render (renderer (hero_tick 0 this4))\<rparr>"
    by blast
  note c = createQuantumCore_identities[OF 1]
  note p = createParticles_identities[OF 2]
  note r = createOrbitalRings_identities[OF 3]
  note l = createEntanglementLines_identities[OF 4]
  have a1: "allocated this1 = 9" using c(5) assms(2) by simp
  have a2: "allocated this2 = 12" using p(7) a1 by simp
  have a3: "allocated this3 = 21" using r(7) a2 by simp
  have a4: "allocated this4 = 81" using l(7) a3 by simp
  have core: "concat (map identities (present (hero.core this4) @ present (innerCore this4)
                                 @ present (glowSphere this4))) = [0..<9]"
    using c(1) assms(2) by (simp only: l(2-4) r(2-4) p(2-4)) simp
  have points: "concat (map identities (present (particleSystem this4))) = [9..<12]"
    using p(1) a1 by (simp only: l(5) r(5)) simp
  have rings: "concat (map (\<lambda>ob. identities (mesh ob)) (quantumOrbitals this4)) = [12..<21]"
    using r(1) a2 assms(3) by (simp only: l(6) p(5) c(3)) simp
  have lines: "concat (map (\<lambda>ob. identities (mesh ob)) (entanglementLines this4)) = [21..<81]"
    using l(1) a3 by simp
  have u1: "[0..<9] @ [9..<12] = [0..<12::nat]"
    by (rule append_upt) simp_all
  have u2: "[0..<12] @ [12..<21] = [0..<21::nat]"
    by (rule append_upt) simp_all
  have u3: "[0..<21] @ [21..<81] = [0..<81::nat]"
    by (rule append_upt) simp_all
  have "[0..<9] @ [9..<12] @ [12..<21] @ [21..<81] = [0..<81::nat]"
    using u1 u2 u3 by (metis append_assoc)
  then have "hero_identities this4 = [0..<81]"
    unfolding hero_identities_def core points rings lines by (simp only:)
  then show "hero_identities this' = [0..<81]"
    unfolding 5 using hero_tick_identities(1)[of 0 this4] by (simp add: hero_identities_def)
  show "allocated this' = 81"
    unfolding 5 using hero_tick_identities(2)[of 0 this4] a4 by simp
qed

lemma QuantumHeroScene_identities:
  assumes "QuantumHeroScene containerId pg g = (pg', g', Inr (Built this))"
  shows "hero_identities this = [0..<81]" "allocated this = 81"
proof -
  have "\<exists>init. hero_init pg g init = (pg', g', Inr this)
      \<and> allocated init = 0 \<and> quantumOrbitals init = []"
  proof (cases "elements pg containerId")
    case None
    with assms show ?thesis by (simp add: QuantumHeroScene_def)
  next
    case (Some el)
    let ?new = "\<lparr>container = containerId,
                   camera = PerspectiveCamera 75 (js_div (offsetWidth el) (offsetHeight el)) 0.1 1000,
                   renderer = WebGLRenderer, scene_children = 0, allocated = 0,
                   hero.core = None, innerCore = None, glowSphere = None, particleSystem = None,
                   hero.particles = [], quantumOrbitals = [], entanglementLines = [], mouse = (0, 0)\<rparr>"
    obtain pg1 g1 x where init: "hero_init pg g ?new = (pg1, g1, x)"
      by (cases "hero_init pg g ?new")
    with assms Some have "pg1 = pg'" "g1 = g'" "map_sum id Built x = Inr (Built this)"
      by (simp_all add: QuantumHeroScene_def)
    then have "hero_init pg g ?new = (pg', g', Inr this)"
      using init by (cases x) simp_all
    then show ?thesis
      by (intro exI[of _ ?new]) simp
  qed
  then obtain init where "hero_init pg g init = (pg', g', Inr this)"
    and "allocated init = 0" "quantumOrbitals init = []"
    by blast
  from hero_init_identities[OF this] show "hero_identities this = [0..<81]" "allocated this = 81"
    by simp_all
qed

lemma hero_tick_line_opacity:
  "\<forall>l\<in>set (entanglementLines (hero_tick time this)).
     \<exists>x. opacity (material (mesh l)) = Some (0.1 + 0.1 * sin x)"
  by (auto simp: hero_tick_def Let_def set_opacity_def split: option.splits prod.splits)

lemma QuantumHeroScene_frame:
  assumes "QuantumHeroScene containerId pg g = (pg', g', Inr (Built this))"
  shows "\<exists>before. this = (hero_tick 0 before)\<lparr>renderer := render (renderer (hero_tick 0 before))\<rparr>"
  using assms
  by (auto simp: QuantumHeroScene_def hero_init_def hero_animate_def Let_def
      split: option.splits sum.splits prod.splits)

lemma hero_light_lines:
  assumes "i < length (entanglementLines this)"
  shows "opacity (material (mesh (entanglementLines (hero_updateColors_light colors this) ! i)))
       = lineOpacity colors"
  using assms
  by (simp add: hero_updateColors_light_def nth_enumerate_eq set_opacity_def setHex_def)

lemma hero_updateColors_light_page:
  assumes "data_theme pg = Some ''light''"
  shows "hero_updateColors pg g x = Inr (hero_updateColors_light ThemeColors_light x, g)"
  using assms
  by (simp add: hero_updateColors_def getCurrentTheme_def getThemeColors_def ThemeColors_def)

lemma processor_light_ring:
  assumes "i < length (qubits this)"
  shows "color (material (ring (qubits (processor_updateColors_light colors this) ! i)))
       = [depth2 colors, depth3 colors, depth4 colors] ! (i mod 3)"
  using assms
  by (simp add: processor_updateColors_light_def nth_enumerate_eq set_opacity_def setHex_def Let_def)

text \<open>
  C4. Under a supported theme, \<open>updateColors\<close> of each of the five scenes returns
  normally, and the scene it leaves differs from the scene before in colours and
  opacities of materials at most: with these erased the two scenes are equal, so the
  camera, the renderer, the number of objects in the scene and in each list, every
  geometry and every transform are the same. No object, material or geometry is created:
  the scene has given out as many identities after the recolouring as before, and every
  object, every material and every geometry is the one that was there before, with the
  identity it was created with.
\<close>

theorem updateColors_only_paints:
  assumes "getCurrentTheme (data_theme pg) = ''dark'' \<or> getCurrentTheme (data_theme pg) = ''light''"
  shows "(\<exists>h' g'. hero_updateColors pg g h = Inr (h', g') \<and> hero_unpainted h' = hero_unpainted h
                \<and> allocated h' = allocated h \<and> hero_identities h' = hero_identities h)
       \<and> (\<exists>p' g'. processor_updateColors pg g p = Inr (p', g')
                \<and> processor_unpainted p' = processor_unpainted p
                \<and> allocated p' = allocated p \<and> processor_identities p' = processor_identities p)
       \<and> (\<exists>n' g'. neural_updateColors pg g n = Inr (n', g') \<and> neural_unpainted n' = neural_unpainted n
                \<and> allocated n' = allocated n \<and> neural_identities n' = neural_identities n)
       \<and> (\<exists>fl' g'. floating_updateColors pg g fl = Inr (fl', g')
                \<and> floating_unpainted fl' = floating_unpainted fl
                \<and> allocated fl' = allocated fl \<and> floating_identities fl' = floating_identities fl)
       \<and> (\<exists>ft' g'. feature_updateColors pg g ft = Inr (ft', g')
                \<and> feature_unpainted ft' = feature_unpainted ft
                \<and> allocated ft' = allocated ft \<and> feature_identities ft' = feature_identities ft)"
proof -
  from updateColors_frames[OF assms, of g h p n fl ft]
  obtain h' gh p' gp n' gn fl' gfl ft' gft where
      h: "hero_updateColors pg g h = Inr (h', gh)" "hero_unpainted h' = hero_unpainted h"
    and p: "processor_updateColors pg g p = Inr (p', gp)" "processor_unpainted p' = processor_unpainted p"
    and n: "neural_updateColors pg g n = Inr (n', gn)" "neural_unpainted n' = neural_unpainted n"
    and fl: "floating_updateColors pg g fl = Inr (fl', gfl)" "floating_unpainted fl' = floating_unpainted fl"
    and ft: "feature_updateColors pg g ft = Inr (ft', gft)" "feature_unpainted ft' = feature_unpainted ft"
    by blast
  have "allocated h' = allocated h" "hero_identities h' = hero_identities h"
    using hero_unpainted_keeps[of h'] hero_unpainted_keeps[of h] h(2) by simp_all
  moreover have "allocated p' = allocated p" "processor_identities p' = processor_identities p"
    using processor_unpainted_keeps[of p'] processor_unpainted_keeps[of p] p(2) by simp_all
  moreover have "allocated n' = allocated n" "neural_identities n' = neural_identities n"
    using neural_unpainted_keeps[of n'] neural_unpainted_keeps[of n] n(2) by simp_all
  moreover have "allocated fl' = allocated fl" "floating_identities fl' = floating_identities fl"
    using floating_unpainted_keeps[of fl'] floating_unpainted_keeps[of fl] fl(2) by simp_all
  moreover have "allocated ft' = allocated ft" "feature_identities ft' = feature_identities ft"
    using feature_unpainted_keeps[of ft'] feature_unpainted_keeps[of ft] ft(2) by simp_all
  ultimately show ?thesis
    using h p n fl ft by simp
qed

theorem updateColors_only_paints_witness:
  "(\<exists>pg' g' h. QuantumHeroScene ''hero-canvas'' demo_page (\<lambda>n. 1 / 2) = (pg', g', Inr (Built h))
       \<and> getCurrentTheme (data_theme (toggle_click pg')) = ''light''
       \<and> (\<exists>h' g''. hero_updateColors (toggle_click pg') g' h = Inr (h', g'')
             \<and> hero_unpainted h' = hero_unpainted h
             \<and> allocated h' = allocated h \<and> hero_identities h' = hero_identities h
             \<and> hero_identities h = [0..<81] \<and> allocated h = 81
             \<and> opacity (material (mesh (entanglementLines h' ! 0))) = Some 0.35
             \<and> opacity (material (mesh (entanglementLines h ! 0))) \<noteq> Some 0.35))
   \<and> (\<exists>pg' g' p. QuantumProcessorScene ''tech-canvas'' demo_page (\<lambda>n. 1 / 2) = (pg', g', Inr (Built p))
       \<and> getCurrentTheme (data_theme (toggle_click pg')) = ''light''
       \<and> (\<exists>p' g''. processor_updateColors (toggle_click pg') g' p = Inr (p', g'')
             \<and> processor_unpainted p' = processor_unpainted p
             \<and> allocated p' = allocated p \<and> processor_identities p' = processor_identities p
             \<and> processor_identities p = [0..<153] @ [154..<274] \<and> allocated p = 274
             \<and> color (material (ring (qubits p' ! 0))) = Some 0x2563eb
             \<and> color (material (ring (qubits p ! 0))) = Some 0x0EA5E9))"
proof -
  let ?g = "\<lambda>n::nat. 1 / 2 :: real"
  have dark: "data_theme demo_page = Some ''dark''"
    by (simp add: demo_page_def)
  have supp: "getCurrentTheme (data_theme demo_page) = ''dark''
      \<or> getCurrentTheme (data_theme demo_page) = ''light''"
    by (simp add: dark getCurrentTheme_def)
  have colors: "fields_of (getThemeColors (data_theme demo_page)) = Inr ThemeColors_dark"
    by (simp add: dark getCurrentTheme_def getThemeColors_def ThemeColors_def)
  have hero: "\<exists>pg' g' h. QuantumHeroScene ''hero-canvas'' demo_page ?g = (pg', g', Inr (Built h))
       \<and> getCurrentTheme (data_theme (toggle_click pg')) = ''light''
       \<and> (\<exists>h' g''. hero_updateColors (toggle_click pg') g' h = Inr (h', g'')
             \<and> hero_unpainted h' = hero_unpainted h
             \<and> allocated h' = allocated h \<and> hero_identities h' = hero_identities h
             \<and> hero_identities h = [0..<81] \<and> allocated h = 81
             \<and> opacity (material (mesh (entanglementLines h' ! 0))) = Some 0.35
             \<and> opacity (material (mesh (entanglementLines h ! 0))) \<noteq> Some 0.35)"
  proof -
    have el: "elements demo_page ''hero-canvas'' = Some \<lparr>offsetWidth = 1280, offsetHeight = 720, canvases = 0\<rparr>"
      by (simp add: demo_page_def)
    from QuantumHeroScene_built[OF el supp, of ?g]
    obtain pg' g' h where built: "QuantumHeroScene ''hero-canvas'' demo_page ?g = (pg', g', Inr (Built h))"
      and theme: "data_theme pg' = data_theme demo_page"
      and len: "length (entanglementLines h) = 20"
      by blast
    have light: "data_theme (toggle_click pg') = Some ''light''"
      by (rule toggle_click_theme) (simp add: theme dark)
    then have light': "getCurrentTheme (data_theme (toggle_click pg')) = ''light''"
      by (simp add: getCurrentTheme_def)
    then have supp': "getCurrentTheme (data_theme (toggle_click pg')) = ''dark''
      \<or> getCurrentTheme (data_theme (toggle_click pg')) = ''light''" by simp
    from updateColors_only_paints[OF supp', of g' h sample_processor sample_neural
        sample_floating sample_feature]
    obtain h' g'' where upd: "hero_updateColors (toggle_click pg') g' h = Inr (h', g'')"
      and same: "hero_unpainted h' = hero_unpainted h" "allocated h' = allocated h"
        "hero_identities h' = hero_identities h"
      by blast
    from upd have h': "h' = hero_updateColors_light ThemeColors_light h"
      by (simp add: hero_updateColors_light_page[OF light])
    have after: "opacity (material (mesh (entanglementLines h' ! 0))) = Some 0.35"
      unfolding h' using hero_light_lines[of 0 h ThemeColors_light] len
      by (simp add: ThemeColors_light_def)
    from QuantumHeroScene_frame[OF built] obtain before where
      "h = (hero_tick 0 before)\<lparr>renderer := render (renderer (hero_tick 0 before))\<rparr>"
      by blast
    then have "\<forall>l\<in>set (entanglementLines h). \<exists>x. opacity (material (mesh l)) = Some (0.1 + 0.1 * sin x)"
      using hero_tick_line_opacity[of 0 before] by simp
    moreover have "entanglementLines h ! 0 \<in> set (entanglementLines h)"
      using len by simp
    ultimately obtain x where "opacity (material (mesh (entanglementLines h ! 0))) = Some (0.1 + 0.1 * sin x)"
      by blast
    moreover have "0.1 + 0.1 * sin x \<noteq> (0.35 :: real)"
    proof -
      have "sin x \<le> 1" by simp
      then have "1 / 10 + 1 / 10 * sin x < (35 / 100 :: real)" by linarith
      then show ?thesis by simp
    qed
    ultimately have before: "opacity (material (mesh (entanglementLines h ! 0))) \<noteq> Some 0.35"
      by simp
    note ids = QuantumHeroScene_identities[OF built]
    from built light' upd same after before ids show ?thesis by blast
  qed
  have processor: "\<exists>pg' g' p. QuantumProcessorScene ''tech-canvas'' demo_page ?g = (pg', g', Inr (Built p))
       \<and> getCurrentTheme (data_theme (toggle_click pg')) = ''light''
       \<and> (\<exists>p' g''. processor_updateColors (toggle_click pg') g' p = Inr (p', g'')
             \<and> processor_unpainted p' = processor_unpainted p
             \<and> allocated p' = allocated p \<and> processor_identities p' = processor_identities p
             \<and> processor_identities p = [0..<153] @ [154..<274] \<and> allocated p = 274
             \<and> color (material (ring (qubits p' ! 0))) = Some 0x2563eb
             \<and> color (material (ring (qubits p ! 0))) = Some 0x0EA5E9)"
  proof -
    have el: "elements demo_page ''tech-canvas'' = Some \<lparr>offsetWidth = 800, offsetHeight = 600, canvases = 0\<rparr>"
      by (simp add: demo_page_def)
    from QuantumProcessorScene_built[OF el colors, of ?g]
    obtain pg' p where built: "QuantumProcessorScene ''tech-canvas'' demo_page ?g = (pg', skip 75 ?g, Inr (Built p))"
      and theme: "data_theme pg' = data_theme demo_page"
      and grid: "map rest_position (qubits p) = qubit_grid"
      and paint: "\<forall>q\<in>set (qubits p). color (material (ring q)) = primary ThemeColors_dark
                        \<and> opacity (material (mesh q)) = Some 0.9"
      and ids: "processor_identities p = [0..<153] @ [154..<274]" "allocated p = 274"
      by blast
    have len: "length (qubits p) = 25"
      using arg_cong[OF grid, of length] by (simp add: qubit_grid_explicit)
    have light: "data_theme (toggle_click pg') = Some ''light''"
      by (rule toggle_click_theme) (simp add: theme dark)
    then have light': "getCurrentTheme (data_theme (toggle_click pg')) = ''light''"
      by (simp add: getCurrentTheme_def)
    then have supp': "getCurrentTheme (data_theme (toggle_click pg')) = ''dark''
      \<or> getCurrentTheme (data_theme (toggle_click pg')) = ''light''" by simp
    from updateColors_only_paints[OF supp', of "skip 75 ?g" sample_hero p sample_neural
        sample_floating sample_feature]
    obtain p' g'' where upd: "processor_updateColors (toggle_click pg') (skip 75 ?g) p = Inr (p', g'')"
      and same: "processor_unpainted p' = processor_unpainted p" "allocated p' = allocated p"
        "processor_identities p' = processor_identities p"
      by blast
    from upd have p': "p' = processor_updateColors_light ThemeColors_light p"
      by (simp add: processor_updateColors_light_page[OF light])
    have after: "color (material (ring (qubits p' ! 0))) = Some 0x2563eb"
      unfolding p' using processor_light_ring[of 0 p ThemeColors_light] len
      by (simp add: ThemeColors_light_def)
    have "qubits p ! 0 \<in> set (qubits p)" using len by simp
    with paint have before: "color (material (ring (qubits p ! 0))) = Some 0x0EA5E9"
      by (simp add: ThemeColors_dark_def)
    from built light' upd same after before ids show ?thesis by blast
  qed
  from hero processor show ?thesis by (rule conjI)
qed

end
